theory Spec2Isabelle
  imports Main "HOL-Library.AList" "HOL-Library.Sublist"
begin

text \<open>
  The repository holds several revisions of one serverless handler that translates
  smart-home directives into HTTP calls against a device backend. Four of them are
  modelled here, each function under its source name, with a suffix where revisions
  differ:
  \<^item> \<open>src/index.js\<close>: suffix \<open>_index\<close>;
  \<^item> the third script of \<open>src/code.js\<close> (from its line 436): suffix \<open>_code3\<close>, sharing
    with \<open>index.js\<close> the functions whose text is the same;
  \<^item> \<open>src/unnamed/part_000\<close>, the latest revision: suffix \<open>_latest\<close>, or no suffix for the
    functions only it has;
  \<^item> \<open>src/unnamed/part_001\<close>: \<open>getResponse_legacy\<close> of its first script and
    \<open>getDeviceCapabilities\<close> of its second.

  Logging is left out. A handler is a function of the environment of one invocation and
  of the inbound event, and returns the requests it issued and how the invocation ended.
\<close>

section \<open>JavaScript values and the built-ins the handlers use\<close>

text \<open>
  The handlers are JavaScript: every value they touch (the inbound event, the device
  descriptors, the outbound envelopes) is a dynamically typed value.
  \<^item> A number is given by the text JavaScript prints for it (\<open>200\<close>, \<open>-1.5\<close>,
    \<open>1e+21\<close>): \<open>String\<close> and \<open>JSON.stringify\<close> of a number are that text, and
    \<open>===\<close> on numbers is equality of the texts. \<open>NaN\<close> and the infinities are left
    out: no value parsed from JSON, no status code and no byte count is one of them.
  \<^item> A string is a list of code units, all of them below 256.
  \<^item> An object is an association list with pairwise different keys, in JavaScript's
    property order: the keys that are array indices first, ascending, then the other
    keys in order of creation.
\<close>

datatype jsval =
    JUndefined
  | JNull
  | JBool bool
  | JNum string
  | JStr string
  | JArr "jsval list"
  | JObj "(string \<times> jsval) list"

text \<open>
  Thrown values. All of them are \<open>Error\<close> objects, whose \<open>message\<close> is an own but
  non-enumerable property:
  \<^item> \<open>NodeError msg props\<close>: the error that \<open>http.request\<close> emits on its \<open>error\<close>
    event, with its message and its own enumerable properties (\<open>code\<close>, \<open>errno\<close>,
    \<open>syscall\<close>, ...);
  \<^item> \<open>NewError msg\<close>: \<open>new Error(msg)\<close>, built by the program;
  \<^item> \<open>TypeError\<close>, \<open>SyntaxError\<close>: raised by the engine or by the platform's library
    (reading a property of \<open>undefined\<close> or \<open>null\<close>, calling what is not a function,
    \<open>http.request\<close> on a path with unescaped characters, \<open>write\<close> on what is not a
    string, \<open>JSON.parse\<close> on text that is not JSON); their message text is not the
    program's.
\<close>

datatype js_error =
    NodeError string "(string \<times> jsval) list"
  | NewError string
  | TypeError
  | SyntaxError

text \<open>The own enumerable properties of an error: all that \<open>JSON.stringify\<close> sees of it.\<close>

fun enumerable :: "js_error \<Rightarrow> jsval" where
  "enumerable (NodeError msg props) = JObj props"
| "enumerable (NewError msg) = JObj []"
| "enumerable TypeError = JObj []"
| "enumerable SyntaxError = JObj []"

text \<open>Sequencing of computations that may throw.\<close>

fun andThen :: "js_error + 'a \<Rightarrow> ('a \<Rightarrow> js_error + 'b) \<Rightarrow> js_error + 'b" where
  "andThen (Inl e) f = Inl e"
| "andThen (Inr x) f = f x"

fun truthy :: "jsval \<Rightarrow> bool" where
  "truthy JUndefined = False"
| "truthy JNull = False"
| "truthy (JBool b) = b"
| "truthy (JNum n) = (n \<noteq> ''0'')"
| "truthy (JStr s) = (s \<noteq> [])"
| "truthy (JArr xs) = True"
| "truthy (JObj kvs) = True"

text \<open>
  \<open>o.k\<close>: a TypeError on \<open>undefined\<close> and \<open>null\<close>, the member of an object, and
  \<open>undefined\<close> on every other value (none of the names the handlers read is a
  property of a string, number, boolean or array).
\<close>

fun get_prop :: "jsval \<Rightarrow> string \<Rightarrow> js_error + jsval" where
  "get_prop JUndefined k = Inl TypeError"
| "get_prop JNull k = Inl TypeError"
| "get_prop (JObj kvs) k = Inr (case map_of kvs k of None \<Rightarrow> JUndefined | Some v \<Rightarrow> v)"
| "get_prop v k = Inr JUndefined"

text \<open>\<open>a && b\<close>: the left operand when it is falsy, otherwise the right one.\<close>

definition js_and :: "jsval \<Rightarrow> (js_error + jsval) \<Rightarrow> js_error + jsval" where
  "js_and a b = (if truthy a then b else Inr a)"

subsection \<open>Numbers and strings\<close>

definition digit_char :: "nat \<Rightarrow> char" where
  "digit_char d = ''0123456789'' ! d"

function show_nat :: "nat \<Rightarrow> string" where
  "show_nat n = (if n < 10 then [digit_char n] else show_nat (n div 10) @ [digit_char (n mod 10)])"
  by pat_completeness auto
termination
  by (relation "measure id") auto

declare show_nat.simps [simp del]

definition show_int :: "int \<Rightarrow> string" where
  "show_int i = (if i < 0 then CHR ''-'' # show_nat (nat (- i)) else show_nat (nat i))"

text \<open>
  The number an integer is. The integers the program itself makes into numbers are status
  codes and byte counts, far below the size from which JavaScript prints a number
  otherwise than digit by digit.
\<close>

definition number :: "int \<Rightarrow> jsval" where
  "number i = JNum (show_int i)"

text \<open>Reading a decimal text.\<close>

definition digit_val :: "char \<Rightarrow> nat" where
  "digit_val c = of_char c - 48"

definition read_nat :: "string \<Rightarrow> nat" where
  "read_nat s = foldl (\<lambda>a c. 10 * a + digit_val c) 0 s"

text \<open>
  A key that is an array index: the decimal text, without leading zeros, of a number
  below \<open>2^32 - 1\<close>.
\<close>

definition is_index :: "string \<Rightarrow> bool" where
  "is_index k =
     (k = ''0''
      \<or> (k \<noteq> [] \<and> hd k \<in> set ''123456789'' \<and> list_all (\<lambda>c. c \<in> set ''0123456789'') k
         \<and> read_nat k < 4294967295))"

fun join :: "string \<Rightarrow> string list \<Rightarrow> string" where
  "join sep [] = []"
| "join sep [s] = s"
| "join sep (s # t # ts) = s @ sep @ join sep (t # ts)"

text \<open>
  The text of a value, as a template literal, \<open>RegExp.test\<close> and a property key
  convert their operand, when the conversion does not throw. An array is its elements
  joined by commas, \<open>null\<close> and \<open>undefined\<close> elements empty.
\<close>

fun to_string :: "jsval \<Rightarrow> string" where
  "to_string JUndefined = ''undefined''"
| "to_string JNull = ''null''"
| "to_string (JBool b) = (if b then ''true'' else ''false'')"
| "to_string (JNum n) = n"
| "to_string (JStr s) = s"
| "to_string (JArr xs) =
     join '','' (map (\<lambda>x. if x = JUndefined \<or> x = JNull then [] else to_string x) xs)"
| "to_string (JObj kvs) = ''[object Object]''"

text \<open>
  The conversion throws a TypeError on an object with a member of its own called
  \<open>toString\<close>: the member, which came out of \<open>JSON.parse\<close>, is no function, and
  \<open>valueOf\<close> gives no primitive value. It throws on an array when it throws on one of
  the elements it converts.
\<close>

fun printable :: "jsval \<Rightarrow> bool"
  and printable_elems :: "jsval list \<Rightarrow> bool" where
  "printable (JObj kvs) = (map_of kvs ''toString'' = None)"
| "printable (JArr xs) = printable_elems xs"
| "printable JUndefined = True"
| "printable JNull = True"
| "printable (JBool b) = True"
| "printable (JNum n) = True"
| "printable (JStr s) = True"
| "printable_elems [] = True"
| "printable_elems (x # xs) =
     ((x = JUndefined \<or> x = JNull \<or> printable x) \<and> printable_elems xs)"

definition ToString :: "jsval \<Rightarrow> js_error + string" where
  "ToString v = (if printable v then Inr (to_string v) else Inl TypeError)"

text \<open>
  A template literal: its parts are literal text and values, and the values are converted
  from left to right.
\<close>

datatype part = Lit string | Val jsval

fun template :: "part list \<Rightarrow> js_error + string" where
  "template [] = Inr []"
| "template (Lit s # ps) = andThen (template ps) (\<lambda>rest. Inr (s @ rest))"
| "template (Val v # ps) =
     andThen (ToString v) (\<lambda>text. andThen (template ps) (\<lambda>rest. Inr (text @ rest)))"

text \<open>
  \<open>s.trim()\<close> on code units below 256: tab, line feed, vertical tab, form feed,
  carriage return, space and no-break space are stripped from both ends.
\<close>

definition is_space :: "char \<Rightarrow> bool" where
  "is_space c = (of_char c \<in> {9, 10, 11, 12, 13, 32, 160 :: nat})"

definition trim :: "string \<Rightarrow> string" where
  "trim s = rev (dropWhile is_space (rev (dropWhile is_space s)))"

text \<open>\<open>v.trim()\<close> on any value: only a string has the method.\<close>

fun call_trim :: "jsval \<Rightarrow> js_error + string" where
  "call_trim (JStr s) = Inr (trim s)"
| "call_trim v = Inl TypeError"

text \<open>
  \<open>s.replace(a, b)\<close> with one-character strings \<open>a\<close> and \<open>b\<close>: only the first
  occurrence of \<open>a\<close> is replaced.
\<close>

fun replace :: "char \<Rightarrow> char \<Rightarrow> string \<Rightarrow> string" where
  "replace a b [] = []"
| "replace a b (c # cs) = (if c = a then b # cs else c # replace a b cs)"

fun call_replace :: "jsval \<Rightarrow> char \<Rightarrow> char \<Rightarrow> js_error + string" where
  "call_replace (JStr s) a b = Inr (replace a b s)"
| "call_replace v a b = Inl TypeError"

subsection \<open>JSON.stringify\<close>

definition hex_char :: "nat \<Rightarrow> char" where
  "hex_char d = ''0123456789abcdef'' ! d"

definition escape_char :: "char \<Rightarrow> string" where
  "escape_char c =
     (if c = CHR ''\"'' then [CHR 0x5C, CHR ''\"'']
      else if c = CHR 0x5C then [CHR 0x5C, CHR 0x5C]
      else if c = CHR 0x08 then [CHR 0x5C, CHR ''b'']
      else if c = CHR 0x0C then [CHR 0x5C, CHR ''f'']
      else if c = CHR 0x0A then [CHR 0x5C, CHR ''n'']
      else if c = CHR 0x0D then [CHR 0x5C, CHR ''r'']
      else if c = CHR 0x09 then [CHR 0x5C, CHR ''t'']
      else if (of_char c :: nat) < 32
        then [CHR 0x5C, CHR ''u'', CHR ''0'', CHR ''0'',
              hex_char (of_char c div 16), hex_char (of_char c mod 16)]
      else [c])"

definition quote :: "string \<Rightarrow> string" where
  "quote s = CHR ''\"'' # concat (map escape_char s) @ [CHR ''\"'']"

text \<open>
  The text of a value inside a document: an \<open>undefined\<close> array element is \<open>null\<close>,
  an object member whose value is \<open>undefined\<close> is left out.
\<close>

fun serialize :: "jsval \<Rightarrow> string"
  and serialize_elems :: "jsval list \<Rightarrow> string list"
  and serialize_members :: "(string \<times> jsval) list \<Rightarrow> string list" where
  "serialize JUndefined = ''null''"
| "serialize JNull = ''null''"
| "serialize (JBool b) = (if b then ''true'' else ''false'')"
| "serialize (JNum n) = n"
| "serialize (JStr s) = quote s"
| "serialize (JArr xs) = ''['' @ join '','' (serialize_elems xs) @ '']''"
| "serialize (JObj kvs) = ''{'' @ join '','' (serialize_members kvs) @ ''}''"
| "serialize_elems [] = []"
| "serialize_elems (x # xs) = serialize x # serialize_elems xs"
| "serialize_members [] = []"
| "serialize_members ((k, v) # kvs) =
     (if v = JUndefined then serialize_members kvs
      else (quote k @ '':'' @ serialize v) # serialize_members kvs)"

text \<open>
  \<open>JSON.stringify(v)\<close>: a string, or \<open>undefined\<close> for \<open>undefined\<close>. An error
  object is passed as \<open>enumerable e\<close>, which is all that is serialised of it.
\<close>

definition JSON_stringify :: "jsval \<Rightarrow> jsval" where
  "JSON_stringify v = (if v = JUndefined then JUndefined else JStr (serialize v))"

text \<open>\<open>Buffer.byteLength(s)\<close>: a code unit from 128 on takes two bytes of UTF-8.\<close>

definition byteLength :: "string \<Rightarrow> int" where
  "byteLength s = int (length s) + int (length (filter (\<lambda>c. 128 \<le> (of_char c :: nat)) s))"


subsection \<open>Objects\<close>

text \<open>
  \<open>o[k] = v\<close> on an object: the value of an existing key is replaced where it stands; a
  new key that is an array index is put among the array indices, in ascending order, and
  any other new key at the end.
\<close>

fun insert_index :: "string \<Rightarrow> jsval \<Rightarrow> (string \<times> jsval) list \<Rightarrow> (string \<times> jsval) list" where
  "insert_index k v [] = [(k, v)]"
| "insert_index k v (p # ps) =
     (if is_index (fst p) \<and> read_nat (fst p) < read_nat k then p # insert_index k v ps
      else (k, v) # p # ps)"

definition obj_put :: "string \<Rightarrow> jsval \<Rightarrow> (string \<times> jsval) list \<Rightarrow> (string \<times> jsval) list" where
  "obj_put k v kvs =
     (if is_index k \<and> map_of kvs k = None then insert_index k v kvs
      else AList.update k v kvs)"

text \<open>
  The own enumerable properties of a value, in the order \<open>for ... in\<close> and
  \<open>Object.assign\<close> visit them. A string or an array has its indices as keys; any other
  value that is not an object has none.
\<close>

fun indexed :: "nat \<Rightarrow> jsval list \<Rightarrow> (string \<times> jsval) list" where
  "indexed i [] = []"
| "indexed i (x # xs) = (show_nat i, x) # indexed (Suc i) xs"

fun own_entries :: "jsval \<Rightarrow> (string \<times> jsval) list" where
  "own_entries (JObj kvs) = kvs"
| "own_entries (JArr xs) = indexed 0 xs"
| "own_entries (JStr s) = indexed 0 (map (\<lambda>c. JStr [c]) s)"
| "own_entries v = []"

text \<open>\<open>Object.assign(target, source)\<close>, of the latest revision.\<close>

definition Object_assign :: "(string \<times> jsval) list \<Rightarrow> jsval \<Rightarrow> (string \<times> jsval) list" where
  "Object_assign target source = fold (\<lambda>(k, v). obj_put k v) (own_entries source) target"

text \<open>
  \<open>assign(target, source)\<close>, the function that \<open>index.js\<close> and \<open>code.js\<close> write out
  themselves. It asks \<open>source.hasOwnProperty(nextKey)\<close> for every key it visits: when
  the source is an object with a member of its own called \<open>hasOwnProperty\<close>, that
  member is no function and the call throws, at the first key.
\<close>

definition assign :: "(string \<times> jsval) list \<Rightarrow> jsval \<Rightarrow> js_error + (string \<times> jsval) list" where
  "assign target source =
     (case source of
        JObj kvs \<Rightarrow>
          if map_of kvs ''hasOwnProperty'' \<noteq> None then Inl TypeError
          else Inr (Object_assign target source)
      | _ \<Rightarrow> Inr (Object_assign target source))"

fun get_path :: "jsval \<Rightarrow> string list \<Rightarrow> js_error + jsval" where
  "get_path v [] = Inr v"
| "get_path v (k # ks) = andThen (get_prop v k) (\<lambda>w. get_path w ks)"

text \<open>\<open>xs.filter(f)\<close> where the callback may throw: the first throw ends the filter.\<close>

fun js_filter :: "(jsval \<Rightarrow> js_error + jsval) \<Rightarrow> jsval list \<Rightarrow> js_error + jsval list" where
  "js_filter f [] = Inr []"
| "js_filter f (x # xs) =
     andThen (f x) (\<lambda>keep. andThen (js_filter f xs) (\<lambda>rest.
       Inr (if truthy keep then x # rest else rest)))"

fun js_map :: "(jsval \<Rightarrow> js_error + jsval) \<Rightarrow> jsval list \<Rightarrow> js_error + jsval list" where
  "js_map f [] = Inr []"
| "js_map f (x # xs) =
     andThen (f x) (\<lambda>y. andThen (js_map f xs) (\<lambda>rest. Inr (y # rest)))"

text \<open>\<open>v.filter(f).map(g)\<close> on any value: only an array has the methods.\<close>

fun filter_map :: "(jsval \<Rightarrow> js_error + jsval) \<Rightarrow> (jsval \<Rightarrow> js_error + jsval) \<Rightarrow> jsval
    \<Rightarrow> js_error + jsval" where
  "filter_map f g (JArr xs) =
     andThen (js_filter f xs) (\<lambda>kept. andThen (js_map g kept) (\<lambda>ys. Inr (JArr ys)))"
| "filter_map f g v = Inl TypeError"

section \<open>The environment of one invocation\<close>

text \<open>
  A request is the options object handed to \<open>http.request\<close> and the data written to it
  (\<open>None\<close> when nothing is written). The transport answers a request in one of three
  ways: \<open>http.request\<close> itself throws, for options it does not accept (a port out of
  range, say), and nothing is sent; or the request emits its \<open>error\<close> event; or a
  response arrives, with status code, headers and the chunks of the body.
\<close>

type_synonym request = "jsval \<times> string option"

datatype reply =
    Refused js_error
  | SocketError js_error
  | Response int "(string \<times> jsval) list" "string list"

text \<open>
  What the program reads from outside: the configuration (\<open>process.env\<close>), the clock
  (\<open>Date.now()\<close> when the outbound envelope is built), the transport,
  \<open>JSON.parse\<close> (\<open>None\<close>: the text is not JSON and a SyntaxError is thrown), and the
  two errors that the platform's \<open>http\<close> library throws whatever the backend:
  \<open>unescaped\<close>, from \<open>http.request\<close> on a path with unescaped characters, and
  \<open>invalid_chunk\<close>, from \<open>write\<close> on what is not a string. Both are TypeErrors; which
  enumerable properties they have (none, or a \<open>code\<close>) depends on the platform's version.
\<close>

record env =
  remoteHost :: jsval
  remotePort :: jsval
  now :: int
  net :: "request \<Rightarrow> reply"
  JSON_parse :: "string \<Rightarrow> jsval option"
  unescaped :: js_error
  invalid_chunk :: js_error

text \<open>
  \<open>http.request(options, ...)\<close>. Whatever the backend, it throws on a path with a
  space or a control character in it (its check for unescaped characters), before
  anything is sent.
\<close>

definition invalid_path :: "string \<Rightarrow> bool" where
  "invalid_path path = list_ex (\<lambda>c. (of_char c :: nat) < 33) path"

definition http_request :: "env \<Rightarrow> request \<Rightarrow> reply" where
  "http_request env request =
     (case get_prop (fst request) ''path'' of
        Inr path \<Rightarrow>
          if truthy path then
            (case ToString path of
               Inl e \<Rightarrow> Refused e
             | Inr text \<Rightarrow>
                 if invalid_path text then Refused (unescaped env) else net env request)
          else net env request
      | Inl e \<Rightarrow> net env request)"

definition parse :: "env \<Rightarrow> jsval \<Rightarrow> js_error + jsval" where
  "parse env text =
     (case JSON_parse env (to_string text) of None \<Rightarrow> Inl SyntaxError | Some v \<Rightarrow> Inr v)"

text \<open>
  How an invocation ends: \<open>context.succeed(r)\<close>, \<open>context.fail(r)\<close>, or neither, because
  an exception left the handler, an event listener or a promise without a handler.
\<close>

datatype outcome = Succeed jsval | Fail jsval | Uncaught js_error

text \<open>An invocation: the requests sent, in order, and how it ended.\<close>

type_synonym run = "request list \<times> outcome"

text \<open>
  The part of a handler that runs before it calls the shim: an exception there leaves the
  handler, and the program, with nothing sent.
\<close>

definition sync :: "js_error + run \<Rightarrow> run" where
  "sync r = (case r of Inl e \<Rightarrow> ([], Uncaught e) | Inr x \<Rightarrow> x)"

abbreviation ERROR_TYPES_endpointUnreachable :: string where
  "ERROR_TYPES_endpointUnreachable \<equiv> ''ENDPOINT_UNREACHABLE''"
abbreviation ERROR_TYPES_invalidDirective :: string where
  "ERROR_TYPES_invalidDirective \<equiv> ''INVALID_DIRECTIVE''"
abbreviation ERROR_TYPES_internalError :: string where
  "ERROR_TYPES_internalError \<equiv> ''INTERNAL_ERROR''"

text \<open>\<open>/^TurnO(n|ff)$/.test(v)\<close>: the operand is converted to a string first.\<close>

definition test_TurnOnOff :: "jsval \<Rightarrow> js_error + bool" where
  "test_TurnOnOff v =
     andThen (ToString v) (\<lambda>text. Inr (text = ''TurnOn'' \<or> text = ''TurnOff''))"

text \<open>\<open>isEventValid\<close>, the same in every revision of the versioned protocol.\<close>

definition isEventValid :: "jsval \<Rightarrow> js_error + jsval" where
  "isEventValid event =
     js_and event (andThen (get_path event [''directive'']) (\<lambda>directive.
     js_and directive (andThen (get_path event [''directive'', ''header'']) (\<lambda>header.
     js_and header (andThen (get_path event [''directive'', ''header'', ''namespace''])
       (\<lambda>namespace.
     js_and namespace (get_path event [''directive'', ''header'', ''name''])))))))"

definition getCapability :: "string \<Rightarrow> jsval" where
  "getCapability interface =
     JObj [(''interface'', JStr interface), (''type'', JStr ''AlexaInterface''),
           (''version'', JStr ''1.0'')]"


section \<open>index.js\<close>

text \<open>
  The shim of \<open>index.js\<close>, which returns the requests sent and how the promise is
  settled. What \<open>http.request\<close> throws, and what \<open>write\<close> throws on data that is
  neither absent nor a string, is thrown inside the promise's executor: the promise is
  rejected and nothing is sent. Otherwise the promise is rejected on the request's
  \<open>error\<close> event and resolved, whatever the status, with status code, headers and the
  concatenated chunks.
\<close>

fun is_string :: "jsval \<Rightarrow> bool" where
  "is_string (JStr s) = True"
| "is_string v = False"

text \<open>
  \<open>if (postData !== undefined) outRequest.write(postData); outRequest.end()\<close>, once
  \<open>http.request\<close> has returned: the request is sent, unless \<open>write\<close> throws.
\<close>

definition write_end_index :: "env \<Rightarrow> jsval \<Rightarrow> request \<Rightarrow> (js_error + jsval)
    \<Rightarrow> request list \<times> (js_error + jsval)" where
  "write_end_index env postData outRequest settled =
     (if postData \<noteq> JUndefined \<and> \<not> is_string postData then ([], Inl (invalid_chunk env))
      else ([outRequest], settled))"

definition httpPromise_index :: "env \<Rightarrow> jsval \<Rightarrow> jsval \<Rightarrow> request list \<times> (js_error + jsval)" where
  "httpPromise_index env options postData =
     (let outRequest = (options, case postData of JStr s \<Rightarrow> Some s | _ \<Rightarrow> None)
      in case http_request env outRequest of
           Refused error \<Rightarrow> ([], Inl error)
         | SocketError error \<Rightarrow> write_end_index env postData outRequest (Inl error)
         | Response statusCode headers chunks \<Rightarrow>
             write_end_index env postData outRequest
               (Inr (JObj [(''statusCode'', number statusCode), (''headers'', JObj headers),
                           (''responseText'', JStr (concat chunks))])))"

definition getOptions_index :: "env \<Rightarrow> jsval \<Rightarrow> jsval" where
  "getOptions_index env postData =
     JObj [(''hostname'', remoteHost env), (''port'', remotePort env),
           (''headers'', JObj [(''accept'', JStr ''*/*''),
              (''Content-Type'', JStr ''application/json''),
              (''Content-Length'',
                 case postData of JStr s \<Rightarrow> number (byteLength s) | _ \<Rightarrow> number 0)])]"

text \<open>
  \<open>get\<close> and \<open>put\<close> build the options with \<open>assign\<close> before they call the shim; what
  \<open>assign\<close> throws would leave them, and the handler, at once.
\<close>

definition get_index :: "env \<Rightarrow> string \<Rightarrow> js_error + request list \<times> (js_error + jsval)" where
  "get_index env path =
     andThen (assign [(''method'', JStr ''GET''), (''path'', JStr path)]
                (getOptions_index env JUndefined))
       (\<lambda>options. Inr (httpPromise_index env (JObj options) JUndefined))"

definition put_index :: "env \<Rightarrow> string \<Rightarrow> jsval
    \<Rightarrow> js_error + request list \<times> (js_error + jsval)" where
  "put_index env path postData =
     andThen (assign [(''method'', JStr ''PUT''), (''path'', JStr path)]
                (getOptions_index env postData))
       (\<lambda>options. Inr (httpPromise_index env (JObj options) postData))"

definition getResponse_index :: "env \<Rightarrow> string \<Rightarrow> string \<Rightarrow> jsval \<Rightarrow> jsval" where
  "getResponse_index env namespace name payload =
     JObj [(''event'', JObj
       [(''header'', JObj [(''messageId'', JStr (show_int (now env))),
                           (''name'', JStr name),
                           (''namespace'', JStr namespace),
                           (''payloadVersion'', JStr ''3'')]),
        (''payload'', if payload = JUndefined then JObj [] else payload)])]"

definition getErrorResponse_index :: "env \<Rightarrow> string \<Rightarrow> string \<Rightarrow> jsval" where
  "getErrorResponse_index env type message =
     getResponse_index env ''Alexa'' ''ErrorResponse''
       (JObj [(''type'', JStr type), (''message'', JStr message)])"

definition SUPPORTED_ENDPOINT_TYPES_index :: "string list" where
  "SUPPORTED_ENDPOINT_TYPES_index = [''switchBinary'', ''roku'', ''television'']"

text \<open>
  \<open>isEndpointSupported\<close>: the last operand is
  \<open>SUPPORTED_ENDPOINT_TYPES.hasOwnProperty(endpoint.type)\<close>, which converts the type to a
  property key.
\<close>

definition isEndpointSupported_index :: "jsval \<Rightarrow> js_error + jsval" where
  "isEndpointSupported_index endpoint =
     js_and endpoint (andThen (get_prop endpoint ''id'') (\<lambda>id.
     js_and id (andThen (get_prop endpoint ''name'') (\<lambda>name.
     js_and name (andThen (get_prop endpoint ''description'') (\<lambda>description.
     js_and description (andThen (get_prop endpoint ''manufacturer'') (\<lambda>manufacturer.
     js_and manufacturer (andThen (get_prop endpoint ''type'') (\<lambda>type.
     andThen (ToString type) (\<lambda>key.
       Inr (JBool (key \<in> set SUPPORTED_ENDPOINT_TYPES_index)))))))))))))"

definition getEndpointCapabilities_index :: "jsval \<Rightarrow> js_error + jsval" where
  "getEndpointCapabilities_index endpoint =
     andThen (get_prop endpoint ''type'') (\<lambda>type.
       Inr (JArr
         ((if type = JStr ''switchBinary'' \<or> type = JStr ''television''
           then [getCapability ''Alexa.PowerController''] else []) @
          (if type = JStr ''television'' \<or> type = JStr ''roku''
           then [getCapability ''Alexa.ChannelController'',
                 getCapability ''Alexa.PlaybackController''] else []) @
          (if type = JStr ''television''
           then [getCapability ''Alexa.StepSpeaker'',
                 getCapability ''Alexa.InputController''] else []))))"

definition getDiscoveryAlexaResponse_index :: "env \<Rightarrow> jsval \<Rightarrow> jsval" where
  "getDiscoveryAlexaResponse_index env alexaEndpoints =
     getResponse_index env ''Alexa.Discovery'' ''Discover.Response''
       (JObj [(''endpoints'', alexaEndpoints)])"

definition getPowerControlAlexaResponse_index :: "env \<Rightarrow> jsval \<Rightarrow> js_error + jsval" where
  "getPowerControlAlexaResponse_index env endpointResponse =
     andThen (get_prop endpointResponse ''responseText'') (\<lambda>responseText.
     andThen (parse env responseText) (\<lambda>power.
     andThen (get_prop power ''state'') (\<lambda>state.
     andThen (get_prop power ''isoTimestamp'') (\<lambda>isoTimestamp.
     andThen (get_prop power ''uncertaintyMs'') (\<lambda>uncertaintyMs.
     andThen (assign
         [(''context'', JObj [(''properties'', JArr [JObj
             [(''namespace'', JStr ''Alexa.PowerController''),
              (''name'', JStr ''powerState''),
              (''value'', state),
              (''timeOfSample'', isoTimestamp),
              (''uncertaintyInMilliseconds'', uncertaintyMs)]])])]
         (getResponse_index env ''Alexa'' ''Response'' JUndefined))
       (\<lambda>ret. Inr (JObj ret)))))))"

definition mapEndpoint_index :: "jsval \<Rightarrow> js_error + jsval" where
  "mapEndpoint_index endpoint =
     andThen (get_prop endpoint ''id'') (\<lambda>id.
     andThen (get_prop endpoint ''manufacturer'') (\<lambda>manufacturer.
     andThen (get_prop endpoint ''name'') (\<lambda>name.
     andThen (get_prop endpoint ''description'') (\<lambda>description.
     andThen (getEndpointCapabilities_index endpoint) (\<lambda>capabilities.
       Inr (JObj [(''endpointId'', id),
                  (''manufacturerName'', manufacturer),
                  (''friendlyName'', name),
                  (''description'', description),
                  (''displayCategories'', JArr []),
                  (''capabilities'', capabilities)]))))))"

text \<open>
  \<open>handleDiscoveryEvent\<close>: the token is read and trimmed before anything is sent; every
  rejection of the chain, from the transport, \<open>JSON.parse\<close> or the mapping, ends in the
  \<open>catch\<close>, which succeeds with no endpoints.
\<close>

definition handleDiscoveryEvent_index :: "env \<Rightarrow> jsval \<Rightarrow> run" where
  "handleDiscoveryEvent_index env event =
     sync (
       andThen (get_path event [''directive'', ''payload'', ''scope'', ''token'']) (\<lambda>token.
       andThen (call_trim token) (\<lambda>accessToken.
       andThen (get_index env (''/endpoints?access_token='' @ accessToken))
         (\<lambda>(requests, settled).
            Inr (requests,
              case andThen settled (\<lambda>endpointResponse.
                   andThen (get_prop endpointResponse ''responseText'') (\<lambda>responseText.
                   andThen (parse env responseText) (\<lambda>endpoints.
                     filter_map isEndpointSupported_index mapEndpoint_index endpoints))) of
                Inr alexaEndpoints \<Rightarrow> Succeed (getDiscoveryAlexaResponse_index env alexaEndpoints)
              | Inl getError \<Rightarrow> Succeed (getDiscoveryAlexaResponse_index env (JArr [])))))))"

definition getHttpStatusErrorResponse_index :: "env \<Rightarrow> jsval \<Rightarrow> js_error + jsval" where
  "getHttpStatusErrorResponse_index env response =
     andThen (get_prop response ''statusCode'') (\<lambda>statusCode.
     andThen (template [Lit ''Unexpected HTTP statusCode: '', Val statusCode]) (\<lambda>message.
       Inr (getErrorResponse_index env ERROR_TYPES_internalError message)))"

definition getPutErrorResponse_index :: "env \<Rightarrow> js_error \<Rightarrow> jsval" where
  "getPutErrorResponse_index env error =
     getErrorResponse_index env ERROR_TYPES_endpointUnreachable
       (''Failed PUT request: '' @ to_string (JSON_stringify (enumerable error)))"

text \<open>
  \<open>handlePowerControlEvent\<close>. Endpoint id and token are read after the directive name
  has passed the test and before the request is built; a throw inside the \<open>then\<close>
  callback (from \<open>JSON.parse\<close> or from reading a property of \<open>null\<close>) reaches the
  \<open>catch\<close> like a rejection of the transport.
\<close>

definition handlePowerControlEvent_index :: "env \<Rightarrow> jsval \<Rightarrow> run" where
  "handlePowerControlEvent_index env event =
     sync (
       andThen (get_path event [''directive'', ''header'', ''name'']) (\<lambda>directiveName.
       andThen (test_TurnOnOff directiveName) (\<lambda>matches.
         if \<not> matches then
           andThen (template [Lit ''Unsupported directive name: '', Val directiveName])
             (\<lambda>message.
                Inr ([], Fail (getErrorResponse_index env ERROR_TYPES_invalidDirective message)))
         else
           andThen (get_path event [''directive'', ''endpoint'', ''endpointId''])
             (\<lambda>endpointId.
           andThen (get_path event [''directive'', ''endpoint'', ''scope'', ''token''])
             (\<lambda>accessToken.
           andThen (template [Lit ''/endpoints/'', Val endpointId,
                              Lit ''/power?access_token='', Val accessToken]) (\<lambda>path.
           andThen (put_index env path
                      (JSON_stringify (JObj [(''state'',
                         JStr (if directiveName = JStr ''TurnOn'' then ''on'' else ''off''))])))
             (\<lambda>(requests, settled).
                Inr (requests,
                  case andThen settled (\<lambda>endpointResponse.
                       andThen (get_prop endpointResponse ''statusCode'') (\<lambda>statusCode.
                         if statusCode = JNum ''200'' then
                           andThen (getPowerControlAlexaResponse_index env endpointResponse)
                             (\<lambda>r. Inr (Succeed r))
                         else
                           andThen (getHttpStatusErrorResponse_index env endpointResponse)
                             (\<lambda>r. Inr (Fail r)))) of
                    Inr out \<Rightarrow> out
                  | Inl putError \<Rightarrow> Fail (getPutErrorResponse_index env putError)))))))))"

definition getAlexaChannelResponse_index :: "env \<Rightarrow> jsval \<Rightarrow> js_error + jsval" where
  "getAlexaChannelResponse_index env endpointResponse =
     andThen (get_prop endpointResponse ''responseText'') (\<lambda>responseText.
     andThen (parse env responseText) (\<lambda>channel.
     andThen (get_prop channel ''channel'') (\<lambda>channelValue.
     andThen (get_prop channel ''isoTimestamp'') (\<lambda>isoTimestamp.
     andThen (get_prop channel ''uncertaintyMs'') (\<lambda>uncertaintyMs.
     andThen (assign
         [(''context'', JObj [(''properties'', JArr [JObj
             [(''namespace'', JStr ''Alexa.ChannelController''),
              (''name'', JStr ''channel''),
              (''value'', channelValue),
              (''timeOfSample'', isoTimestamp),
              (''uncertaintyInMilliseconds'', uncertaintyMs)]])])]
         (getResponse_index env ''Alexa'' ''Response'' JUndefined))
       (\<lambda>ret. Inr (JObj ret)))))))"

text \<open>
  The two channel handlers end a 200 response with \<open>context.success(...)\<close>. The
  platform's context object has \<open>succeed\<close>, \<open>fail\<close> and \<open>done\<close> and no \<open>success\<close>:
  once the argument is evaluated the call throws a TypeError, inside the \<open>then\<close>
  callback, and the \<open>catch\<close> fails the invocation.
\<close>

definition settleChannel_index :: "env \<Rightarrow> (js_error + jsval) \<Rightarrow> outcome" where
  "settleChannel_index env settled =
     (case andThen settled (\<lambda>endpointResponse.
           andThen (get_prop endpointResponse ''statusCode'') (\<lambda>statusCode.
             if statusCode = JNum ''200'' then
               andThen (getAlexaChannelResponse_index env endpointResponse)
                 (\<lambda>r. Inl TypeError)
             else
               andThen (getHttpStatusErrorResponse_index env endpointResponse)
                 (\<lambda>r. Inr (Fail r)))) of
        Inr out \<Rightarrow> out
      | Inl putError \<Rightarrow> Fail (getPutErrorResponse_index env putError))"

definition handleChangeChannelEvent_index :: "env \<Rightarrow> jsval \<Rightarrow> run" where
  "handleChangeChannelEvent_index env event =
     sync (
       andThen (get_path event [''directive'', ''endpoint'', ''endpointId'']) (\<lambda>endpointId.
       andThen (get_path event [''directive'', ''endpoint'', ''scope'', ''token''])
         (\<lambda>accessToken.
       andThen (get_path event [''directive'', ''payload'', ''channelMetadata''])
         (\<lambda>channelMetadata.
       andThen (get_path event [''directive'', ''payload'', ''channel'']) (\<lambda>channel.
       andThen (assign [(''metadata'', channelMetadata)] channel) (\<lambda>merged.
       andThen (template [Lit ''/endpoints/'', Val endpointId,
                          Lit ''/channel?access_token='', Val accessToken]) (\<lambda>path.
       andThen (put_index env path (JSON_stringify (JObj merged)))
         (\<lambda>(requests, settled). Inr (requests, settleChannel_index env settled)))))))))"

definition handleSkipChannelsEvent_index :: "env \<Rightarrow> jsval \<Rightarrow> run" where
  "handleSkipChannelsEvent_index env event =
     sync (
       andThen (get_path event [''directive'', ''endpoint'', ''endpointId'']) (\<lambda>endpointId.
       andThen (get_path event [''directive'', ''payload'', ''channelCount''])
         (\<lambda>channelCount.
       andThen (template [Lit ''/devices/'', Val endpointId, Lit ''/channel'']) (\<lambda>path.
       andThen (put_index env path (JSON_stringify (JObj [(''channelCount'', channelCount)])))
         (\<lambda>(requests, settled). Inr (requests, settleChannel_index env settled))))))"

definition handleChannelControlEvent_index :: "env \<Rightarrow> jsval \<Rightarrow> run" where
  "handleChannelControlEvent_index env event =
     sync (
       andThen (get_path event [''directive'', ''header'', ''name'']) (\<lambda>directiveName.
         if directiveName = JStr ''ChangeChannel'' then
           Inr (handleChangeChannelEvent_index env event)
         else if directiveName = JStr ''SkipChannels'' then
           Inr (handleSkipChannelsEvent_index env event)
         else
           andThen (template [Lit ''Unexpected directiveName: '', Val directiveName])
             (\<lambda>message.
                Inr ([], Fail (getErrorResponse_index env ERROR_TYPES_invalidDirective
                                 message)))))"

definition handleInputControlEvent_index :: "env \<Rightarrow> jsval \<Rightarrow> run" where
  "handleInputControlEvent_index env event =
     ([], Fail (getErrorResponse_index env ERROR_TYPES_internalError ''Not yet implemented''))"

definition handleStepSpeakerEvent_index :: "env \<Rightarrow> jsval \<Rightarrow> run" where
  "handleStepSpeakerEvent_index env event =
     ([], Fail (getErrorResponse_index env ERROR_TYPES_internalError ''Not yet implemented''))"

text \<open>\<open>exports.handler\<close> of \<open>index.js\<close>: five namespaces, none for playback.\<close>

definition handler_index :: "env \<Rightarrow> jsval \<Rightarrow> run" where
  "handler_index env event =
     sync (
       andThen (isEventValid event) (\<lambda>valid.
         if truthy valid then
           andThen (get_path event [''directive'', ''header'', ''namespace'']) (\<lambda>namespace.
             if namespace = JStr ''Alexa.Discovery'' then
               Inr (handleDiscoveryEvent_index env event)
             else if namespace = JStr ''Alexa.PowerController'' then
               Inr (handlePowerControlEvent_index env event)
             else if namespace = JStr ''Alexa.InputController'' then
               Inr (handleInputControlEvent_index env event)
             else if namespace = JStr ''Alexa.ChannelController'' then
               Inr (handleChannelControlEvent_index env event)
             else if namespace = JStr ''Alexa.StepSpeaker'' then
               Inr (handleStepSpeakerEvent_index env event)
             else
               andThen (template [Lit ''Unsupported namespace: '', Val namespace]) (\<lambda>message.
                 Inr ([], Fail (getErrorResponse_index env ERROR_TYPES_internalError message))))
         else
           Inr ([], Fail (getErrorResponse_index env ERROR_TYPES_internalError
                            (''Invalid event: '' @ to_string (JSON_stringify event))))))"

section \<open>The latest revision (\<open>src/unnamed/part_000\<close>)\<close>

text \<open>
  How a promise of this revision's shim ends: resolved, rejected, or never settled
  because an exception left the listener that should have settled it.
\<close>

datatype settlement = Resolved jsval | Rejected js_error | Unsettled js_error

text \<open>
  \<open>p.then(f).catch(h)\<close>: \<open>h\<close> receives the rejection of \<open>p\<close> or what \<open>f\<close> threw;
  nothing runs when \<open>p\<close> never settles.
\<close>

fun then_catch :: "settlement \<Rightarrow> (jsval \<Rightarrow> js_error + outcome) \<Rightarrow> (js_error \<Rightarrow> outcome)
    \<Rightarrow> outcome" where
  "then_catch (Resolved v) f h = (case f v of Inr out \<Rightarrow> out | Inl e \<Rightarrow> h e)"
| "then_catch (Rejected e) f h = h e"
| "then_catch (Unsettled e) f h = Uncaught e"

text \<open>\<open>typeof v === 'object'\<close>: objects, arrays and \<open>null\<close>.\<close>

fun is_object :: "jsval \<Rightarrow> bool" where
  "is_object (JObj kvs) = True"
| "is_object (JArr xs) = True"
| "is_object JNull = True"
| "is_object v = False"

text \<open>
  \<open>xs.join(sep)\<close> on strings, numbers, booleans, \<open>null\<close> and \<open>undefined\<close>: the last
  two are empty.
\<close>

definition js_join :: "string \<Rightarrow> jsval list \<Rightarrow> string" where
  "js_join sep xs =
     join sep (map (\<lambda>x. if x = JUndefined \<or> x = JNull then [] else to_string x) xs)"

text \<open>
  The shim, which returns the requests sent and how the promise ends. What
  \<open>http.request\<close> throws is thrown inside the promise's executor: the promise is rejected
  and nothing is sent. \<open>JSON.parse(data)\<close> runs inside the listener of the response's
  \<open>end\<close> event: when it throws, the exception leaves the listener and neither
  \<open>resolve\<close> nor \<open>reject\<close> is called. Only a string is written to the request.
\<close>

definition httpPromise_latest :: "env \<Rightarrow> jsval \<Rightarrow> jsval \<Rightarrow> request list \<times> settlement" where
  "httpPromise_latest env options postString =
     (let request = (options, case postString of JStr s \<Rightarrow> Some s | _ \<Rightarrow> None)
      in case http_request env request of
           Refused error \<Rightarrow> ([], Rejected error)
         | SocketError error \<Rightarrow> ([request], Rejected error)
         | Response statusCode headers chunks \<Rightarrow>
             ([request],
              if statusCode = 200 then
                (case parse env (JStr (concat chunks)) of
                   Inr v \<Rightarrow> Resolved v
                 | Inl e \<Rightarrow> Unsettled e)
              else Rejected (NewError (''HTTP '' @ show_int statusCode))))"

definition getOptions_latest :: "env \<Rightarrow> jsval \<Rightarrow> jsval" where
  "getOptions_latest env postString =
     JObj [(''hostname'', remoteHost env), (''port'', remotePort env),
           (''headers'', JObj [(''Accept'', JStr ''*/*''),
              (''Content-Type'', JStr ''application/json''),
              (''Content-Length'',
                 case postString of JStr s \<Rightarrow> number (byteLength s) | _ \<Rightarrow> number 0)])]"

definition get_latest :: "env \<Rightarrow> string \<Rightarrow> request list \<times> settlement" where
  "get_latest env path =
     httpPromise_latest env
       (JObj (Object_assign [(''method'', JStr ''GET''), (''path'', JStr path)]
                (getOptions_latest env JUndefined)))
       JUndefined"

definition post_latest :: "env \<Rightarrow> string \<Rightarrow> jsval \<Rightarrow> request list \<times> settlement" where
  "post_latest env path postData =
     (let postBody = (if is_object postData then JSON_stringify postData else postData)
      in httpPromise_latest env
           (JObj (Object_assign [(''method'', JStr ''POST''), (''path'', JStr path)]
                    (getOptions_latest env postBody)))
           postBody)"

definition getReply_latest :: "env \<Rightarrow> string \<Rightarrow> string \<Rightarrow> jsval \<Rightarrow> jsval" where
  "getReply_latest env namespace name payload =
     JObj [(''event'', JObj
       [(''header'', JObj [(''messageId'', JStr (show_int (now env))),
                           (''name'', JStr name),
                           (''namespace'', JStr namespace),
                           (''payloadVersion'', JStr ''3'')]),
        (''payload'', if truthy payload then payload else JObj [])])]"

text \<open>
  \<open>getErrorReply(type, ...)\<close>: the message is the other arguments joined by spaces, an
  object among them as its \<open>JSON.stringify\<close> text.
\<close>

definition getErrorReply_latest :: "env \<Rightarrow> string \<Rightarrow> jsval list \<Rightarrow> jsval" where
  "getErrorReply_latest env type rest =
     getReply_latest env ''Alexa'' ''ErrorResponse''
       (JObj [(''type'', JStr type),
              (''message'', JStr (js_join '' ''
                 (map (\<lambda>arg. if is_object arg then JSON_stringify arg else arg) rest)))])"

definition SUPPORTED_ENDPOINT_TYPES_latest :: "string list" where
  "SUPPORTED_ENDPOINT_TYPES_latest = [''zwitch'', ''roku'', ''television'']"

definition SUPPORTED_PLAYBACK_DIRECTIVES :: "string list" where
  "SUPPORTED_PLAYBACK_DIRECTIVES =
     [''FastForward'', ''Next'', ''Pause'', ''Play'', ''Previous'', ''Rewind'', ''StartOver'',
      ''Stop'']"

definition isEndpointSupported_latest :: "jsval \<Rightarrow> js_error + jsval" where
  "isEndpointSupported_latest endpoint =
     js_and endpoint (andThen (get_prop endpoint ''id'') (\<lambda>id.
     js_and id (andThen (get_prop endpoint ''name'') (\<lambda>name.
     js_and name (andThen (get_prop endpoint ''description'') (\<lambda>description.
     js_and description (andThen (get_prop endpoint ''manufacturer'') (\<lambda>manufacturer.
     js_and manufacturer (andThen (get_prop endpoint ''type'') (\<lambda>type.
     andThen (ToString type) (\<lambda>key.
       Inr (JBool (key \<in> set SUPPORTED_ENDPOINT_TYPES_latest)))))))))))))"

definition getEndpointCapabilities_latest :: "jsval \<Rightarrow> js_error + jsval" where
  "getEndpointCapabilities_latest endpoint =
     andThen (get_prop endpoint ''type'') (\<lambda>type.
       Inr (JArr
         ((if type = JStr ''zwitch'' \<or> type = JStr ''television''
           then [getCapability ''Alexa.PowerController''] else []) @
          (if type = JStr ''television'' \<or> type = JStr ''roku''
           then [getCapability ''Alexa.ChannelController''] else []) @
          (if type = JStr ''television''
           then [getCapability ''Alexa.StepSpeaker'',
                 getCapability ''Alexa.InputController''] else []) @
          (if type = JStr ''roku''
           then [getCapability ''Alexa.PlaybackController''] else []))))"

text \<open>The endpoint a device descriptor is published as: its id with the first dot as \<open>#\<close>.\<close>

definition mapEndpoint_latest :: "jsval \<Rightarrow> js_error + jsval" where
  "mapEndpoint_latest endpoint =
     andThen (get_prop endpoint ''id'') (\<lambda>id.
     andThen (call_replace id CHR ''.'' CHR ''#'') (\<lambda>endpointId.
     andThen (get_prop endpoint ''manufacturer'') (\<lambda>manufacturer.
     andThen (get_prop endpoint ''name'') (\<lambda>name.
     andThen (get_prop endpoint ''description'') (\<lambda>description.
     andThen (getEndpointCapabilities_latest endpoint) (\<lambda>capabilities.
       Inr (JObj [(''endpointId'', JStr endpointId),
                  (''manufacturerName'', manufacturer),
                  (''friendlyName'', name),
                  (''description'', description),
                  (''displayCategories'', JArr []),
                  (''capabilities'', capabilities)])))))))"

definition getDiscoveryReply :: "env \<Rightarrow> jsval \<Rightarrow> js_error + jsval" where
  "getDiscoveryReply env endpoints =
     andThen (filter_map isEndpointSupported_latest mapEndpoint_latest endpoints)
       (\<lambda>compatibleEndpoints.
          Inr (getReply_latest env ''Alexa.Discovery'' ''Discover.Response''
                 (JObj [(''endpoints'', compatibleEndpoints)])))"

definition getPowerControlReply :: "env \<Rightarrow> jsval \<Rightarrow> js_error + jsval" where
  "getPowerControlReply env pwr =
     andThen (get_prop pwr ''state'') (\<lambda>state.
     andThen (get_prop pwr ''isoTimestamp'') (\<lambda>isoTimestamp.
     andThen (get_prop pwr ''uncertaintyMs'') (\<lambda>uncertaintyMs.
       Inr (JObj (Object_assign
         [(''context'', JObj [(''properties'', JArr [JObj
             [(''namespace'', JStr ''Alexa.PowerController''),
              (''name'', JStr ''powerState''),
              (''value'', state),
              (''timeOfSample'', isoTimestamp),
              (''uncertaintyInMilliseconds'', uncertaintyMs)]])])]
         (getReply_latest env ''Alexa'' ''Response'' JUndefined))))))"

definition getDirectiveName :: "jsval \<Rightarrow> js_error + jsval" where
  "getDirectiveName event = get_path event [''directive'', ''header'', ''name'']"

definition getInvalidDirectiveReply :: "env \<Rightarrow> jsval \<Rightarrow> jsval" where
  "getInvalidDirectiveReply env directiveName =
     getErrorReply_latest env ERROR_TYPES_invalidDirective [directiveName]"

text \<open>
  \<open>succeed(reply, context)\<close> and \<open>fail(reply, context)\<close>: the second argument is the
  platform's context object or, where the caller passes nothing, \<open>undefined\<close>, and then
  reading its method throws.
\<close>

datatype context_arg = LambdaContext | NoContext

fun succeed :: "jsval \<Rightarrow> context_arg \<Rightarrow> outcome" where
  "succeed reply LambdaContext = Succeed reply"
| "succeed reply NoContext = Uncaught TypeError"

fun fail :: "jsval \<Rightarrow> context_arg \<Rightarrow> outcome" where
  "fail reply LambdaContext = Fail reply"
| "fail reply NoContext = Uncaught TypeError"

definition handleDiscoveryEvent_latest :: "env \<Rightarrow> jsval \<Rightarrow> run" where
  "handleDiscoveryEvent_latest env event =
     sync (
       andThen (get_path event [''directive'', ''payload'', ''scope'', ''token'']) (\<lambda>token.
       andThen (call_trim token) (\<lambda>accessToken.
         case get_latest env (''/endpoints?access_token='' @ accessToken) of
           (requests, settled) \<Rightarrow>
             Inr (requests,
               then_catch settled
                 (\<lambda>endpoints. andThen (getDiscoveryReply env endpoints)
                    (\<lambda>reply. Inr (succeed reply LambdaContext)))
                 (\<lambda>error. case getDiscoveryReply env (JArr []) of
                    Inr reply \<Rightarrow> Succeed reply
                  | Inl e \<Rightarrow> Uncaught e)))))"

definition getEndpointId :: "jsval \<Rightarrow> js_error + string" where
  "getEndpointId event =
     andThen (get_path event [''directive'', ''endpoint'', ''endpointId''])
       (\<lambda>endpointId. call_replace endpointId CHR ''#'' CHR ''.'')"

definition getEndpointToken :: "jsval \<Rightarrow> js_error + jsval" where
  "getEndpointToken event = get_path event [''directive'', ''endpoint'', ''scope'', ''token'']"

definition getServiceErrorReply :: "env \<Rightarrow> js_error \<Rightarrow> jsval" where
  "getServiceErrorReply env error =
     getErrorReply_latest env ERROR_TYPES_endpointUnreachable [enumerable error]"

definition handlePowerControlEvent_latest :: "env \<Rightarrow> jsval \<Rightarrow> run" where
  "handlePowerControlEvent_latest env event =
     sync (
       andThen (getDirectiveName event) (\<lambda>directiveName.
       andThen (test_TurnOnOff directiveName) (\<lambda>matches.
         if \<not> matches then
           Inr ([], fail (getInvalidDirectiveReply env directiveName) LambdaContext)
         else
           andThen (getEndpointId event) (\<lambda>endpointId.
           andThen (getEndpointToken event) (\<lambda>accessToken.
           andThen (template [Lit ''/endpoints/'', Val (JStr endpointId),
                              Lit ''/power?access_token='', Val accessToken]) (\<lambda>path.
             case post_latest env path
                    (JObj [(''state'',
                       JStr (if directiveName = JStr ''TurnOn'' then ''on'' else ''off''))]) of
               (requests, settled) \<Rightarrow>
                 Inr (requests,
                   then_catch settled
                     (\<lambda>pwr. andThen (getPowerControlReply env pwr)
                        (\<lambda>reply. Inr (succeed reply LambdaContext)))
                     (\<lambda>error. fail (getServiceErrorReply env error) LambdaContext))))))))"

definition getChannelReply :: "env \<Rightarrow> jsval \<Rightarrow> js_error + jsval" where
  "getChannelReply env channel =
     andThen (get_prop channel ''state'') (\<lambda>state.
     andThen (get_prop channel ''isoTimestamp'') (\<lambda>isoTimestamp.
     andThen (get_prop channel ''uncertaintyMs'') (\<lambda>uncertaintyMs.
       Inr (JObj (Object_assign
         [(''context'', JObj [(''properties'', JArr [JObj
             [(''namespace'', JStr ''Alexa.ChannelController''),
              (''name'', JStr ''channel''),
              (''value'', JObj [(''number'', state)]),
              (''timeOfSample'', isoTimestamp),
              (''uncertaintyInMilliseconds'', uncertaintyMs)]])])]
         (getReply_latest env ''Alexa'' ''Response'' JUndefined))))))"

definition getInputReply :: "env \<Rightarrow> jsval \<Rightarrow> js_error + jsval" where
  "getInputReply env input =
     andThen (get_prop input ''state'') (\<lambda>state.
     andThen (get_prop input ''isoTimestamp'') (\<lambda>isoTimestamp.
     andThen (get_prop input ''uncertaintyMs'') (\<lambda>uncertaintyMs.
       Inr (JObj (Object_assign
         [(''context'', JObj [(''properties'', JArr [JObj
             [(''namespace'', JStr ''Alexa.InputController''),
              (''name'', JStr ''input''),
              (''value'', state),
              (''timeOfSample'', isoTimestamp),
              (''uncertaintyInMilliseconds'', uncertaintyMs)]])])]
         (getReply_latest env ''Alexa'' ''Response'' JUndefined))))))"

definition getStepSpeakerReply :: "env \<Rightarrow> jsval" where
  "getStepSpeakerReply env = getReply_latest env ''Alexa'' ''Response'' JUndefined"

definition getPlaybackControlReply :: "env \<Rightarrow> jsval \<Rightarrow> jsval" where
  "getPlaybackControlReply env response =
     JObj (Object_assign [(''context'', JObj [(''properties'', JArr [])])]
             (getReply_latest env ''Alexa'' ''Response'' JUndefined))"

definition handleChangeChannelEvent_latest :: "env \<Rightarrow> jsval \<Rightarrow> run" where
  "handleChangeChannelEvent_latest env event =
     sync (
       andThen (getEndpointId event) (\<lambda>endpointId.
       andThen (getEndpointToken event) (\<lambda>accessToken.
       andThen (get_path event [''directive'', ''payload'', ''channelMetadata''])
         (\<lambda>channelMetadata.
       andThen (get_path event [''directive'', ''payload'', ''channel'']) (\<lambda>channel.
       andThen (template [Lit ''/endpoints/'', Val (JStr endpointId),
                          Lit ''/channel?access_token='', Val accessToken]) (\<lambda>path.
         case post_latest env path
                (JObj (Object_assign [(''metadata'', channelMetadata)] channel)) of
           (requests, settled) \<Rightarrow>
             Inr (requests,
               then_catch settled
                 (\<lambda>channel. andThen (getChannelReply env channel)
                    (\<lambda>reply. Inr (succeed reply LambdaContext)))
                 (\<lambda>error. fail (getServiceErrorReply env error) LambdaContext))))))))"

definition handleSkipChannelsEvent_latest :: "env \<Rightarrow> jsval \<Rightarrow> run" where
  "handleSkipChannelsEvent_latest env event =
     sync (
       andThen (getEndpointId event) (\<lambda>endpointId.
       andThen (get_path event [''directive'', ''payload'', ''channelCount''])
         (\<lambda>channelCount.
       andThen (template [Lit ''/endpoints/'', Val (JStr endpointId), Lit ''/channel''])
         (\<lambda>path.
         case post_latest env path (JObj [(''delta'', channelCount)]) of
           (requests, settled) \<Rightarrow>
             Inr (requests,
               then_catch settled
                 (\<lambda>channel. andThen (getChannelReply env channel)
                    (\<lambda>reply. Inr (succeed reply LambdaContext)))
                 (\<lambda>error. fail (getServiceErrorReply env error) LambdaContext))))))"

definition handleChannelControlEvent_latest :: "env \<Rightarrow> jsval \<Rightarrow> run" where
  "handleChannelControlEvent_latest env event =
     sync (
       andThen (getDirectiveName event) (\<lambda>directiveName.
         if directiveName = JStr ''ChangeChannel'' then
           Inr (handleChangeChannelEvent_latest env event)
         else if directiveName = JStr ''SkipChannels'' then
           Inr (handleSkipChannelsEvent_latest env event)
         else Inr ([], fail (getInvalidDirectiveReply env directiveName) LambdaContext)))"

text \<open>
  \<open>handleInputControlEvent\<close> reads the endpoint id, the token and the payload's input
  before it looks at the directive name. Its \<open>catch\<close> is written
  \<open>.catch(error => fail(getServiceErrorReply(error)), context)\<close>: the context is an
  argument of \<open>catch\<close>, and \<open>fail\<close> is called without one.
\<close>

definition handleInputControlEvent_latest :: "env \<Rightarrow> jsval \<Rightarrow> run" where
  "handleInputControlEvent_latest env event =
     sync (
       andThen (getDirectiveName event) (\<lambda>directiveName.
       andThen (getEndpointId event) (\<lambda>endpointId.
       andThen (getEndpointToken event) (\<lambda>accessToken.
       andThen (get_path event [''directive'', ''payload'', ''input'']) (\<lambda>input.
         if directiveName = JStr ''SelectInput'' then
           andThen (template [Lit ''/endpoints/'', Val (JStr endpointId),
                              Lit ''/input?access_token='', Val accessToken]) (\<lambda>path.
             case post_latest env path (JObj [(''input'', input)]) of
               (requests, settled) \<Rightarrow>
                 Inr (requests,
                   then_catch settled
                     (\<lambda>input. andThen (getInputReply env input)
                        (\<lambda>reply. Inr (succeed reply LambdaContext)))
                     (\<lambda>error. fail (getServiceErrorReply env error) NoContext)))
         else Inr ([], fail (getInvalidDirectiveReply env directiveName) LambdaContext))))))"

definition handleStepSpeakerEvent_latest :: "env \<Rightarrow> jsval \<Rightarrow> run" where
  "handleStepSpeakerEvent_latest env event =
     sync (
       andThen (getDirectiveName event) (\<lambda>directiveName.
       andThen (getEndpointId event) (\<lambda>endpointId.
       andThen (getEndpointToken event) (\<lambda>accessToken.
         if directiveName \<noteq> JStr ''SetMute'' \<and> directiveName \<noteq> JStr ''AdjustVolume'' then
           Inr ([], fail (getInvalidDirectiveReply env directiveName) LambdaContext)
         else
           andThen (if directiveName = JStr ''SetMute''
                    then andThen (get_path event [''directive'', ''payload'', ''mute''])
                           (\<lambda>mute. Inr (JObj [(''mute'', mute)]))
                    else andThen (get_path event [''directive'', ''payload'', ''volumeSteps''])
                           (\<lambda>volumeSteps. Inr (JObj [(''delta'', volumeSteps)])))
             (\<lambda>postData.
           andThen (template [Lit ''/endpoints/'', Val (JStr endpointId),
                              Lit ''/volume?accessToken='', Val accessToken]) (\<lambda>path.
             case post_latest env path postData of
               (requests, settled) \<Rightarrow>
                 Inr (requests,
                   then_catch settled
                     (\<lambda>response. Inr (succeed (getStepSpeakerReply env) LambdaContext))
                     (\<lambda>error. fail (getServiceErrorReply env error) LambdaContext))))))))"

text \<open>\<open>SUPPORTED_PLAYBACK_DIRECTIVES.indexOf(v) !== -1\<close>: strict equality with a string.\<close>

definition isPlaybackDirectiveValid :: "jsval \<Rightarrow> bool" where
  "isPlaybackDirectiveValid directiveName =
     (directiveName \<in> set (map JStr SUPPORTED_PLAYBACK_DIRECTIVES))"

definition handlePlaybackControlEvent_latest :: "env \<Rightarrow> jsval \<Rightarrow> run" where
  "handlePlaybackControlEvent_latest env event =
     sync (
       andThen (getDirectiveName event) (\<lambda>directiveName.
       andThen (getEndpointId event) (\<lambda>endpointId.
       andThen (getEndpointToken event) (\<lambda>accessToken.
         if isPlaybackDirectiveValid directiveName then
           andThen (template [Lit ''/endpoints/'', Val (JStr endpointId),
                              Lit ''/playback?accessToken='', Val accessToken]) (\<lambda>path.
             case post_latest env path (JObj [(''directive'', directiveName)]) of
               (requests, settled) \<Rightarrow>
                 Inr (requests,
                   then_catch settled
                     (\<lambda>response.
                        Inr (succeed (getPlaybackControlReply env response) LambdaContext))
                     (\<lambda>error. fail (getServiceErrorReply env error) LambdaContext)))
         else Inr ([], fail (getInvalidDirectiveReply env directiveName) LambdaContext)))))"

text \<open>\<open>exports.handler\<close> of the latest revision: six namespaces.\<close>

definition handler_latest :: "env \<Rightarrow> jsval \<Rightarrow> run" where
  "handler_latest env event =
     sync (
       andThen (isEventValid event) (\<lambda>valid.
         if truthy valid then
           andThen (get_path event [''directive'', ''header'', ''namespace'']) (\<lambda>namespace.
             if namespace = JStr ''Alexa.Discovery'' then
               Inr (handleDiscoveryEvent_latest env event)
             else if namespace = JStr ''Alexa.PowerController'' then
               Inr (handlePowerControlEvent_latest env event)
             else if namespace = JStr ''Alexa.InputController'' then
               Inr (handleInputControlEvent_latest env event)
             else if namespace = JStr ''Alexa.ChannelController'' then
               Inr (handleChannelControlEvent_latest env event)
             else if namespace = JStr ''Alexa.StepSpeaker'' then
               Inr (handleStepSpeakerEvent_latest env event)
             else if namespace = JStr ''Alexa.PlaybackController'' then
               Inr (handlePlaybackControlEvent_latest env event)
             else
               Inr ([], fail (getErrorReply_latest env ERROR_TYPES_internalError
                                [JStr ''Unsupported namespace'', namespace]) LambdaContext))
         else
           Inr ([], fail (getErrorReply_latest env ERROR_TYPES_internalError
                            [JStr ''Invalid event'', event]) LambdaContext)))"

section \<open>code.js, third script\<close>

text \<open>
  The third script of \<open>code.js\<close> has, apart from logging, the text of \<open>index.js\<close>
  for \<open>assign\<close>, \<open>isEventValid\<close>, \<open>getOptions\<close>, \<open>getResponse\<close>, \<open>getErrorResponse\<close>,
  \<open>isEndpointSupported\<close>, \<open>getCapability\<close>, \<open>getDiscoveryAlexaResponse\<close>,
  \<open>getPowerControlAlexaResponse\<close>, \<open>getPutErrorResponse\<close> and the channel response
  (\<open>getChannelAlexaResponse\<close> here), and the text of the latest revision for
  \<open>getDirectiveName\<close>, \<open>getEndpointToken\<close> and \<open>isPlaybackDirectiveValid\<close>; those
  definitions are shared. Its shim wraps the promise of \<open>index.js\<close> in a \<open>then\<close> that
  throws on every status but 200.
\<close>

definition httpPromise_code3 :: "env \<Rightarrow> jsval \<Rightarrow> jsval \<Rightarrow> request list \<times> (js_error + jsval)" where
  "httpPromise_code3 env options postData =
     (case httpPromise_index env options postData of
        (requests, settled) \<Rightarrow>
          (requests,
           andThen settled (\<lambda>response.
           andThen (get_prop response ''statusCode'') (\<lambda>statusCode.
             if statusCode \<noteq> JNum ''200'' then
               andThen (template [Lit ''HTTP '', Val statusCode]) (\<lambda>message.
                 Inl (NewError message))
             else Inr response))))"

definition get_code3 :: "env \<Rightarrow> string \<Rightarrow> js_error + request list \<times> (js_error + jsval)" where
  "get_code3 env path =
     andThen (assign [(''method'', JStr ''GET''), (''path'', JStr path)]
                (getOptions_index env JUndefined))
       (\<lambda>options. Inr (httpPromise_code3 env (JObj options) JUndefined))"

definition put_code3 :: "env \<Rightarrow> string \<Rightarrow> jsval
    \<Rightarrow> js_error + request list \<times> (js_error + jsval)" where
  "put_code3 env path postData =
     andThen (assign [(''method'', JStr ''PUT''), (''path'', JStr path)]
                (getOptions_index env postData))
       (\<lambda>options. Inr (httpPromise_code3 env (JObj options) postData))"

definition getEndpointCapabilities_code3 :: "jsval \<Rightarrow> js_error + jsval" where
  "getEndpointCapabilities_code3 endpoint =
     andThen (get_prop endpoint ''type'') (\<lambda>type.
       Inr (JArr
         ((if type = JStr ''switchBinary'' \<or> type = JStr ''television''
           then [getCapability ''Alexa.PowerController''] else []) @
          (if type = JStr ''television'' \<or> type = JStr ''roku''
           then [getCapability ''Alexa.ChannelController''] else []) @
          (if type = JStr ''television''
           then [getCapability ''Alexa.StepSpeaker'',
                 getCapability ''Alexa.InputController''] else []) @
          (if type = JStr ''roku''
           then [getCapability ''Alexa.PlaybackController''] else []))))"

definition mapEndpoint_code3 :: "jsval \<Rightarrow> js_error + jsval" where
  "mapEndpoint_code3 endpoint =
     andThen (get_prop endpoint ''id'') (\<lambda>id.
     andThen (get_prop endpoint ''manufacturer'') (\<lambda>manufacturer.
     andThen (get_prop endpoint ''name'') (\<lambda>name.
     andThen (get_prop endpoint ''description'') (\<lambda>description.
     andThen (getEndpointCapabilities_code3 endpoint) (\<lambda>capabilities.
       Inr (JObj [(''endpointId'', id),
                  (''manufacturerName'', manufacturer),
                  (''friendlyName'', name),
                  (''description'', description),
                  (''displayCategories'', JArr []),
                  (''capabilities'', capabilities)]))))))"

text \<open>
  \<open>failInvalidDirective(context, directiveName)\<close>: the message is built, and the name
  converted, before \<open>context.fail\<close> is called.
\<close>

definition failInvalidDirective :: "env \<Rightarrow> jsval \<Rightarrow> js_error + run" where
  "failInvalidDirective env directiveName =
     andThen (template [Lit ''Unsupported directive: '', Val directiveName]) (\<lambda>message.
       Inr ([], Fail (getErrorResponse_index env ERROR_TYPES_invalidDirective message)))"

definition handleDiscoveryEvent_code3 :: "env \<Rightarrow> jsval \<Rightarrow> run" where
  "handleDiscoveryEvent_code3 env event =
     sync (
       andThen (get_path event [''directive'', ''payload'', ''scope'', ''token'']) (\<lambda>token.
       andThen (call_trim token) (\<lambda>accessToken.
       andThen (get_code3 env (''/endpoints?access_token='' @ accessToken))
         (\<lambda>(requests, settled).
            Inr (requests,
              case andThen settled (\<lambda>endpointResponse.
                   andThen (get_prop endpointResponse ''responseText'') (\<lambda>responseText.
                   andThen (parse env responseText) (\<lambda>endpoints.
                     filter_map isEndpointSupported_index mapEndpoint_code3 endpoints))) of
                Inr alexaEndpoints \<Rightarrow> Succeed (getDiscoveryAlexaResponse_index env alexaEndpoints)
              | Inl getError \<Rightarrow> Succeed (getDiscoveryAlexaResponse_index env (JArr [])))))))"

definition getEndpointId_code3 :: "jsval \<Rightarrow> js_error + jsval" where
  "getEndpointId_code3 event = get_path event [''directive'', ''endpoint'', ''endpointId'']"

definition handlePowerControlEvent_code3 :: "env \<Rightarrow> jsval \<Rightarrow> run" where
  "handlePowerControlEvent_code3 env event =
     sync (
       andThen (getDirectiveName event) (\<lambda>directiveName.
       andThen (test_TurnOnOff directiveName) (\<lambda>matches.
         if \<not> matches then failInvalidDirective env directiveName
         else
           andThen (getEndpointId_code3 event) (\<lambda>endpointId.
           andThen (getEndpointToken event) (\<lambda>accessToken.
           andThen (template [Lit ''/endpoints/'', Val endpointId,
                              Lit ''/power?access_token='', Val accessToken]) (\<lambda>path.
           andThen (put_code3 env path
                      (JSON_stringify (JObj [(''state'',
                         JStr (if directiveName = JStr ''TurnOn'' then ''on'' else ''off''))])))
             (\<lambda>(requests, settled).
                Inr (requests,
                  case andThen settled (\<lambda>endpointResponse.
                       andThen (getPowerControlAlexaResponse_index env endpointResponse)
                         (\<lambda>r. Inr (Succeed r))) of
                    Inr out \<Rightarrow> out
                  | Inl putError \<Rightarrow> Fail (getPutErrorResponse_index env putError)))))))))"

definition getInputAlexaResponse :: "env \<Rightarrow> jsval \<Rightarrow> js_error + jsval" where
  "getInputAlexaResponse env endpointResponse =
     andThen (get_prop endpointResponse ''responseText'') (\<lambda>responseText.
     andThen (parse env responseText) (\<lambda>input.
     andThen (get_prop input ''name'') (\<lambda>name.
     andThen (get_prop input ''isoTimestamp'') (\<lambda>isoTimestamp.
     andThen (get_prop input ''uncertaintyMs'') (\<lambda>uncertaintyMs.
     andThen (assign
         [(''context'', JObj [(''properties'', JArr [JObj
             [(''namespace'', JStr ''Alexa.InputController''),
              (''name'', JStr ''input''),
              (''value'', name),
              (''timeOfSample'', isoTimestamp),
              (''uncertaintyInMilliseconds'', uncertaintyMs)]])])]
         (getResponse_index env ''Alexa'' ''Response'' JUndefined))
       (\<lambda>ret. Inr (JObj ret)))))))"

text \<open>
  Every handler of this script but the power handler ends a resolved request with
  \<open>context.success(...)\<close>, which the platform's context does not have: the argument is
  evaluated, the call throws a TypeError, and the \<open>catch\<close> fails the invocation.
\<close>

definition settleSuccess_code3 :: "env \<Rightarrow> (jsval \<Rightarrow> js_error + jsval) \<Rightarrow> (js_error + jsval)
    \<Rightarrow> outcome" where
  "settleSuccess_code3 env getAlexaResponse settled =
     (case andThen settled (\<lambda>endpointResponse.
           andThen (getAlexaResponse endpointResponse) (\<lambda>r. Inl TypeError)) of
        Inr out \<Rightarrow> out
      | Inl putError \<Rightarrow> Fail (getPutErrorResponse_index env putError))"

definition handleChangeChannelEvent_code3 :: "env \<Rightarrow> jsval \<Rightarrow> run" where
  "handleChangeChannelEvent_code3 env event =
     sync (
       andThen (getEndpointId_code3 event) (\<lambda>endpointId.
       andThen (getEndpointToken event) (\<lambda>accessToken.
       andThen (get_path event [''directive'', ''payload'', ''channelMetadata''])
         (\<lambda>channelMetadata.
       andThen (get_path event [''directive'', ''payload'', ''channel'']) (\<lambda>channel.
       andThen (assign [(''metadata'', channelMetadata)] channel) (\<lambda>merged.
       andThen (template [Lit ''/endpoints/'', Val endpointId,
                          Lit ''/channel?access_token='', Val accessToken]) (\<lambda>path.
       andThen (put_code3 env path (JSON_stringify (JObj merged)))
         (\<lambda>(requests, settled).
            Inr (requests,
              settleSuccess_code3 env (getAlexaChannelResponse_index env) settled)))))))))"

definition handleSkipChannelsEvent_code3 :: "env \<Rightarrow> jsval \<Rightarrow> run" where
  "handleSkipChannelsEvent_code3 env event =
     sync (
       andThen (getEndpointId_code3 event) (\<lambda>endpointId.
       andThen (get_path event [''directive'', ''payload'', ''channelCount''])
         (\<lambda>channelCount.
       andThen (template [Lit ''/endpoints/'', Val endpointId, Lit ''/channel'']) (\<lambda>path.
       andThen (put_code3 env path (JSON_stringify (JObj [(''channelCount'', channelCount)])))
         (\<lambda>(requests, settled).
            Inr (requests,
              settleSuccess_code3 env (getAlexaChannelResponse_index env) settled))))))"

definition handleChannelControlEvent_code3 :: "env \<Rightarrow> jsval \<Rightarrow> run" where
  "handleChannelControlEvent_code3 env event =
     sync (
       andThen (getDirectiveName event) (\<lambda>directiveName.
         if directiveName = JStr ''ChangeChannel'' then
           Inr (handleChangeChannelEvent_code3 env event)
         else if directiveName = JStr ''SkipChannels'' then
           Inr (handleSkipChannelsEvent_code3 env event)
         else failInvalidDirective env directiveName))"

definition handleInputControlEvent_code3 :: "env \<Rightarrow> jsval \<Rightarrow> run" where
  "handleInputControlEvent_code3 env event =
     sync (
       andThen (getDirectiveName event) (\<lambda>directiveName.
       andThen (getEndpointId_code3 event) (\<lambda>endpointId.
       andThen (getEndpointToken event) (\<lambda>accessToken.
       andThen (get_path event [''directive'', ''payload'', ''input'']) (\<lambda>input.
         if directiveName = JStr ''SelectInput'' then
           andThen (template [Lit ''/endpoints/'', Val endpointId,
                              Lit ''/input?access_token='', Val accessToken]) (\<lambda>path.
           andThen (put_code3 env path (JSON_stringify (JObj [(''name'', input)])))
             (\<lambda>(requests, settled).
                Inr (requests, settleSuccess_code3 env (getInputAlexaResponse env) settled)))
         else failInvalidDirective env directiveName)))))"

definition handleStepSpeakerEvent_code3 :: "env \<Rightarrow> jsval \<Rightarrow> run" where
  "handleStepSpeakerEvent_code3 env event =
     sync (
       andThen (getDirectiveName event) (\<lambda>directiveName.
       andThen (getEndpointId_code3 event) (\<lambda>endpointId.
       andThen (getEndpointToken event) (\<lambda>accessToken.
         if directiveName \<noteq> JStr ''SetMute'' \<and> directiveName \<noteq> JStr ''AdjustVolume'' then
           failInvalidDirective env directiveName
         else
           andThen (if directiveName = JStr ''SetMute''
                    then andThen (get_path event [''directive'', ''payload'', ''mute''])
                           (\<lambda>mute. Inr (JSON_stringify (JObj [(''mute'', mute)])))
                    else andThen (get_path event [''directive'', ''payload'', ''volumeSteps''])
                           (\<lambda>volumeSteps.
                              Inr (JSON_stringify (JObj [(''volumeSteps'', volumeSteps)]))))
             (\<lambda>postData.
           andThen (template [Lit ''/endpoints/'', Val endpointId,
                              Lit ''/volume?accessToken='', Val accessToken]) (\<lambda>path.
           andThen (put_code3 env path postData)
             (\<lambda>(requests, settled).
                Inr (requests,
                  settleSuccess_code3 env
                    (\<lambda>endpointResponse.
                       Inr (getResponse_index env ''Alexa'' ''Response'' JUndefined))
                    settled))))))))"

definition handlePlaybackControlEvent_code3 :: "env \<Rightarrow> jsval \<Rightarrow> run" where
  "handlePlaybackControlEvent_code3 env event =
     sync (
       andThen (getDirectiveName event) (\<lambda>directiveName.
       andThen (getEndpointId_code3 event) (\<lambda>endpointId.
       andThen (getEndpointToken event) (\<lambda>accessToken.
         if isPlaybackDirectiveValid directiveName then
           andThen (template [Lit ''/endpoints/'', Val endpointId,
                              Lit ''/playback?accessToken='', Val accessToken]) (\<lambda>path.
           andThen (put_code3 env path (JSON_stringify (JObj [(''directive'', directiveName)])))
             (\<lambda>(requests, settled).
                Inr (requests,
                  settleSuccess_code3 env
                    (\<lambda>endpointResponse.
                       Inr (getResponse_index env ''Alexa'' ''Response'' JUndefined))
                    settled)))
         else failInvalidDirective env directiveName))))"

text \<open>\<open>exports.handler\<close> of the third script: six namespaces.\<close>

definition handler_code3 :: "env \<Rightarrow> jsval \<Rightarrow> run" where
  "handler_code3 env event =
     sync (
       andThen (isEventValid event) (\<lambda>valid.
         if truthy valid then
           andThen (get_path event [''directive'', ''header'', ''namespace'']) (\<lambda>namespace.
             if namespace = JStr ''Alexa.Discovery'' then
               Inr (handleDiscoveryEvent_code3 env event)
             else if namespace = JStr ''Alexa.PowerController'' then
               Inr (handlePowerControlEvent_code3 env event)
             else if namespace = JStr ''Alexa.InputController'' then
               Inr (handleInputControlEvent_code3 env event)
             else if namespace = JStr ''Alexa.ChannelController'' then
               Inr (handleChannelControlEvent_code3 env event)
             else if namespace = JStr ''Alexa.StepSpeaker'' then
               Inr (handleStepSpeakerEvent_code3 env event)
             else if namespace = JStr ''Alexa.PlaybackController'' then
               Inr (handlePlaybackControlEvent_code3 env event)
             else
               andThen (template [Lit ''Unsupported namespace: '', Val namespace]) (\<lambda>message.
                 Inr ([], Fail (getErrorResponse_index env ERROR_TYPES_internalError message))))
         else
           Inr ([], Fail (getErrorResponse_index env ERROR_TYPES_internalError
                            (''Invalid event: '' @ to_string (JSON_stringify event))))))"

section \<open>The legacy protocol (first script of \<open>src/unnamed/part_001\<close>)\<close>

definition getResponse_legacy :: "env \<Rightarrow> string \<Rightarrow> string \<Rightarrow> jsval \<Rightarrow> jsval" where
  "getResponse_legacy env name namespace payload =
     JObj [(''header'', JObj [(''messageId'', JStr (show_int (now env))),
                             (''name'', JStr name),
                             (''namespace'', JStr namespace),
                             (''payloadVersion'', JStr ''2'')]),
           (''payload'', if payload = JUndefined then JObj [] else payload)]"

section \<open>The first script of the versioned protocol (second script of \<open>src/unnamed/part_001\<close>)\<close>

definition getDeviceCapabilities :: "jsval \<Rightarrow> js_error + jsval" where
  "getDeviceCapabilities device =
     andThen (get_prop device ''deviceType'') (\<lambda>deviceType.
       Inr (JArr
         ((if deviceType = JStr ''switchBinary'' \<or> deviceType = JStr ''television''
           then [getCapability ''Alexa.PowerController''] else []) @
          (if deviceType = JStr ''television'' \<or> deviceType = JStr ''roku''
           then [getCapability ''Alexa.ChannelController'',
                 getCapability ''Alexa.PlaybackController''] else []) @
          (if deviceType = JStr ''television''
           then [getCapability ''Alexa.StepSpeaker''] else []))))"

section \<open>Notions of the specification\<close>

text \<open>
  A field of the directive header, \<open>undefined\<close> when the event, its directive, its
  header or the field itself is missing.
\<close>

definition header_field :: "jsval \<Rightarrow> string \<Rightarrow> jsval" where
  "header_field event k =
     (case get_path event [''directive'', ''header'', k] of
        Inl e \<Rightarrow> JUndefined
      | Inr v \<Rightarrow> v)"

text \<open>An error envelope of the versioned protocol with the given error type.\<close>

definition is_error_envelope :: "string \<Rightarrow> jsval \<Rightarrow> bool" where
  "is_error_envelope type r =
     (get_path r [''event'', ''header'', ''namespace''] = Inr (JStr ''Alexa'')
      \<and> get_path r [''event'', ''header'', ''name''] = Inr (JStr ''ErrorResponse'')
      \<and> get_path r [''event'', ''payload'', ''type''] = Inr (JStr type))"

text \<open>The interface names of a list of capabilities, as a set.\<close>

definition interface_name :: "jsval \<Rightarrow> string" where
  "interface_name capability =
     (case get_prop capability ''interface'' of Inr (JStr i) \<Rightarrow> i | _ \<Rightarrow> [])"

definition interfaces :: "js_error + jsval \<Rightarrow> string set" where
  "interfaces r = (case r of Inr (JArr caps) \<Rightarrow> set (map interface_name caps) | _ \<Rightarrow> {})"

text \<open>The rule table of the capability resolver, as the specification gives it.\<close>

definition capabilitiesFor :: "jsval \<Rightarrow> string set" where
  "capabilitiesFor deviceType =
     (if deviceType = JStr ''switchBinary'' then {''Alexa.PowerController''}
      else if deviceType = JStr ''television'' then
        {''Alexa.PowerController'', ''Alexa.ChannelController'', ''Alexa.PlaybackController'',
         ''Alexa.StepSpeaker'', ''Alexa.InputController''}
      else if deviceType = JStr ''roku'' then
        {''Alexa.ChannelController'', ''Alexa.PlaybackController''}
      else {})"

text \<open>The routing table of the specification: the directive names a namespace supports.\<close>

definition supported_names :: "string \<Rightarrow> string list" where
  "supported_names namespace =
     (if namespace = ''Alexa.Discovery'' then [''Discover'']
      else if namespace = ''Alexa.PowerController'' then [''TurnOn'', ''TurnOff'']
      else if namespace = ''Alexa.ChannelController'' then [''ChangeChannel'', ''SkipChannels'']
      else if namespace = ''Alexa.InputController'' then [''SelectInput'']
      else if namespace = ''Alexa.StepSpeaker'' then [''SetMute'', ''AdjustVolume'']
      else if namespace = ''Alexa.PlaybackController'' then SUPPORTED_PLAYBACK_DIRECTIVES
      else [])"

text \<open>An invocation that issued no request and failed with an InvalidDirective envelope.\<close>

definition rejected_as_invalid :: "run \<Rightarrow> bool" where
  "rejected_as_invalid r =
     (case r of
        ([], Fail reply) \<Rightarrow> is_error_envelope ''INVALID_DIRECTIVE'' reply
      | _ \<Rightarrow> False)"

text \<open>
  The request that \<open>get\<close>, \<open>put\<close> and \<open>post\<close> make of a path and a body, as
  \<open>http.request\<close> gets it: the method and the name of the accept header vary with the
  revision.
\<close>

definition request_for :: "env \<Rightarrow> string \<Rightarrow> string \<Rightarrow> string \<Rightarrow> string option \<Rightarrow> request" where
  "request_for env verb accept path body =
     (JObj [(''method'', JStr verb), (''path'', JStr path),
            (''hostname'', remoteHost env), (''port'', remotePort env),
            (''headers'', JObj [(accept, JStr ''*/*''),
               (''Content-Type'', JStr ''application/json''),
               (''Content-Length'',
                  number (case body of None \<Rightarrow> 0 | Some s \<Rightarrow> byteLength s))])],
      body)"

text \<open>
  The request a shim makes of its arguments: the options and, when the data is a string,
  the data written.
\<close>

definition request_made :: "jsval \<Rightarrow> jsval \<Rightarrow> request" where
  "request_made options postData =
     (options, case postData of JStr s \<Rightarrow> Some s | _ \<Rightarrow> None)"



text \<open>The endpoint ids that a discovery reply publishes, in order.\<close>

definition published_ids :: "jsval \<Rightarrow> jsval list" where
  "published_ids reply =
     (case get_path reply [''event'', ''payload'', ''endpoints''] of
        Inr (JArr endpoints) \<Rightarrow>
          map (\<lambda>endpoint. case get_prop endpoint ''endpointId'' of
                              Inr v \<Rightarrow> v
                            | Inl e \<Rightarrow> JUndefined) endpoints
      | _ \<Rightarrow> [])"

text \<open>The id of a device descriptor of the backend, when it is a string.\<close>

definition device_id :: "jsval \<Rightarrow> string" where
  "device_id descriptor =
     (case get_prop descriptor ''id'' of Inr (JStr i) \<Rightarrow> i | _ \<Rightarrow> [])"

text \<open>
  A descriptor that the discovery of the latest revision can read: its id is a string and
  its type can be converted to a property key.
\<close>

definition readable_descriptor :: "jsval \<Rightarrow> bool" where
  "readable_descriptor descriptor =
     ((case get_prop descriptor ''id'' of Inr (JStr i) \<Rightarrow> True | _ \<Rightarrow> False)
      \<and> (case get_prop descriptor ''type'' of Inr t \<Rightarrow> printable t | Inl e \<Rightarrow> False))"

text \<open>A descriptor that the filter of the latest revision's discovery keeps.\<close>

definition kept_latest :: "jsval \<Rightarrow> bool" where
  "kept_latest descriptor =
     (case isEndpointSupported_latest descriptor of
        Inr keep \<Rightarrow> truthy keep
      | Inl e \<Rightarrow> False)"

text \<open>
  The namespaces of the control directives, and the path at which a control directive is
  to reach a device of the backend: only \<open>SkipChannels\<close> goes without the token.
\<close>

definition control_namespaces :: "string list" where
  "control_namespaces =
     [''Alexa.PowerController'', ''Alexa.ChannelController'', ''Alexa.InputController'',
      ''Alexa.StepSpeaker'', ''Alexa.PlaybackController'']"

definition control_path :: "string \<Rightarrow> string \<Rightarrow> string \<Rightarrow> string \<Rightarrow> string" where
  "control_path namespace name deviceId token =
     ''/endpoints/'' @ deviceId @
       (if namespace = ''Alexa.PowerController'' then ''/power?access_token='' @ token
        else if namespace = ''Alexa.ChannelController'' then
          (if name = ''SkipChannels'' then ''/channel'' else ''/channel?access_token='' @ token)
        else if namespace = ''Alexa.InputController'' then ''/input?access_token='' @ token
        else if namespace = ''Alexa.StepSpeaker'' then ''/volume?accessToken='' @ token
        else ''/playback?accessToken='' @ token)"

text \<open>A request to a device of the backend: its path begins \<open>/endpoints/<id>/\<close>.\<close>

definition addresses :: "string \<Rightarrow> request \<Rightarrow> bool" where
  "addresses deviceId request =
     (case get_prop (fst request) ''path'' of
        Inr (JStr path) \<Rightarrow> prefix (''/endpoints/'' @ deviceId @ ''/'') path
      | _ \<Rightarrow> False)"

text \<open>
  A control directive as the handlers of the latest revision need it to issue a request:
  namespace and name of the routing table, an endpoint id that is a string, a token that
  can be converted to text, and a payload.
\<close>

definition control_directive :: "jsval \<Rightarrow> string \<Rightarrow> string \<Rightarrow> string \<Rightarrow> jsval \<Rightarrow> bool" where
  "control_directive event namespace name endpointId token =
     (get_path event [''directive'', ''header'', ''namespace''] = Inr (JStr namespace)
      \<and> get_path event [''directive'', ''header'', ''name''] = Inr (JStr name)
      \<and> namespace \<in> set control_namespaces
      \<and> name \<in> set (supported_names namespace)
      \<and> get_path event [''directive'', ''endpoint'', ''endpointId''] = Inr (JStr endpointId)
      \<and> get_path event [''directive'', ''endpoint'', ''scope'', ''token''] = Inr token
      \<and> printable token
      \<and> (case get_path event [''directive'', ''payload''] of
            Inr payload \<Rightarrow> payload \<noteq> JUndefined \<and> payload \<noteq> JNull
          | Inl e \<Rightarrow> False))"

section \<open>Concrete inputs\<close>

text \<open>
  A device descriptor of the backend, and a directive that names the endpoint it is
  published as.
\<close>

definition zway_descriptor :: jsval where
  "zway_descriptor =
     JObj [(''id'', JStr ''ZWayVDev_zway_2.0''), (''name'', JStr ''Lamp''),
           (''description'', JStr ''Lamp''), (''manufacturer'', JStr ''X''),
           (''type'', JStr ''zwitch'')]"

definition zway_turnOn :: jsval where
  "zway_turnOn =
     JObj [(''directive'', JObj
       [(''header'', JObj [(''namespace'', JStr ''Alexa.PowerController''),
                           (''name'', JStr ''TurnOn'')]),
        (''endpoint'', JObj [(''endpointId'', JStr ''ZWayVDev_zway_2#0''),
                             (''scope'', JObj [(''token'', JStr ''t0k'')])]),
        (''payload'', JObj [])])]"

text \<open>
  \<open>JSON.parse\<close> at the texts the backend serves below: three JSON documents; every
  other text served (\<open><html>\<close>, \<open>Not Found\<close>) is not JSON.
\<close>

definition parse_known :: "string \<Rightarrow> jsval option" where
  "parse_known =
     map_of [(''[]'', JArr []),
             (''{\"state\":\"on\"}'', JObj [(''state'', JStr ''on'')]),
             (''{\"state\":\"off\"}'', JObj [(''state'', JStr ''off'')])]"

text \<open>An environment whose transport answers every request with the given reply.\<close>

definition env_of :: "reply \<Rightarrow> env" where
  "env_of r =
     \<lparr>remoteHost = JStr ''zway.example'', remotePort = JStr ''8083'',
      now = 1500000000000, net = (\<lambda>request. r), JSON_parse = parse_known,
      unescaped = TypeError, invalid_chunk = TypeError\<rparr>"

text \<open>A directive for endpoint \<open>e1\<close> with a bearer token.\<close>

definition directive_of :: "string \<Rightarrow> string \<Rightarrow> jsval \<Rightarrow> jsval" where
  "directive_of namespace name payload =
     JObj [(''directive'', JObj
       [(''header'', JObj [(''namespace'', JStr namespace), (''name'', JStr name),
                           (''payloadVersion'', JStr ''3'')]),
        (''endpoint'', JObj [(''endpointId'', JStr ''e1''),
                             (''scope'', JObj [(''type'', JStr ''BearerToken''),
                                               (''token'', JStr ''t0k'')])]),
        (''payload'', payload)])]"


text \<open>The error of a request whose connection the backend refuses.\<close>

definition connection_refused :: js_error where
  "connection_refused =
     NodeError ''connect ECONNREFUSED 10.0.0.7:8083''
       [(''errno'', JStr ''ECONNREFUSED''), (''code'', JStr ''ECONNREFUSED''),
        (''syscall'', JStr ''connect''), (''address'', JStr ''10.0.0.7''),
        (''port'', JNum ''8083'')]"

text \<open>A directive whose header has no name.\<close>

definition no_name_event :: jsval where
  "no_name_event = JObj [(''directive'', JObj
       [(''header'', JObj [(''namespace'', JStr ''Alexa.PowerController'')]),
        (''payload'', JObj [])])]"

text \<open>A discovery directive with a bearer token, and one under another name.\<close>

definition discover_event :: "string \<Rightarrow> jsval" where
  "discover_event name =
     JObj [(''directive'', JObj
       [(''header'', JObj [(''namespace'', JStr ''Alexa.Discovery''), (''name'', JStr name),
                           (''payloadVersion'', JStr ''3'')]),
        (''payload'', JObj [(''scope'', JObj [(''type'', JStr ''BearerToken''),
                                              (''token'', JStr ''t0k'')])])])]"

text \<open>The requests the handlers build for these directives, as \<open>http.request\<close> gets them.\<close>

definition request_of :: "string \<Rightarrow> string \<Rightarrow> string \<Rightarrow> string option \<Rightarrow> request" where
  "request_of verb accept path body =
     (JObj [(''method'', JStr verb), (''path'', JStr path),
            (''hostname'', JStr ''zway.example''), (''port'', JStr ''8083''),
            (''headers'', JObj [(accept, JStr ''*/*''),
               (''Content-Type'', JStr ''application/json''),
               (''Content-Length'',
                  number (case body of None \<Rightarrow> 0 | Some s \<Rightarrow> int (length s)))])],
      body)"

section \<open>Properties\<close>

subsection \<open>Conversions and the synchronous part\<close>

lemma ToString_JStr [simp]: "ToString (JStr s) = Inr s"
  by (simp add: ToString_def)

lemma sync_simps [simp]: "sync (Inl e) = ([], Uncaught e)" "sync (Inr r) = r"
  by (simp_all add: sync_def)

subsection \<open>Property reads\<close>

lemma get_prop_Inr_cases: "get_prop v k = Inr w \<Longrightarrow> v \<noteq> JUndefined \<and> v \<noteq> JNull"
  by (cases v) auto

lemma get_prop_defined: "v \<noteq> JUndefined \<Longrightarrow> v \<noteq> JNull \<Longrightarrow> \<exists>w. get_prop v k = Inr w"
  by (cases v) auto

lemma get_prop_truthy: "truthy v \<Longrightarrow> \<exists>w. get_prop v k = Inr w"
  by (cases v) auto

subsection \<open>Malformed envelopes\<close>

lemma show_now: "show_int 1500000000000 = ''1500000000000''"
  by (simp add: show_int_def show_nat.simps digit_char_def)

lemma isEventValid_total: "\<exists>v. isEventValid event = Inr v \<and>
   (truthy v \<longleftrightarrow> truthy (header_field event ''namespace'') \<and> truthy (header_field event ''name''))"
proof (cases "truthy event")
  case False
  then show ?thesis by (cases event) (auto simp: isEventValid_def js_and_def header_field_def)
next
  case True
  then obtain d where d: "get_prop event ''directive'' = Inr d" using get_prop_truthy by blast
  show ?thesis
  proof (cases "truthy d")
    case False
    then show ?thesis using True d by (cases d) (auto simp: isEventValid_def js_and_def header_field_def)
  next
    case td: True
    then obtain h where h: "get_prop d ''header'' = Inr h" using get_prop_truthy by blast
    show ?thesis
    proof (cases "truthy h")
      case False
      then show ?thesis using True d td h by (cases h) (auto simp: isEventValid_def js_and_def header_field_def)
    next
      case th: True
      obtain n where n: "get_prop h ''namespace'' = Inr n" using th get_prop_truthy by blast
      obtain m where m: "get_prop h ''name'' = Inr m" using th get_prop_truthy by blast
      show ?thesis using True d td h th n m
        by (auto simp: isEventValid_def js_and_def header_field_def)
    qed
  qed
qed

lemma is_error_envelope_index: "is_error_envelope type (getErrorResponse_index env type message)"
  by (simp add: is_error_envelope_def getErrorResponse_index_def getResponse_index_def)

lemma is_error_envelope_latest: "is_error_envelope type (getErrorReply_latest env type rest)"
  by (simp add: is_error_envelope_def getErrorReply_latest_def getReply_latest_def)

text \<open>
  C3. An inbound envelope whose directive header lacks the namespace or the name (the
  event, the directive or the header may be missing altogether) is answered, in
  \<open>index.js\<close>, in the third script of \<open>code.js\<close> and in the latest revision, with
  the InternalError envelope of the handler's own \<open>else\<close> branch: no handler is
  dispatched to and no request is issued.
\<close>

theorem malformed_envelope_InternalError:
  assumes "header_field event ''namespace'' = JUndefined \<or> header_field event ''name'' = JUndefined"
  shows "handler_index env event =
           ([], Fail (getErrorResponse_index env ''INTERNAL_ERROR''
                        (''Invalid event: '' @ to_string (JSON_stringify event))))
       \<and> handler_code3 env event =
           ([], Fail (getErrorResponse_index env ''INTERNAL_ERROR''
                        (''Invalid event: '' @ to_string (JSON_stringify event))))
       \<and> handler_latest env event =
           ([], Fail (getErrorReply_latest env ''INTERNAL_ERROR'' [JStr ''Invalid event'', event]))
       \<and> is_error_envelope ''INTERNAL_ERROR'' (getErrorResponse_index env ''INTERNAL_ERROR''
                        (''Invalid event: '' @ to_string (JSON_stringify event)))
       \<and> is_error_envelope ''INTERNAL_ERROR''
            (getErrorReply_latest env ''INTERNAL_ERROR'' [JStr ''Invalid event'', event])"
proof -
  obtain v where v: "isEventValid event = Inr v"
    and t: "truthy v \<longleftrightarrow> truthy (header_field event ''namespace'') \<and> truthy (header_field event ''name'')"
    using isEventValid_total by blast
  from assms t have "\<not> truthy v" by auto
  then show ?thesis using v
    by (simp add: handler_index_def handler_code3_def handler_latest_def
        is_error_envelope_index is_error_envelope_latest)
qed

theorem malformed_envelope_InternalError_witness:
  "header_field no_name_event ''name'' = JUndefined
   \<and> handler_index (env_of (Response 200 [] [''[]''])) no_name_event =
       ([], Fail (JObj [(''event'', JObj
          [(''header'', JObj [(''messageId'', JStr ''1500000000000''),
                              (''name'', JStr ''ErrorResponse''),
                              (''namespace'', JStr ''Alexa''),
                              (''payloadVersion'', JStr ''3'')]),
           (''payload'', JObj [(''type'', JStr ''INTERNAL_ERROR''),
              (''message'', JStr ''Invalid event: {\"directive\":{\"header\":{\"namespace\":\"Alexa.PowerController\"},\"payload\":{}}}'')])])]))"
proof -
  have h: "header_field no_name_event ''name'' = JUndefined"
    by (simp add: header_field_def no_name_event_def)
  then have "header_field no_name_event ''namespace'' = JUndefined \<or> header_field no_name_event ''name'' = JUndefined"
    by simp
  from malformed_envelope_InternalError[OF this, of "env_of (Response 200 [] [''[]''])"] h
  show ?thesis
    by (simp add: getErrorResponse_index_def getResponse_index_def env_of_def show_now
        JSON_stringify_def no_name_event_def quote_def escape_char_def)
qed

subsection \<open>Capabilities per device type\<close>

lemma interface_name_getCapability [simp]: "interface_name (getCapability i) = i"
  by (simp add: interface_name_def getCapability_def)

text \<open>
  The claim C2 as stated, that the resolver returns the specification's table, fails in
  the third script of \<open>code.js\<close>: a television is not given the playback interface.
\<close>

theorem television_lacks_playback_counterexample:
  "interfaces (getEndpointCapabilities_code3 (JObj [(''type'', JStr ''television'')]))
   \<noteq> capabilitiesFor (JStr ''television'')"
proof -
  have "''Alexa.PlaybackController'' \<in> capabilitiesFor (JStr ''television'')"
    by (simp add: capabilitiesFor_def)
  moreover have "''Alexa.PlaybackController''
      \<notin> interfaces (getEndpointCapabilities_code3 (JObj [(''type'', JStr ''television'')]))"
    by (simp add: interfaces_def getEndpointCapabilities_code3_def)
  ultimately show ?thesis by metis
qed

lemma device_type_cases:
  obtains "t = JStr ''switchBinary''" | "t = JStr ''television''" | "t = JStr ''roku''"
    | "t = JStr ''zwitch''"
    | "t \<noteq> JStr ''switchBinary''" "t \<noteq> JStr ''television''" "t \<noteq> JStr ''roku''"
      "t \<noteq> JStr ''zwitch''"
  by blast

lemma capabilities_index:
  assumes "get_prop endpoint ''type'' = Inr t"
  shows "interfaces (getEndpointCapabilities_index endpoint) = capabilitiesFor t"
  by (cases t rule: device_type_cases)
     (simp_all add: assms interfaces_def getEndpointCapabilities_index_def capabilitiesFor_def
        insert_commute)

lemma capabilities_code3:
  assumes "get_prop endpoint ''type'' = Inr t"
  shows "interfaces (getEndpointCapabilities_code3 endpoint) =
           (if t = JStr ''television''
            then {''Alexa.PowerController'', ''Alexa.ChannelController'',
                  ''Alexa.StepSpeaker'', ''Alexa.InputController''}
            else capabilitiesFor t)"
  by (cases t rule: device_type_cases)
     (simp_all add: assms interfaces_def getEndpointCapabilities_code3_def capabilitiesFor_def
        insert_commute)

lemma capabilities_latest:
  assumes "get_prop endpoint ''type'' = Inr t"
  shows "interfaces (getEndpointCapabilities_latest endpoint) =
           (if t = JStr ''zwitch'' then {''Alexa.PowerController''}
            else if t = JStr ''television''
            then {''Alexa.PowerController'', ''Alexa.ChannelController'',
                  ''Alexa.StepSpeaker'', ''Alexa.InputController''}
            else if t = JStr ''roku''
            then {''Alexa.ChannelController'', ''Alexa.PlaybackController''}
            else {})"
  by (cases t rule: device_type_cases)
     (simp_all add: assms interfaces_def getEndpointCapabilities_latest_def insert_commute)

lemma capabilities_early:
  assumes "get_prop device ''deviceType'' = Inr t"
  shows "interfaces (getDeviceCapabilities device) =
           (if t = JStr ''television''
            then {''Alexa.PowerController'', ''Alexa.ChannelController'',
                  ''Alexa.PlaybackController'', ''Alexa.StepSpeaker''}
            else capabilitiesFor t)"
  by (cases t rule: device_type_cases)
     (simp_all add: assms interfaces_def getDeviceCapabilities_def capabilitiesFor_def
        insert_commute)

text \<open>
  C2, amended. The resolver of \<open>index.js\<close> returns exactly the specification's table.
  The third script of \<open>code.js\<close> and the latest revision give a television power,
  channel, step-speaker and input without playback, which is left to the roku; the
  latest revision names the switch type \<open>zwitch\<close>, so that \<open>switchBinary\<close> is unknown
  there; the first script of the versioned protocol gives a television power, channel,
  playback and step-speaker without input. In every revision any other device type has
  no capability.
\<close>

theorem capabilities_per_revision:
  assumes "get_prop endpoint ''type'' = Inr t" and "get_prop device ''deviceType'' = Inr t"
  shows "interfaces (getEndpointCapabilities_index endpoint) = capabilitiesFor t
    \<and> interfaces (getEndpointCapabilities_code3 endpoint) =
           (if t = JStr ''television''
            then {''Alexa.PowerController'', ''Alexa.ChannelController'',
                  ''Alexa.StepSpeaker'', ''Alexa.InputController''}
            else capabilitiesFor t)
    \<and> interfaces (getEndpointCapabilities_latest endpoint) =
           (if t = JStr ''zwitch'' then {''Alexa.PowerController''}
            else if t = JStr ''television''
            then {''Alexa.PowerController'', ''Alexa.ChannelController'',
                  ''Alexa.StepSpeaker'', ''Alexa.InputController''}
            else if t = JStr ''roku''
            then {''Alexa.ChannelController'', ''Alexa.PlaybackController''}
            else {})
    \<and> interfaces (getDeviceCapabilities device) =
           (if t = JStr ''television''
            then {''Alexa.PowerController'', ''Alexa.ChannelController'',
                  ''Alexa.PlaybackController'', ''Alexa.StepSpeaker''}
            else capabilitiesFor t)"
  using capabilities_index[OF assms(1)] capabilities_code3[OF assms(1)]
    capabilities_latest[OF assms(1)] capabilities_early[OF assms(2)]
  by (intro conjI)

theorem capabilities_per_revision_witness:
  "interfaces (getEndpointCapabilities_index (JObj [(''type'', JStr ''television'')]))
     = {''Alexa.PowerController'', ''Alexa.ChannelController'', ''Alexa.PlaybackController'',
        ''Alexa.StepSpeaker'', ''Alexa.InputController''}
   \<and> interfaces (getEndpointCapabilities_code3 (JObj [(''type'', JStr ''television'')]))
     = {''Alexa.PowerController'', ''Alexa.ChannelController'',
        ''Alexa.StepSpeaker'', ''Alexa.InputController''}
   \<and> interfaces (getEndpointCapabilities_latest (JObj [(''type'', JStr ''television'')]))
     = {''Alexa.PowerController'', ''Alexa.ChannelController'',
        ''Alexa.StepSpeaker'', ''Alexa.InputController''}
   \<and> interfaces (getDeviceCapabilities (JObj [(''deviceType'', JStr ''television'')]))
     = {''Alexa.PowerController'', ''Alexa.ChannelController'',
        ''Alexa.PlaybackController'', ''Alexa.StepSpeaker''}"
proof -
  have a: "get_prop (JObj [(''type'', JStr ''television'')]) ''type'' = Inr (JStr ''television'')"
    by simp
  have b: "get_prop (JObj [(''deviceType'', JStr ''television'')]) ''deviceType''
           = Inr (JStr ''television'')"
    by simp
  from capabilities_per_revision[OF a b] show ?thesis
    by (simp add: capabilitiesFor_def)
qed

subsection \<open>Message ids and payload versions\<close>

lemma digit_char_props:
  assumes "d < 10"
  shows "digit_val (digit_char d) = d" and "digit_char d \<noteq> CHR ''-''"
proof -
  from assms have "d = 0 \<or> d = 1 \<or> d = 2 \<or> d = 3 \<or> d = 4 \<or> d = 5 \<or> d = 6 \<or> d = 7
      \<or> d = 8 \<or> d = 9"
    by arith
  then show "digit_val (digit_char d) = d" and "digit_char d \<noteq> CHR ''-''"
    by (auto simp: digit_char_def digit_val_def)
qed

lemma read_nat_snoc: "read_nat (s @ [c]) = 10 * read_nat s + digit_val c"
  by (simp add: read_nat_def)

lemma read_show_nat: "read_nat (show_nat n) = n"
proof (induction n rule: show_nat.induct)
  case (1 n)
  show ?case
  proof (cases "n < 10")
    case True
    then show ?thesis
      by (subst show_nat.simps) (simp add: read_nat_def digit_char_props)
  next
    case False
    with 1 have "read_nat (show_nat (n div 10)) = n div 10" by simp
    with False show ?thesis
      by (subst show_nat.simps) (simp add: read_nat_snoc digit_char_props)
  qed
qed

lemma show_nat_inj: "show_nat m = show_nat n \<Longrightarrow> m = n"
  by (metis read_show_nat)

lemma show_nat_hd: "\<exists>c cs. show_nat n = c # cs \<and> c \<noteq> CHR ''-''"
proof (induction n rule: show_nat.induct)
  case (1 n)
  show ?case
  proof (cases "n < 10")
    case True
    then show ?thesis
      by (subst show_nat.simps) (simp add: digit_char_props)
  next
    case False
    with 1 obtain c cs where "show_nat (n div 10) = c # cs" "c \<noteq> CHR ''-''" by auto
    with False show ?thesis
      by (subst show_nat.simps) simp
  qed
qed

lemma show_int_nonempty: "show_int i \<noteq> []"
  using show_nat_hd[of "nat i"] by (auto simp: show_int_def)

lemma show_int_inj: "show_int i = show_int j \<Longrightarrow> i = j"
proof -
  assume eq: "show_int i = show_int j"
  consider "i < 0" "j < 0" | "i < 0" "\<not> j < 0" | "\<not> i < 0" "j < 0" | "\<not> i < 0" "\<not> j < 0"
    by blast
  then show "i = j"
  proof cases
    case 1
    with eq have "nat (- i) = nat (- j)" by (simp add: show_int_def show_nat_inj)
    with 1 show ?thesis by simp
  next
    case 2
    with eq show_nat_hd[of "nat j"] show ?thesis by (auto simp: show_int_def)
  next
    case 3
    with eq show_nat_hd[of "nat i"] show ?thesis by (auto simp: show_int_def)
  next
    case 4
    with eq have "nat i = nat j" by (simp add: show_int_def show_nat_inj)
    with 4 show ?thesis by simp
  qed
qed

text \<open>
  The claim C6 as stated, that every outbound envelope has a unique message id, fails:
  a success envelope and an error envelope built at the same clock reading are two
  envelopes with one message id.
\<close>

theorem messageId_shared_counterexample:
  "getResponse_index (env_of (Response 200 [] [])) ''Alexa'' ''Response'' JUndefined
     \<noteq> getErrorResponse_index (env_of (Response 200 [] [])) ''INTERNAL_ERROR'' ''Not yet implemented''
   \<and> get_path (getResponse_index (env_of (Response 200 [] [])) ''Alexa'' ''Response'' JUndefined)
        [''event'', ''header'', ''messageId'']
     = get_path (getErrorResponse_index (env_of (Response 200 [] [])) ''INTERNAL_ERROR''
          ''Not yet implemented'') [''event'', ''header'', ''messageId'']"
  by (simp add: getResponse_index_def getErrorResponse_index_def)

text \<open>
  C6, amended. Every envelope built by \<open>getResponse\<close> or \<open>getReply\<close>, success or
  error, carries as message id the decimal text of the clock reading at which it is
  built: a non-empty text, different for different clock readings (and the same for
  envelopes built at the same reading). The payload version is \<open>3\<close> in the versioned
  protocol and \<open>2\<close> in the legacy one.
\<close>

theorem messageId_payloadVersion:
  "get_path (getResponse_index env namespace name payload) [''event'', ''header'', ''messageId'']
     = Inr (JStr (show_int (now env)))
   \<and> get_path (getResponse_index env namespace name payload)
        [''event'', ''header'', ''payloadVersion''] = Inr (JStr ''3'')
   \<and> get_path (getErrorResponse_index env type message) [''event'', ''header'', ''messageId'']
     = Inr (JStr (show_int (now env)))
   \<and> get_path (getErrorResponse_index env type message)
        [''event'', ''header'', ''payloadVersion''] = Inr (JStr ''3'')
   \<and> get_path (getReply_latest env namespace name payload) [''event'', ''header'', ''messageId'']
     = Inr (JStr (show_int (now env)))
   \<and> get_path (getReply_latest env namespace name payload)
        [''event'', ''header'', ''payloadVersion''] = Inr (JStr ''3'')
   \<and> get_path (getErrorReply_latest env type rest) [''event'', ''header'', ''messageId'']
     = Inr (JStr (show_int (now env)))
   \<and> get_path (getErrorReply_latest env type rest)
        [''event'', ''header'', ''payloadVersion''] = Inr (JStr ''3'')
   \<and> get_path (getResponse_legacy env name namespace payload) [''header'', ''messageId'']
     = Inr (JStr (show_int (now env)))
   \<and> get_path (getResponse_legacy env name namespace payload) [''header'', ''payloadVersion'']
     = Inr (JStr ''2'')
   \<and> show_int (now env) \<noteq> []
   \<and> (now env \<noteq> now env' \<longrightarrow> show_int (now env) \<noteq> show_int (now env'))"
proof -
  have "now env \<noteq> now env' \<longrightarrow> show_int (now env) \<noteq> show_int (now env')"
    using show_int_inj[of "now env" "now env'"] by blast
  then show ?thesis
    using show_int_nonempty[of "now env"]
    by (simp add: getResponse_index_def getErrorResponse_index_def getReply_latest_def
        getErrorReply_latest_def getResponse_legacy_def)
qed

theorem messageId_payloadVersion_witness:
  "now (env_of (Response 200 [] [])) \<noteq> now ((env_of (Response 200 [] []))\<lparr>now := 1500000000001\<rparr>)
   \<and> show_int (now (env_of (Response 200 [] [])))
     \<noteq> show_int (now ((env_of (Response 200 [] []))\<lparr>now := 1500000000001\<rparr>))
   \<and> get_path (getResponse_legacy (env_of (Response 200 [] [])) ''TurnOnConfirmation''
        ''Alexa.ConnectedHome.Control'' JUndefined) [''header'', ''messageId'']
     = Inr (JStr ''1500000000000'')"
  using messageId_payloadVersion[of "env_of (Response 200 [] [])" "''Alexa.ConnectedHome.Control''"
      "''TurnOnConfirmation''" JUndefined "''x''" "''y''" "[]"
      "(env_of (Response 200 [] []))\<lparr>now := 1500000000001\<rparr>"]
  by (simp add: env_of_def show_now)

subsection \<open>Routing of playback directives\<close>

lemma andThen_Inr_iff: "andThen m f = Inr y \<longleftrightarrow> (\<exists>x. m = Inr x \<and> f x = Inr y)"
  by (cases m) auto

lemma andThen_Inl_iff: "andThen m f = Inl e \<longleftrightarrow> m = Inl e \<or> (\<exists>x. m = Inr x \<and> f x = Inl e)"
  by (cases m) auto

lemma handler_dispatches:
  assumes ns: "get_path event [''directive'', ''header'', ''namespace''] = Inr namespace"
    and nm: "get_path event [''directive'', ''header'', ''name''] = Inr name"
    and t: "truthy namespace" "truthy name"
  shows "\<exists>v. isEventValid event = Inr v \<and> truthy v"
proof -
  obtain v where v: "isEventValid event = Inr v"
    and iff: "truthy v \<longleftrightarrow> truthy (header_field event ''namespace'') \<and> truthy (header_field event ''name'')"
    using isEventValid_total by blast
  from ns nm t have "truthy (header_field event ''namespace'') \<and> truthy (header_field event ''name'')"
    by (simp add: header_field_def)
  with v iff show ?thesis by blast
qed

lemma playback_name_props:
  assumes "n \<in> set SUPPORTED_PLAYBACK_DIRECTIVES"
  shows "n \<noteq> []" and "isPlaybackDirectiveValid (JStr n)"
  using assms by (auto simp: SUPPORTED_PLAYBACK_DIRECTIVES_def isPlaybackDirectiveValid_def)

subsection \<open>What the shims return\<close>

lemma httpPromise_index_cases:
  "(\<exists>e. httpPromise_index env options postData = ([], Inl e))
   \<or> (\<exists>r settled. httpPromise_index env options postData = ([r], settled))"
  by (simp add: httpPromise_index_def write_end_index_def Let_def split: reply.splits)

lemma httpPromise_code3_cases:
  "(\<exists>e. httpPromise_code3 env options postData = ([], Inl e))
   \<or> (\<exists>r settled. httpPromise_code3 env options postData = ([r], settled))"
  using httpPromise_index_cases[of env options postData]
  by (auto simp: httpPromise_code3_def)

lemma httpPromise_latest_cases:
  "(\<exists>e. httpPromise_latest env options postString = ([], Rejected e))
   \<or> (\<exists>r settled. httpPromise_latest env options postString = ([r], settled))"
  by (simp add: httpPromise_latest_def Let_def split: reply.splits)

lemma put_code3_cases:
  "(\<exists>e. put_code3 env path postData = Inl e)
   \<or> (\<exists>e. put_code3 env path postData = Inr ([], Inl e))
   \<or> (\<exists>r settled. put_code3 env path postData = Inr ([r], settled))"
proof (cases "assign [(''method'', JStr ''PUT''), (''path'', JStr path)] (getOptions_index env postData)")
  case (Inl e)
  then show ?thesis by (simp add: put_code3_def)
next
  case (Inr options)
  then show ?thesis
    using httpPromise_code3_cases[of env "JObj options" postData]
    by (auto simp: put_code3_def)
qed

lemma post_latest_cases:
  "(\<exists>e. post_latest env path postData = ([], Rejected e))
   \<or> (\<exists>r settled. post_latest env path postData = ([r], settled))"
  unfolding post_latest_def Let_def by (rule httpPromise_latest_cases)

lemma unreachable_not_internal_latest:
  "getServiceErrorReply env e \<noteq> getErrorReply_latest env ''INTERNAL_ERROR'' rest"
  by (simp add: getServiceErrorReply_def getErrorReply_latest_def getReply_latest_def)

lemma unreachable_not_internal_index:
  "getPutErrorResponse_index env e \<noteq> getErrorResponse_index env ''INTERNAL_ERROR'' message"
  by (simp add: getPutErrorResponse_index_def getErrorResponse_index_def getResponse_index_def)

lemma playback_latest_outcomes:
  assumes "getDirectiveName event = Inr (JStr n)" and "n \<in> set SUPPORTED_PLAYBACK_DIRECTIVES"
  shows "(\<exists>e. handlePlaybackControlEvent_latest env event = ([], Uncaught e))
       \<or> (\<exists>e. handlePlaybackControlEvent_latest env event
                = ([], Fail (getServiceErrorReply env e)))
       \<or> fst (handlePlaybackControlEvent_latest env event) \<noteq> []"
proof (cases "andThen (getEndpointId event) (\<lambda>endpointId.
              andThen (getEndpointToken event) (\<lambda>accessToken.
                template [Lit ''/endpoints/'', Val (JStr endpointId),
                          Lit ''/playback?accessToken='', Val accessToken]))")
  case (Inl e)
  then have "handlePlaybackControlEvent_latest env event = ([], Uncaught e)"
    using assms(1) playback_name_props(2)[OF assms(2)]
    by (auto simp: handlePlaybackControlEvent_latest_def andThen_Inl_iff)
  then show ?thesis by blast
next
  case (Inr path)
  then obtain endpointId accessToken where r: "getEndpointId event = Inr endpointId"
      "getEndpointToken event = Inr accessToken"
      "template [Lit ''/endpoints/'', Val (JStr endpointId),
                 Lit ''/playback?accessToken='', Val accessToken] = Inr path"
    by (auto simp: andThen_Inr_iff)
  from post_latest_cases[of env path "JObj [(''directive'', JStr n)]"]
  show ?thesis
  proof (elim disjE exE)
    fix e assume "post_latest env path (JObj [(''directive'', JStr n)]) = ([], Rejected e)"
    then have "handlePlaybackControlEvent_latest env event
                = ([], Fail (getServiceErrorReply env e))"
      using assms(1) playback_name_props(2)[OF assms(2)] r
      by (simp add: handlePlaybackControlEvent_latest_def)
    then show ?thesis by blast
  next
    fix q settled assume "post_latest env path (JObj [(''directive'', JStr n)]) = ([q], settled)"
    then have "fst (handlePlaybackControlEvent_latest env event) \<noteq> []"
      using assms(1) playback_name_props(2)[OF assms(2)] r
      by (simp add: handlePlaybackControlEvent_latest_def)
    then show ?thesis by blast
  qed
qed

lemma playback_code3_outcomes:
  assumes "getDirectiveName event = Inr (JStr n)" and "n \<in> set SUPPORTED_PLAYBACK_DIRECTIVES"
  shows "(\<exists>e. handlePlaybackControlEvent_code3 env event = ([], Uncaught e))
       \<or> (\<exists>e. handlePlaybackControlEvent_code3 env event
                = ([], Fail (getPutErrorResponse_index env e)))
       \<or> fst (handlePlaybackControlEvent_code3 env event) \<noteq> []"
proof (cases "andThen (getEndpointId_code3 event) (\<lambda>endpointId.
              andThen (getEndpointToken event) (\<lambda>accessToken.
                template [Lit ''/endpoints/'', Val endpointId,
                          Lit ''/playback?accessToken='', Val accessToken]))")
  case (Inl e)
  then have "handlePlaybackControlEvent_code3 env event = ([], Uncaught e)"
    using assms(1) playback_name_props(2)[OF assms(2)]
    by (auto simp: handlePlaybackControlEvent_code3_def andThen_Inl_iff)
  then show ?thesis by blast
next
  case (Inr path)
  then obtain endpointId accessToken where r: "getEndpointId_code3 event = Inr endpointId"
      "getEndpointToken event = Inr accessToken"
      "template [Lit ''/endpoints/'', Val endpointId,
                 Lit ''/playback?accessToken='', Val accessToken] = Inr path"
    by (auto simp: andThen_Inr_iff)
  let ?d = "JSON_stringify (JObj [(''directive'', JStr n)])"
  from put_code3_cases[of env path ?d]
  show ?thesis
  proof (elim disjE exE)
    fix e assume "put_code3 env path ?d = Inl e"
    then have "handlePlaybackControlEvent_code3 env event = ([], Uncaught e)"
      using assms(1) playback_name_props(2)[OF assms(2)] r
      by (simp add: handlePlaybackControlEvent_code3_def)
    then show ?thesis by blast
  next
    fix e assume "put_code3 env path ?d = Inr ([], Inl e)"
    then have "handlePlaybackControlEvent_code3 env event
                = ([], Fail (getPutErrorResponse_index env e))"
      using assms(1) playback_name_props(2)[OF assms(2)] r
      by (simp add: handlePlaybackControlEvent_code3_def settleSuccess_code3_def)
    then show ?thesis by blast
  next
    fix q settled assume "put_code3 env path ?d = Inr ([q], settled)"
    then have "fst (handlePlaybackControlEvent_code3 env event) \<noteq> []"
      using assms(1) playback_name_props(2)[OF assms(2)] r
      by (simp add: handlePlaybackControlEvent_code3_def)
    then show ?thesis by blast
  qed
qed

text \<open>
  The claim C7 as stated fails in \<open>index.js\<close>: its handler has no case for the playback
  namespace, and a \<open>Play\<close> directive ends in the branch for unsupported namespaces.
\<close>

theorem playback_unrouted_counterexample:
  "handler_index (env_of (Response 200 [] [''[]'']))
     (directive_of ''Alexa.PlaybackController'' ''Play'' (JObj []))
   = ([], Fail (JObj [(''event'', JObj
        [(''header'', JObj [(''messageId'', JStr ''1500000000000''),
                            (''name'', JStr ''ErrorResponse''),
                            (''namespace'', JStr ''Alexa''),
                            (''payloadVersion'', JStr ''3'')]),
         (''payload'', JObj [(''type'', JStr ''INTERNAL_ERROR''),
            (''message'', JStr ''Unsupported namespace: Alexa.PlaybackController'')])])]))"
  by (simp add: handler_index_def isEventValid_def js_and_def directive_of_def
      getErrorResponse_index_def getResponse_index_def env_of_def show_now)

text \<open>
  C7, amended. A directive of the playback namespace whose name is one of the eight
  playback directives is routed to the playback handler, and not to the branch for
  unsupported namespaces, in the third script of \<open>code.js\<close> and in the latest
  revision. In \<open>index.js\<close>, which has no playback handler, it is answered from the
  branch for unsupported namespaces with an InternalError envelope.
\<close>

theorem playback_routing:
  assumes "get_path event [''directive'', ''header'', ''namespace'']
           = Inr (JStr ''Alexa.PlaybackController'')"
    and "get_path event [''directive'', ''header'', ''name''] = Inr (JStr n)"
    and "n \<in> set SUPPORTED_PLAYBACK_DIRECTIVES"
  shows "handler_latest env event = handlePlaybackControlEvent_latest env event
       \<and> handler_latest env event
           \<noteq> ([], Fail (getErrorReply_latest env ''INTERNAL_ERROR''
                  [JStr ''Unsupported namespace'', JStr ''Alexa.PlaybackController'']))
       \<and> handler_code3 env event = handlePlaybackControlEvent_code3 env event
       \<and> handler_code3 env event
           \<noteq> ([], Fail (getErrorResponse_index env ''INTERNAL_ERROR''
                  ''Unsupported namespace: Alexa.PlaybackController''))
       \<and> handler_index env event
           = ([], Fail (getErrorResponse_index env ''INTERNAL_ERROR''
                  ''Unsupported namespace: Alexa.PlaybackController''))"
proof -
  obtain v where v: "isEventValid event = Inr v" "truthy v"
    using handler_dispatches[OF assms(1,2)] playback_name_props(1)[OF assms(3)] by auto
  have dn: "getDirectiveName event = Inr (JStr n)"
    using assms(2) by (simp add: getDirectiveName_def)
  have l: "handler_latest env event = handlePlaybackControlEvent_latest env event"
    using assms(1) by (simp add: handler_latest_def v)
  have c: "handler_code3 env event = handlePlaybackControlEvent_code3 env event"
    using assms(1) by (simp add: handler_code3_def v)
  have i: "handler_index env event
           = ([], Fail (getErrorResponse_index env ''INTERNAL_ERROR''
                  ''Unsupported namespace: Alexa.PlaybackController''))"
    using assms(1) by (simp add: handler_index_def v)
  have l': "handlePlaybackControlEvent_latest env event
           \<noteq> ([], Fail (getErrorReply_latest env ''INTERNAL_ERROR''
                  [JStr ''Unsupported namespace'', JStr ''Alexa.PlaybackController'']))"
    using playback_latest_outcomes[OF dn assms(3), of env]
      unreachable_not_internal_latest[of env]
    by auto
  have c': "handlePlaybackControlEvent_code3 env event
           \<noteq> ([], Fail (getErrorResponse_index env ''INTERNAL_ERROR''
                  ''Unsupported namespace: Alexa.PlaybackController''))"
    using playback_code3_outcomes[OF dn assms(3), of env]
      unreachable_not_internal_index[of env]
    by auto
  from l c i l' c' show ?thesis by simp
qed

theorem playback_routing_witness:
  "handler_latest (env_of (Response 200 [] [''[]'']))
     (directive_of ''Alexa.PlaybackController'' ''Play'' (JObj []))
   = handlePlaybackControlEvent_latest (env_of (Response 200 [] [''[]'']))
     (directive_of ''Alexa.PlaybackController'' ''Play'' (JObj []))
   \<and> handler_code3 (env_of (Response 200 [] [''[]'']))
     (directive_of ''Alexa.PlaybackController'' ''Play'' (JObj []))
   = handlePlaybackControlEvent_code3 (env_of (Response 200 [] [''[]'']))
     (directive_of ''Alexa.PlaybackController'' ''Play'' (JObj []))"
proof -
  have a: "get_path (directive_of ''Alexa.PlaybackController'' ''Play'' (JObj []))
             [''directive'', ''header'', ''namespace''] = Inr (JStr ''Alexa.PlaybackController'')"
    by (simp add: directive_of_def)
  have b: "get_path (directive_of ''Alexa.PlaybackController'' ''Play'' (JObj []))
             [''directive'', ''header'', ''name''] = Inr (JStr ''Play'')"
    by (simp add: directive_of_def)
  have c: "''Play'' \<in> set SUPPORTED_PLAYBACK_DIRECTIVES"
    by (simp add: SUPPORTED_PLAYBACK_DIRECTIVES_def)
  from playback_routing[OF a b c] show ?thesis by simp
qed

subsection \<open>The requests that get, put and post build\<close>

lemma http_request_request_for:
  "http_request env (request_for env verb accept path body)
     = (if invalid_path path then Refused (unescaped env)
        else net env (request_for env verb accept path body))"
  by (cases path) (simp_all add: http_request_def request_for_def invalid_path_def)

lemma options_index:
  "assign [(''method'', JStr verb), (''path'', JStr path)] (getOptions_index env postData)
     = Inr [(''method'', JStr verb), (''path'', JStr path),
            (''hostname'', remoteHost env), (''port'', remotePort env),
            (''headers'', JObj [(''accept'', JStr ''*/*''),
               (''Content-Type'', JStr ''application/json''),
               (''Content-Length'',
                  case postData of JStr s \<Rightarrow> number (byteLength s) | _ \<Rightarrow> number 0)])]"
  by (simp add: assign_def Object_assign_def getOptions_index_def obj_put_def is_index_def)

lemma options_latest:
  "Object_assign [(''method'', JStr verb), (''path'', JStr path)] (getOptions_latest env postData)
     = [(''method'', JStr verb), (''path'', JStr path),
        (''hostname'', remoteHost env), (''port'', remotePort env),
        (''headers'', JObj [(''Accept'', JStr ''*/*''),
           (''Content-Type'', JStr ''application/json''),
           (''Content-Length'',
              case postData of JStr s \<Rightarrow> number (byteLength s) | _ \<Rightarrow> number 0)])]"
  by (simp add: Object_assign_def getOptions_latest_def obj_put_def is_index_def)

lemma get_index_request:
  "get_index env path
     = Inr (case http_request env (request_for env ''GET'' ''accept'' path None) of
              Refused e \<Rightarrow> ([], Inl e)
            | SocketError e \<Rightarrow> ([request_for env ''GET'' ''accept'' path None], Inl e)
            | Response statusCode headers chunks \<Rightarrow>
                ([request_for env ''GET'' ''accept'' path None],
                 Inr (JObj [(''statusCode'', number statusCode), (''headers'', JObj headers),
                            (''responseText'', JStr (concat chunks))])))"
  by (simp add: get_index_def options_index httpPromise_index_def write_end_index_def
      request_for_def Let_def split: reply.splits)


lemma show_200: "show_int 200 = ''200''"
  by (simp add: show_int_def show_nat.simps digit_char_def)

lemma number_200: "number statusCode = JNum ''200'' \<longleftrightarrow> statusCode = 200"
  using show_int_inj[of statusCode 200] by (auto simp: number_def show_200)

lemma ToString_number [simp]: "ToString (number i) = Inr (show_int i)"
  by (simp add: ToString_def number_def)

lemma get_code3_request:
  "get_code3 env path
     = Inr (case http_request env (request_for env ''GET'' ''accept'' path None) of
              Refused e \<Rightarrow> ([], Inl e)
            | SocketError e \<Rightarrow> ([request_for env ''GET'' ''accept'' path None], Inl e)
            | Response statusCode headers chunks \<Rightarrow>
                ([request_for env ''GET'' ''accept'' path None],
                 if statusCode = 200
                 then Inr (JObj [(''statusCode'', number statusCode), (''headers'', JObj headers),
                                 (''responseText'', JStr (concat chunks))])
                 else Inl (NewError (''HTTP '' @ show_int statusCode))))"
  by (simp add: get_code3_def options_index httpPromise_code3_def httpPromise_index_def
      write_end_index_def request_for_def Let_def number_200 split: reply.splits)


lemma get_latest_request:
  "get_latest env path
     = (case http_request env (request_for env ''GET'' ''Accept'' path None) of
          Refused e \<Rightarrow> ([], Rejected e)
        | SocketError e \<Rightarrow> ([request_for env ''GET'' ''Accept'' path None], Rejected e)
        | Response statusCode headers chunks \<Rightarrow>
            ([request_for env ''GET'' ''Accept'' path None],
             if statusCode = 200 then
               (case JSON_parse env (concat chunks) of
                  Some v \<Rightarrow> Resolved v
                | None \<Rightarrow> Unsettled SyntaxError)
             else Rejected (NewError (''HTTP '' @ show_int statusCode))))"
  by (simp add: get_latest_def options_latest httpPromise_latest_def parse_def
      request_for_def Let_def split: reply.splits option.splits)

lemma post_latest_request:
  assumes "is_object postData"
  shows "post_latest env path postData
     = (case http_request env (request_for env ''POST'' ''Accept'' path
                                 (Some (serialize postData))) of
          Refused e \<Rightarrow> ([], Rejected e)
        | SocketError e \<Rightarrow>
            ([request_for env ''POST'' ''Accept'' path (Some (serialize postData))], Rejected e)
        | Response statusCode headers chunks \<Rightarrow>
            ([request_for env ''POST'' ''Accept'' path (Some (serialize postData))],
             if statusCode = 200 then
               (case JSON_parse env (concat chunks) of
                  Some v \<Rightarrow> Resolved v
                | None \<Rightarrow> Unsettled SyntaxError)
             else Rejected (NewError (''HTTP '' @ show_int statusCode))))"
proof -
  from assms have "postData \<noteq> JUndefined" by auto
  with assms show ?thesis
    by (simp add: post_latest_def options_latest httpPromise_latest_def parse_def
        request_for_def Let_def JSON_stringify_def split: reply.splits option.splits)
qed

lemma http_request_path:
  "http_request env (JObj ((''method'', verb) # (''path'', JStr path) # rest), body)
     = (if invalid_path path then Refused (unescaped env)
        else net env (JObj ((''method'', verb) # (''path'', JStr path) # rest), body))"
  by (cases path) (simp_all add: http_request_def invalid_path_def)

subsection \<open>Discovery\<close>

lemmas latest_defs =
  handler_latest_def isEventValid_def js_and_def handleDiscoveryEvent_latest_def
  get_latest_request post_latest_request http_request_path invalid_path_def
  getDiscoveryReply_def getReply_latest_def getErrorReply_latest_def
  getServiceErrorReply_def getInvalidDirectiveReply_def getDirectiveName_def getEndpointId_def
  getEndpointToken_def JSON_stringify_def quote_def escape_char_def js_join_def
  trim_def is_space_def Object_assign_def obj_put_def is_index_def

lemmas fixture_defs =
  env_of_def parse_known_def directive_of_def discover_event_def request_of_def
  request_for_def byteLength_def connection_refused_def

text \<open>
  In \<open>index.js\<close> a discovery directive that carries a token always succeeds with a
  discovery response, and with no endpoints when \<open>http.request\<close> throws, when the
  transport fails or when the body is not JSON.
\<close>

lemma discovery_index_succeeds:
  assumes "get_path event [''directive'', ''payload'', ''scope'', ''token''] = Inr (JStr token)"
  shows "\<exists>requests endpoints.
           handleDiscoveryEvent_index env event
             = (requests, Succeed (getDiscoveryAlexaResponse_index env endpoints))
           \<and> (case http_request env (request_for env ''GET'' ''accept''
                                        (''/endpoints?access_token='' @ trim token) None) of
                 Refused e \<Rightarrow> requests = [] \<and> endpoints = JArr []
               | SocketError e \<Rightarrow>
                   requests = [request_for env ''GET'' ''accept''
                                 (''/endpoints?access_token='' @ trim token) None]
                   \<and> endpoints = JArr []
               | Response statusCode headers chunks \<Rightarrow>
                   requests = [request_for env ''GET'' ''accept''
                                 (''/endpoints?access_token='' @ trim token) None]
                   \<and> (JSON_parse env (concat chunks) = None \<longrightarrow> endpoints = JArr []))"
proof -
  let ?request = "request_for env ''GET'' ''accept'' (''/endpoints?access_token='' @ trim token) None"
  show ?thesis
  proof (cases "http_request env ?request")
    case (Refused e)
    then have "handleDiscoveryEvent_index env event
                 = ([], Succeed (getDiscoveryAlexaResponse_index env (JArr [])))"
      using assms by (simp add: handleDiscoveryEvent_index_def get_index_request)
    with Refused show ?thesis by simp
  next
    case (SocketError e)
    then have "handleDiscoveryEvent_index env event
                 = ([?request], Succeed (getDiscoveryAlexaResponse_index env (JArr [])))"
      using assms by (simp add: handleDiscoveryEvent_index_def get_index_request)
    with SocketError show ?thesis by simp
  next
    case (Response statusCode headers chunks)
    let ?chain = "andThen (parse env (JStr (concat chunks))) (\<lambda>endpoints.
                    filter_map isEndpointSupported_index mapEndpoint_index endpoints)"
    have h: "handleDiscoveryEvent_index env event =
      ([?request], case ?chain of
          Inr alexaEndpoints \<Rightarrow> Succeed (getDiscoveryAlexaResponse_index env alexaEndpoints)
        | Inl getError \<Rightarrow> Succeed (getDiscoveryAlexaResponse_index env (JArr [])))"
      using assms Response by (simp add: handleDiscoveryEvent_index_def get_index_request)
    show ?thesis
    proof (cases ?chain)
      case (Inl e)
      with h Response show ?thesis
        by (intro exI[of _ "[?request]"] exI[of _ "JArr []"]) simp
    next
      case (Inr endpoints)
      then have "JSON_parse env (concat chunks) \<noteq> None"
        by (auto simp: parse_def andThen_Inr_iff split: option.splits)
      with h Inr Response show ?thesis
        by (intro exI[of _ "[?request]"] exI[of _ endpoints]) auto
    qed
  qed
qed

text \<open>Every way a discovery directive with a token can end in the latest revision.\<close>

lemma discovery_latest_outcomes:
  assumes "get_path event [''directive'', ''payload'', ''scope'', ''token''] = Inr (JStr token)"
  shows "case http_request env (request_for env ''GET'' ''Accept''
                                  (''/endpoints?access_token='' @ trim token) None) of
           Refused e \<Rightarrow>
             handleDiscoveryEvent_latest env event
               = ([], Succeed (getReply_latest env ''Alexa.Discovery'' ''Discover.Response''
                                 (JObj [(''endpoints'', JArr [])])))
         | SocketError e \<Rightarrow>
             handleDiscoveryEvent_latest env event
               = ([request_for env ''GET'' ''Accept''
                     (''/endpoints?access_token='' @ trim token) None],
                  Succeed (getReply_latest env ''Alexa.Discovery'' ''Discover.Response''
                             (JObj [(''endpoints'', JArr [])])))
         | Response statusCode headers chunks \<Rightarrow>
             fst (handleDiscoveryEvent_latest env event)
               = [request_for env ''GET'' ''Accept''
                    (''/endpoints?access_token='' @ trim token) None]
             \<and> (if statusCode \<noteq> 200 then
                  snd (handleDiscoveryEvent_latest env event)
                    = Succeed (getReply_latest env ''Alexa.Discovery'' ''Discover.Response''
                        (JObj [(''endpoints'', JArr [])]))
                else
                  (case JSON_parse env (concat chunks) of
                     None \<Rightarrow> snd (handleDiscoveryEvent_latest env event) = Uncaught SyntaxError
                   | Some v \<Rightarrow> \<exists>endpoints.
                       snd (handleDiscoveryEvent_latest env event)
                         = Succeed (getReply_latest env ''Alexa.Discovery''
                             ''Discover.Response'' (JObj [(''endpoints'', endpoints)]))))"
proof -
  let ?request = "request_for env ''GET'' ''Accept'' (''/endpoints?access_token='' @ trim token) None"
  let ?empty = "getReply_latest env ''Alexa.Discovery'' ''Discover.Response''
                  (JObj [(''endpoints'', JArr [])])"
  have e: "getDiscoveryReply env (JArr []) = Inr ?empty"
    by (simp add: getDiscoveryReply_def)
  have r: "\<exists>endpoints. reply = getReply_latest env ''Alexa.Discovery'' ''Discover.Response''
               (JObj [(''endpoints'', endpoints)])"
    if "getDiscoveryReply env v = Inr reply" for v reply
    using that by (auto simp: getDiscoveryReply_def andThen_Inr_iff)
  show ?thesis
  proof (cases "http_request env ?request")
    case (Refused x)
    then show ?thesis
      using assms e by (simp add: handleDiscoveryEvent_latest_def get_latest_request)
  next
    case (SocketError x)
    then show ?thesis
      using assms e by (simp add: handleDiscoveryEvent_latest_def get_latest_request)
  next
    case (Response statusCode headers chunks)
    show ?thesis
    proof (cases "statusCode = 200")
      case False
      with Response show ?thesis
        using assms e by (simp add: handleDiscoveryEvent_latest_def get_latest_request)
    next
      case True
      show ?thesis
      proof (cases "JSON_parse env (concat chunks)")
        case None
        with True Response show ?thesis
          using assms by (simp add: handleDiscoveryEvent_latest_def get_latest_request)
      next
        case (Some v)
        show ?thesis
        proof (cases "getDiscoveryReply env v")
          case (Inl x)
          with Some True Response show ?thesis
            using assms e
            by (simp add: handleDiscoveryEvent_latest_def get_latest_request) blast
        next
          case (Inr reply)
          with r obtain endpoints where "reply = getReply_latest env ''Alexa.Discovery''
              ''Discover.Response'' (JObj [(''endpoints'', endpoints)])" by blast
          with Inr Some True Response show ?thesis
            using assms
            by (simp add: handleDiscoveryEvent_latest_def get_latest_request) blast
        qed
      qed
    qed
  qed
qed

text \<open>
  C1. Discovery is to succeed with a discovery response whatever the transport does, with
  no endpoints when the call fails or the body is not JSON. \<open>index.js\<close> does so
  (\<open>discovery_index_succeeds\<close>). The latest revision does not: it parses the body
  inside the shim's \<open>end\<close> listener, out of reach of the handler's \<open>catch\<close>, and a
  response with status 200 whose body is not JSON ends the invocation with an uncaught
  SyntaxError, neither \<open>context.succeed\<close> nor \<open>context.fail\<close> being called.
\<close>

theorem discovery_unparsable_body_latest:
  "handler_latest (env_of (Response 200 [] [''<html>''])) (discover_event ''Discover'')
   = ([request_of ''GET'' ''Accept'' ''/endpoints?access_token=t0k'' None],
      Uncaught SyntaxError)"
  by (simp add: latest_defs fixture_defs)

subsection \<open>Transport failures of control directives\<close>

lemma transport_failure_envelopes:
  "is_error_envelope ''ENDPOINT_UNREACHABLE'' (getPutErrorResponse_index env error)"
  "is_error_envelope ''ENDPOINT_UNREACHABLE'' (getServiceErrorReply env error)"
  "settleChannel_index env (Inl error) = Fail (getPutErrorResponse_index env error)"
  "settleSuccess_code3 env f (Inl error) = Fail (getPutErrorResponse_index env error)"
  "then_catch (Rejected error) g (\<lambda>error. fail (getServiceErrorReply env error) LambdaContext)
     = Fail (getServiceErrorReply env error)"
  by (simp_all add: getPutErrorResponse_index_def getServiceErrorReply_def
      is_error_envelope_index is_error_envelope_latest settleChannel_index_def
      settleSuccess_code3_def)

text \<open>
  What the error envelopes say of the error: the \<open>JSON.stringify\<close> text of the error
  object, in which its message, not being enumerable, does not appear.
\<close>

lemma error_message_dropped:
  "get_path (getPutErrorResponse_index env connection_refused) [''event'', ''payload'', ''message'']
     = Inr (JStr ''Failed PUT request: {\"errno\":\"ECONNREFUSED\",\"code\":\"ECONNREFUSED\",\"syscall\":\"connect\",\"address\":\"10.0.0.7\",\"port\":8083}'')"
  "get_path (getPutErrorResponse_index env (NewError ''HTTP 500'')) [''event'', ''payload'', ''message'']
     = Inr (JStr ''Failed PUT request: {}'')"
  "get_path (getServiceErrorReply env (NewError ''HTTP 500'')) [''event'', ''payload'', ''message'']
     = Inr (JStr ''{}'')"
  by (simp_all add: getPutErrorResponse_index_def getErrorResponse_index_def
      getResponse_index_def getServiceErrorReply_def getErrorReply_latest_def getReply_latest_def
      connection_refused_def JSON_stringify_def quote_def escape_char_def js_join_def
      show_int_def show_nat.simps digit_char_def)

lemma error_message_absent:
  "\<not> sublist ''HTTP 500'' ''{}''"
  "\<not> sublist ''connect ECONNREFUSED 10.0.0.7:8083''
      ''Failed PUT request: {\"errno\":\"ECONNREFUSED\",\"code\":\"ECONNREFUSED\",\"syscall\":\"connect\",\"address\":\"10.0.0.7\",\"port\":8083}''"
  by (simp_all add: sublist_code)

text \<open>
  C9. A control directive whose transport call fails is to fail with an
  EndpointUnreachable envelope that passes the transport error's message on. In the
  latest revision the \<open>catch\<close> of the input handler calls \<open>fail\<close> without the context
  (the context is written as a second argument of \<open>catch\<close>): for a \<open>SelectInput\<close>
  directive whose request is refused, \<open>fail\<close> throws a TypeError inside the \<open>catch\<close>
  and the invocation ends without \<open>context.fail\<close>.
\<close>

theorem selectInput_refused_latest:
  "handler_latest (env_of (SocketError connection_refused))
     (directive_of ''Alexa.InputController'' ''SelectInput'' (JObj [(''input'', JStr ''HDMI 1'')]))
   = ([request_of ''POST'' ''Accept'' ''/endpoints/e1/input?access_token=t0k''
         (Some ''{\"input\":\"HDMI 1\"}'')],
      Uncaught TypeError)"
  by (simp add: latest_defs fixture_defs handleInputControlEvent_latest_def)

subsection \<open>Directive names outside a namespace's set\<close>

lemma rejected_index:
  "rejected_as_invalid ([], Fail (getErrorResponse_index env ''INVALID_DIRECTIVE'' message))"
  by (simp add: rejected_as_invalid_def is_error_envelope_index)

lemma rejected_code3:
  "rejected_as_invalid (sync (failInvalidDirective env (JStr name)))"
  by (simp add: failInvalidDirective_def rejected_index)

lemma rejected_latest:
  "rejected_as_invalid ([], Fail (getInvalidDirectiveReply env v))"
  by (simp add: rejected_as_invalid_def getInvalidDirectiveReply_def is_error_envelope_latest)

lemma power_name_rejected:
  assumes "get_path event [''directive'', ''header'', ''name''] = Inr (JStr name)"
    and "name \<noteq> ''TurnOn''" "name \<noteq> ''TurnOff''"
  shows "rejected_as_invalid (handlePowerControlEvent_index env event)"
    and "rejected_as_invalid (handlePowerControlEvent_code3 env event)"
    and "rejected_as_invalid (handlePowerControlEvent_latest env event)"
proof -
  have t: "test_TurnOnOff (JStr name) = Inr False"
    using assms(2,3) by (simp add: test_TurnOnOff_def)
  show "rejected_as_invalid (handlePowerControlEvent_index env event)"
    using assms(1) t by (simp add: handlePowerControlEvent_index_def rejected_index)
  show "rejected_as_invalid (handlePowerControlEvent_code3 env event)"
    using assms(1) t rejected_code3[of env name]
    by (simp add: handlePowerControlEvent_code3_def getDirectiveName_def)
  show "rejected_as_invalid (handlePowerControlEvent_latest env event)"
    using assms(1) t
    by (simp add: handlePowerControlEvent_latest_def getDirectiveName_def rejected_latest)
qed

lemma channel_name_rejected:
  assumes "get_path event [''directive'', ''header'', ''name''] = Inr (JStr name)"
    and "name \<noteq> ''ChangeChannel''" "name \<noteq> ''SkipChannels''"
  shows "rejected_as_invalid (handleChannelControlEvent_index env event)"
    and "rejected_as_invalid (handleChannelControlEvent_code3 env event)"
    and "rejected_as_invalid (handleChannelControlEvent_latest env event)"
proof -
  show "rejected_as_invalid (handleChannelControlEvent_index env event)"
    using assms by (simp add: handleChannelControlEvent_index_def rejected_index)
  show "rejected_as_invalid (handleChannelControlEvent_code3 env event)"
    using assms rejected_code3[of env name]
    by (simp add: handleChannelControlEvent_code3_def getDirectiveName_def)
  show "rejected_as_invalid (handleChannelControlEvent_latest env event)"
    using assms
    by (simp add: handleChannelControlEvent_latest_def getDirectiveName_def rejected_latest)
qed

lemma input_name_rejected:
  assumes "get_path event [''directive'', ''header'', ''name''] = Inr (JStr name)"
    and "name \<noteq> ''SelectInput''"
    and "get_path event [''directive'', ''endpoint'', ''endpointId''] = Inr (JStr eid)"
    and "get_path event [''directive'', ''endpoint'', ''scope'', ''token''] = Inr tok"
    and "get_path event [''directive'', ''payload'', ''input''] = Inr inp"
  shows "rejected_as_invalid (handleInputControlEvent_code3 env event)"
    and "rejected_as_invalid (handleInputControlEvent_latest env event)"
proof -
  show "rejected_as_invalid (handleInputControlEvent_code3 env event)"
    using assms rejected_code3[of env name]
    by (simp add: handleInputControlEvent_code3_def getDirectiveName_def
          getEndpointId_code3_def getEndpointToken_def)
  show "rejected_as_invalid (handleInputControlEvent_latest env event)"
    using assms
    by (simp add: handleInputControlEvent_latest_def getDirectiveName_def
          getEndpointId_def getEndpointToken_def rejected_latest)
qed

lemma stepSpeaker_name_rejected:
  assumes "get_path event [''directive'', ''header'', ''name''] = Inr (JStr name)"
    and "name \<noteq> ''SetMute''" "name \<noteq> ''AdjustVolume''"
    and "get_path event [''directive'', ''endpoint'', ''endpointId''] = Inr (JStr eid)"
    and "get_path event [''directive'', ''endpoint'', ''scope'', ''token''] = Inr tok"
  shows "rejected_as_invalid (handleStepSpeakerEvent_code3 env event)"
    and "rejected_as_invalid (handleStepSpeakerEvent_latest env event)"
proof -
  show "rejected_as_invalid (handleStepSpeakerEvent_code3 env event)"
    using assms rejected_code3[of env name]
    by (simp add: handleStepSpeakerEvent_code3_def getDirectiveName_def
          getEndpointId_code3_def getEndpointToken_def)
  show "rejected_as_invalid (handleStepSpeakerEvent_latest env event)"
    using assms
    by (simp add: handleStepSpeakerEvent_latest_def getDirectiveName_def
          getEndpointId_def getEndpointToken_def rejected_latest)
qed

lemma playback_name_rejected:
  assumes "get_path event [''directive'', ''header'', ''name''] = Inr (JStr name)"
    and "name \<notin> set SUPPORTED_PLAYBACK_DIRECTIVES"
    and "get_path event [''directive'', ''endpoint'', ''endpointId''] = Inr (JStr eid)"
    and "get_path event [''directive'', ''endpoint'', ''scope'', ''token''] = Inr tok"
  shows "rejected_as_invalid (handlePlaybackControlEvent_code3 env event)"
    and "rejected_as_invalid (handlePlaybackControlEvent_latest env event)"
proof -
  have v: "\<not> isPlaybackDirectiveValid (JStr name)"
    using assms(2) by (auto simp: isPlaybackDirectiveValid_def)
  show "rejected_as_invalid (handlePlaybackControlEvent_code3 env event)"
    using assms(1,3,4) v rejected_code3[of env name]
    by (simp add: handlePlaybackControlEvent_code3_def getDirectiveName_def
          getEndpointId_code3_def getEndpointToken_def)
  show "rejected_as_invalid (handlePlaybackControlEvent_latest env event)"
    using assms(1,3,4) v
    by (simp add: handlePlaybackControlEvent_latest_def getDirectiveName_def
          getEndpointId_def getEndpointToken_def rejected_latest)
qed

lemma supported_names_simps:
  "supported_names ''Alexa.Discovery'' = [''Discover'']"
  "supported_names ''Alexa.PowerController'' = [''TurnOn'', ''TurnOff'']"
  "supported_names ''Alexa.ChannelController'' = [''ChangeChannel'', ''SkipChannels'']"
  "supported_names ''Alexa.InputController'' = [''SelectInput'']"
  "supported_names ''Alexa.StepSpeaker'' = [''SetMute'', ''AdjustVolume'']"
  "supported_names ''Alexa.PlaybackController'' = SUPPORTED_PLAYBACK_DIRECTIVES"
  by (simp_all add: supported_names_def)

text \<open>
  The claim C4 as stated fails for the discovery namespace, which is dispatched on the
  namespace alone: a directive named \<open>Bogus\<close> is answered like \<open>Discover\<close>, with a
  request to the backend and a discovery response.
\<close>

theorem discovery_name_unchecked_counterexample:
  "''Bogus'' \<notin> set (supported_names ''Alexa.Discovery'')
   \<and> handler_index (env_of (Response 200 [] [''[]''])) (discover_event ''Bogus'')
     = ([request_of ''GET'' ''accept'' ''/endpoints?access_token=t0k'' None],
        Succeed (JObj [(''event'', JObj
          [(''header'', JObj [(''messageId'', JStr ''1500000000000''),
                              (''name'', JStr ''Discover.Response''),
                              (''namespace'', JStr ''Alexa.Discovery''),
                              (''payloadVersion'', JStr ''3'')]),
           (''payload'', JObj [(''endpoints'', JArr [])])])]))"
  by (simp add: supported_names_simps handler_index_def isEventValid_def js_and_def
      handleDiscoveryEvent_index_def get_index_request http_request_path invalid_path_def
      parse_def getDiscoveryAlexaResponse_index_def getResponse_index_def
      trim_def is_space_def fixture_defs show_now)

text \<open>
  C4, amended. Let a directive have a namespace and a non-empty name that is not in the
  namespace's supported set. For the power and the channel namespace the result, in
  \<open>index.js\<close>, in the third script of \<open>code.js\<close> and in the latest revision, is an
  InvalidDirective envelope and no request is issued. In the latter two the same holds
  for the input, step-speaker and playback namespaces when the directive carries an
  endpoint id that is a string, a token and a payload, which their handlers read before
  they look at the name. \<open>index.js\<close> answers every input and step-speaker directive with
  the InternalError envelope \<open>Not yet implemented\<close>. The discovery namespace is handled
  without a look at the name.
\<close>

theorem unsupported_names_rejected:
  assumes ns: "get_path event [''directive'', ''header'', ''namespace''] = Inr (JStr namespace)"
    and nm: "get_path event [''directive'', ''header'', ''name''] = Inr (JStr name)"
    and ne: "name \<noteq> []"
    and un: "name \<notin> set (supported_names namespace)"
  shows "(namespace = ''Alexa.PowerController'' \<or> namespace = ''Alexa.ChannelController'' \<longrightarrow>
            rejected_as_invalid (handler_index env event)
            \<and> rejected_as_invalid (handler_code3 env event)
            \<and> rejected_as_invalid (handler_latest env event))
       \<and> ((namespace = ''Alexa.InputController'' \<or> namespace = ''Alexa.StepSpeaker''
             \<or> namespace = ''Alexa.PlaybackController'')
            \<and> get_path event [''directive'', ''endpoint'', ''endpointId''] = Inr (JStr eid)
            \<and> get_path event [''directive'', ''endpoint'', ''scope'', ''token''] = Inr tok
            \<and> get_path event [''directive'', ''payload'', ''input''] = Inr inp \<longrightarrow>
            rejected_as_invalid (handler_code3 env event)
            \<and> rejected_as_invalid (handler_latest env event))
       \<and> (namespace = ''Alexa.InputController'' \<or> namespace = ''Alexa.StepSpeaker'' \<longrightarrow>
            handler_index env event
              = ([], Fail (getErrorResponse_index env ''INTERNAL_ERROR'' ''Not yet implemented'')))
       \<and> (namespace = ''Alexa.Discovery'' \<longrightarrow>
            handler_index env event = handleDiscoveryEvent_index env event
            \<and> handler_code3 env event = handleDiscoveryEvent_code3 env event
            \<and> handler_latest env event = handleDiscoveryEvent_latest env event)"
proof -
  have v: "namespace \<noteq> [] \<Longrightarrow> \<exists>v. isEventValid event = Inr v \<and> truthy v"
    using handler_dispatches[OF ns nm] ne by simp
  have a: "rejected_as_invalid (handler_index env event)
            \<and> rejected_as_invalid (handler_code3 env event)
            \<and> rejected_as_invalid (handler_latest env event)"
    if "namespace = ''Alexa.PowerController''"
  proof -
    from that v obtain w where w: "isEventValid event = Inr w" "truthy w" by auto
    from that un have n: "name \<noteq> ''TurnOn''" "name \<noteq> ''TurnOff''"
      by (simp_all add: supported_names_simps)
    from that ns w power_name_rejected[OF nm n, of env] show ?thesis
      by (simp add: handler_index_def handler_code3_def handler_latest_def)
  qed
  have b: "rejected_as_invalid (handler_index env event)
            \<and> rejected_as_invalid (handler_code3 env event)
            \<and> rejected_as_invalid (handler_latest env event)"
    if "namespace = ''Alexa.ChannelController''"
  proof -
    from that v obtain w where w: "isEventValid event = Inr w" "truthy w" by auto
    from that un have n: "name \<noteq> ''ChangeChannel''" "name \<noteq> ''SkipChannels''"
      by (simp_all add: supported_names_simps)
    from that ns w channel_name_rejected[OF nm n, of env] show ?thesis
      by (simp add: handler_index_def handler_code3_def handler_latest_def)
  qed
  have c: "rejected_as_invalid (handler_code3 env event)
            \<and> rejected_as_invalid (handler_latest env event)"
    if "namespace = ''Alexa.InputController'' \<or> namespace = ''Alexa.StepSpeaker''
             \<or> namespace = ''Alexa.PlaybackController''"
      and e: "get_path event [''directive'', ''endpoint'', ''endpointId''] = Inr (JStr eid)"
      and t: "get_path event [''directive'', ''endpoint'', ''scope'', ''token''] = Inr tok"
      and i: "get_path event [''directive'', ''payload'', ''input''] = Inr inp"
  proof -
    from that(1) v obtain w where w: "isEventValid event = Inr w" "truthy w" by auto
    from that(1) consider "namespace = ''Alexa.InputController''"
      | "namespace = ''Alexa.StepSpeaker''" | "namespace = ''Alexa.PlaybackController''"
      by blast
    then show ?thesis
    proof cases
      case 1
      with un have n: "name \<noteq> ''SelectInput''" by (simp add: supported_names_simps)
      from 1 ns w input_name_rejected[OF nm n e t i, of env] show ?thesis
        by (simp add: handler_code3_def handler_latest_def)
    next
      case 2
      with un have n: "name \<noteq> ''SetMute''" "name \<noteq> ''AdjustVolume''"
        by (simp_all add: supported_names_simps)
      from 2 ns w stepSpeaker_name_rejected[OF nm n e t, of env] show ?thesis
        by (simp add: handler_code3_def handler_latest_def)
    next
      case 3
      with un have n: "name \<notin> set SUPPORTED_PLAYBACK_DIRECTIVES"
        by (simp add: supported_names_simps)
      from 3 ns w playback_name_rejected[OF nm n e t, of env] show ?thesis
        by (simp add: handler_code3_def handler_latest_def)
    qed
  qed
  have d: "handler_index env event
              = ([], Fail (getErrorResponse_index env ''INTERNAL_ERROR'' ''Not yet implemented''))"
    if "namespace = ''Alexa.InputController'' \<or> namespace = ''Alexa.StepSpeaker''"
  proof -
    from that v obtain w where w: "isEventValid event = Inr w" "truthy w" by auto
    from that ns w show ?thesis
      by (auto simp: handler_index_def handleInputControlEvent_index_def
          handleStepSpeakerEvent_index_def)
  qed
  have f: "handler_index env event = handleDiscoveryEvent_index env event
            \<and> handler_code3 env event = handleDiscoveryEvent_code3 env event
            \<and> handler_latest env event = handleDiscoveryEvent_latest env event"
    if "namespace = ''Alexa.Discovery''"
  proof -
    from that v obtain w where w: "isEventValid event = Inr w" "truthy w" by auto
    from that ns w show ?thesis
      by (simp add: handler_index_def handler_code3_def handler_latest_def)
  qed
  have A: "namespace = ''Alexa.PowerController'' \<or> namespace = ''Alexa.ChannelController'' \<longrightarrow>
            rejected_as_invalid (handler_index env event)
            \<and> rejected_as_invalid (handler_code3 env event)
            \<and> rejected_as_invalid (handler_latest env event)"
    using a b by (intro impI) (erule disjE)
  have C: "(namespace = ''Alexa.InputController'' \<or> namespace = ''Alexa.StepSpeaker''
             \<or> namespace = ''Alexa.PlaybackController'')
            \<and> get_path event [''directive'', ''endpoint'', ''endpointId''] = Inr (JStr eid)
            \<and> get_path event [''directive'', ''endpoint'', ''scope'', ''token''] = Inr tok
            \<and> get_path event [''directive'', ''payload'', ''input''] = Inr inp \<longrightarrow>
            rejected_as_invalid (handler_code3 env event)
            \<and> rejected_as_invalid (handler_latest env event)"
    using c by (intro impI) (elim conjE)
  have D: "namespace = ''Alexa.InputController'' \<or> namespace = ''Alexa.StepSpeaker'' \<longrightarrow>
            handler_index env event
              = ([], Fail (getErrorResponse_index env ''INTERNAL_ERROR'' ''Not yet implemented''))"
    using d by (rule impI)
  have F: "namespace = ''Alexa.Discovery'' \<longrightarrow>
            handler_index env event = handleDiscoveryEvent_index env event
            \<and> handler_code3 env event = handleDiscoveryEvent_code3 env event
            \<and> handler_latest env event = handleDiscoveryEvent_latest env event"
    using f by (rule impI)
  from A C D F show ?thesis by (intro conjI)
qed


theorem unsupported_names_rejected_witness:
  "rejected_as_invalid (handler_index (env_of (Response 200 [] [''[]'']))
     (directive_of ''Alexa.PowerController'' ''Dim'' (JObj [])))
   \<and> rejected_as_invalid (handler_code3 (env_of (Response 200 [] [''[]'']))
     (directive_of ''Alexa.PowerController'' ''Dim'' (JObj [])))
   \<and> rejected_as_invalid (handler_latest (env_of (Response 200 [] [''[]'']))
     (directive_of ''Alexa.PowerController'' ''Dim'' (JObj [])))
   \<and> rejected_as_invalid (handler_code3 (env_of (Response 200 [] [''[]'']))
     (directive_of ''Alexa.InputController'' ''Zap'' (JObj [(''input'', JStr ''HDMI 1'')])))
   \<and> rejected_as_invalid (handler_latest (env_of (Response 200 [] [''[]'']))
     (directive_of ''Alexa.InputController'' ''Zap'' (JObj [(''input'', JStr ''HDMI 1'')])))
   \<and> handler_index (env_of (Response 200 [] [''[]'']))
       (directive_of ''Alexa.InputController'' ''Zap'' (JObj [(''input'', JStr ''HDMI 1'')]))
     = ([], Fail (getErrorResponse_index (env_of (Response 200 [] [''[]'']))
                    ''INTERNAL_ERROR'' ''Not yet implemented''))
   \<and> handler_latest (env_of (Response 200 [] [''[]''])) (discover_event ''Bogus'')
     = handleDiscoveryEvent_latest (env_of (Response 200 [] [''[]'']))
         (discover_event ''Bogus'')"
proof -
  let ?env = "env_of (Response 200 [] [''[]''])"
  let ?dim = "directive_of ''Alexa.PowerController'' ''Dim'' (JObj [])"
  let ?zap = "directive_of ''Alexa.InputController'' ''Zap'' (JObj [(''input'', JStr ''HDMI 1'')])"
  have d1: "get_path ?dim [''directive'', ''header'', ''namespace'']
            = Inr (JStr ''Alexa.PowerController'')"
    and d2: "get_path ?dim [''directive'', ''header'', ''name''] = Inr (JStr ''Dim'')"
    and d3: "''Dim'' \<noteq> []"
    and d4: "''Dim'' \<notin> set (supported_names ''Alexa.PowerController'')"
    by (simp_all add: directive_of_def supported_names_simps)
  have z1: "get_path ?zap [''directive'', ''header'', ''namespace'']
            = Inr (JStr ''Alexa.InputController'')"
    and z2: "get_path ?zap [''directive'', ''header'', ''name''] = Inr (JStr ''Zap'')"
    and z3: "''Zap'' \<noteq> []"
    and z4: "''Zap'' \<notin> set (supported_names ''Alexa.InputController'')"
    and z5: "get_path ?zap [''directive'', ''endpoint'', ''endpointId''] = Inr (JStr ''e1'')"
    and z6: "get_path ?zap [''directive'', ''endpoint'', ''scope'', ''token''] = Inr (JStr ''t0k'')"
    and z7: "get_path ?zap [''directive'', ''payload'', ''input''] = Inr (JStr ''HDMI 1'')"
    by (simp_all add: directive_of_def supported_names_simps)
  have b1: "get_path (discover_event ''Bogus'') [''directive'', ''header'', ''namespace'']
            = Inr (JStr ''Alexa.Discovery'')"
    and b2: "get_path (discover_event ''Bogus'') [''directive'', ''header'', ''name'']
            = Inr (JStr ''Bogus'')"
    and b3: "''Bogus'' \<noteq> []"
    and b4: "''Bogus'' \<notin> set (supported_names ''Alexa.Discovery'')"
    by (simp_all add: discover_event_def supported_names_simps)
  from unsupported_names_rejected[OF d1 d2 d3 d4, where env = ?env]
  have p: "rejected_as_invalid (handler_index ?env ?dim)
     \<and> rejected_as_invalid (handler_code3 ?env ?dim)
     \<and> rejected_as_invalid (handler_latest ?env ?dim)"
    by simp
  from unsupported_names_rejected[OF z1 z2 z3 z4, where env = ?env and eid = "''e1''"
      and tok = "JStr ''t0k''" and inp = "JStr ''HDMI 1''"]
    z5 z6 z7
  have q: "rejected_as_invalid (handler_code3 ?env ?zap)
     \<and> rejected_as_invalid (handler_latest ?env ?zap)
     \<and> handler_index ?env ?zap
       = ([], Fail (getErrorResponse_index ?env ''INTERNAL_ERROR'' ''Not yet implemented''))"
    by simp
  from unsupported_names_rejected[OF b1 b2 b3 b4, where env = ?env]
  have r: "handler_latest ?env (discover_event ''Bogus'')
     = handleDiscoveryEvent_latest ?env (discover_event ''Bogus'')"
    by simp
  from p q r show ?thesis by simp
qed

subsection \<open>Turning an endpoint on\<close>










text \<open>
  And a body that reports another state is passed on as it is: the reported value is
  the backend's, not the directive's.
\<close>

lemma turnOn_reported_off:
  "snd (handler_latest (env_of (Response 200 [] [''{\"state\":\"off\"}'']))
     (directive_of ''Alexa.PowerController'' ''TurnOn'' (JObj [])))
   = Succeed (JObj
      [(''context'', JObj [(''properties'', JArr [JObj
          [(''namespace'', JStr ''Alexa.PowerController''),
           (''name'', JStr ''powerState''),
           (''value'', JStr ''off''),
           (''timeOfSample'', JUndefined),
           (''uncertaintyInMilliseconds'', JUndefined)]])]),
       (''event'', JObj
          [(''header'', JObj [(''messageId'', JStr ''1500000000000''),
                              (''name'', JStr ''Response''),
                              (''namespace'', JStr ''Alexa''),
                              (''payloadVersion'', JStr ''3'')]),
           (''payload'', JObj [])])])"
  by (simp add: latest_defs fixture_defs handlePowerControlEvent_latest_def test_TurnOnOff_def
      getPowerControlReply_def show_now)



subsection \<open>The transport shim\<close>

lemma show_404: "show_int 404 = ''404''"
  by (simp add: show_int_def show_nat.simps digit_char_def)

text \<open>
  The claim C8 as stated fails: the shim of \<open>index.js\<close> resolves a response with status
  404, where the shim of the third script of \<open>code.js\<close> rejects the same response.
\<close>

theorem shim_404_counterexample:
  "snd (httpPromise_index (env_of (Response 404 [] [''Not '', ''Found''])) (JObj []) JUndefined)
     = Inr (JObj [(''statusCode'', JNum ''404''), (''headers'', JObj []),
                  (''responseText'', JStr ''Not Found'')])
   \<and> snd (httpPromise_code3 (env_of (Response 404 [] [''Not '', ''Found''])) (JObj []) JUndefined)
     = Inl (NewError ''HTTP 404'')"
  by (simp add: httpPromise_index_def httpPromise_code3_def write_end_index_def
      http_request_def env_of_def number_def show_404 ToString_def)

text \<open>
  C8, amended. No shim sends anything, and every shim rejects, when \<open>http.request\<close>
  throws. Every shim rejects with the transport's error when the request emits one. For
  a response, the shim of \<open>index.js\<close> resolves, whatever the status, with status code,
  headers and the concatenated chunks of the body; the shim of the third script of
  \<open>code.js\<close> resolves with the same value when the status is 200 and rejects with the
  error \<open>HTTP <status>\<close> otherwise; the shim of the latest revision rejects with
  \<open>HTTP <status>\<close> when the status is not 200 and, when it is 200 and the body is JSON,
  resolves with the parsed body. The shims of \<open>index.js\<close> and \<open>code.js\<close> write whatever
  data they are given that is not \<open>undefined\<close>, and reject without sending when it is
  not a string.
\<close>

theorem shim_settlement:
  "(http_request env (request_made options postData) = Refused e \<longrightarrow>
      httpPromise_index env options postData = ([], Inl e)
      \<and> httpPromise_code3 env options postData = ([], Inl e)
      \<and> httpPromise_latest env options postData = ([], Rejected e))
   \<and> (http_request env (request_made options postData) = SocketError e
       \<and> (postData = JUndefined \<or> is_string postData) \<longrightarrow>
      httpPromise_index env options postData = ([request_made options postData], Inl e)
      \<and> httpPromise_code3 env options postData = ([request_made options postData], Inl e))
   \<and> (http_request env (request_made options postData) = SocketError e \<longrightarrow>
      httpPromise_latest env options postData = ([request_made options postData], Rejected e))
   \<and> (http_request env (request_made options postData) = Response statusCode headers chunks
       \<and> (postData = JUndefined \<or> is_string postData) \<longrightarrow>
      httpPromise_index env options postData
        = ([request_made options postData],
           Inr (JObj [(''statusCode'', number statusCode), (''headers'', JObj headers),
                      (''responseText'', JStr (concat chunks))]))
      \<and> (statusCode = 200 \<longrightarrow>
           httpPromise_code3 env options postData
             = ([request_made options postData],
                Inr (JObj [(''statusCode'', number statusCode), (''headers'', JObj headers),
                           (''responseText'', JStr (concat chunks))])))
      \<and> (statusCode \<noteq> 200 \<longrightarrow>
           httpPromise_code3 env options postData
             = ([request_made options postData],
                Inl (NewError (''HTTP '' @ show_int statusCode)))))
   \<and> (http_request env (request_made options postData) = Response statusCode headers chunks
       \<and> statusCode \<noteq> 200 \<longrightarrow>
      httpPromise_latest env options postData
        = ([request_made options postData],
           Rejected (NewError (''HTTP '' @ show_int statusCode))))
   \<and> (http_request env (request_made options postData) = Response 200 headers chunks
       \<and> JSON_parse env (concat chunks) = Some v \<longrightarrow>
      httpPromise_latest env options postData = ([request_made options postData], Resolved v))
   \<and> (postData \<noteq> JUndefined \<and> \<not> is_string postData
       \<and> (\<forall>e. http_request env (request_made options postData) \<noteq> Refused e) \<longrightarrow>
      httpPromise_index env options postData = ([], Inl (invalid_chunk env))
      \<and> httpPromise_code3 env options postData = ([], Inl (invalid_chunk env)))"
proof -
  let ?request = "request_made options postData"
  have A: "http_request env ?request = Refused e \<longrightarrow>
      httpPromise_index env options postData = ([], Inl e)
      \<and> httpPromise_code3 env options postData = ([], Inl e)
      \<and> httpPromise_latest env options postData = ([], Rejected e)"
    by (simp add: httpPromise_index_def httpPromise_code3_def httpPromise_latest_def
        request_made_def)
  have B: "http_request env ?request = SocketError e
       \<and> (postData = JUndefined \<or> is_string postData) \<longrightarrow>
      httpPromise_index env options postData = ([?request], Inl e)
      \<and> httpPromise_code3 env options postData = ([?request], Inl e)"
    by (auto simp: httpPromise_index_def httpPromise_code3_def write_end_index_def
        request_made_def)
  have C: "http_request env ?request = SocketError e \<longrightarrow>
      httpPromise_latest env options postData = ([?request], Rejected e)"
    by (simp add: httpPromise_latest_def request_made_def)
  have D: "http_request env ?request = Response statusCode headers chunks
       \<and> (postData = JUndefined \<or> is_string postData) \<longrightarrow>
      httpPromise_index env options postData
        = ([?request],
           Inr (JObj [(''statusCode'', number statusCode), (''headers'', JObj headers),
                      (''responseText'', JStr (concat chunks))]))
      \<and> (statusCode = 200 \<longrightarrow>
           httpPromise_code3 env options postData
             = ([?request],
                Inr (JObj [(''statusCode'', number statusCode), (''headers'', JObj headers),
                           (''responseText'', JStr (concat chunks))])))
      \<and> (statusCode \<noteq> 200 \<longrightarrow>
           httpPromise_code3 env options postData
             = ([?request], Inl (NewError (''HTTP '' @ show_int statusCode))))"
    by (auto simp: httpPromise_index_def httpPromise_code3_def write_end_index_def
        request_made_def number_200)
  have E: "http_request env ?request = Response statusCode headers chunks
       \<and> statusCode \<noteq> 200 \<longrightarrow>
      httpPromise_latest env options postData
        = ([?request], Rejected (NewError (''HTTP '' @ show_int statusCode)))"
    by (simp add: httpPromise_latest_def request_made_def)
  have F: "http_request env ?request = Response 200 headers chunks
       \<and> JSON_parse env (concat chunks) = Some v \<longrightarrow>
      httpPromise_latest env options postData = ([?request], Resolved v)"
    by (simp add: httpPromise_latest_def request_made_def parse_def)
  have G: "postData \<noteq> JUndefined \<and> \<not> is_string postData
       \<and> (\<forall>e. http_request env ?request \<noteq> Refused e) \<longrightarrow>
      httpPromise_index env options postData = ([], Inl (invalid_chunk env))
      \<and> httpPromise_code3 env options postData = ([], Inl (invalid_chunk env))"
    by (cases "http_request env ?request")
       (simp_all add: httpPromise_index_def httpPromise_code3_def write_end_index_def
          request_made_def)
  from A B C D E F G show ?thesis by (intro conjI)
qed

theorem shim_settlement_witness:
  "httpPromise_index (env_of (Response 404 [] [''Not '', ''Found''])) (JObj []) JUndefined
     = ([(JObj [], None)],
        Inr (JObj [(''statusCode'', number 404), (''headers'', JObj []),
                   (''responseText'', JStr ''Not Found'')]))
   \<and> httpPromise_code3 (env_of (Response 404 [] [''Not '', ''Found''])) (JObj []) JUndefined
     = ([(JObj [], None)], Inl (NewError ''HTTP 404''))
   \<and> httpPromise_latest (env_of (Response 404 [] [''Not '', ''Found''])) (JObj []) JUndefined
     = ([(JObj [], None)], Rejected (NewError ''HTTP 404''))
   \<and> httpPromise_code3 (env_of (Response 200 [] [''[]''])) (JObj []) (JStr ''{}'')
     = ([(JObj [], Some ''{}'')],
        Inr (JObj [(''statusCode'', number 200), (''headers'', JObj []),
                   (''responseText'', JStr ''[]'')]))
   \<and> httpPromise_latest (env_of (Response 200 [] [''[]''])) (JObj []) (JStr ''{}'')
     = ([(JObj [], Some ''{}'')], Resolved (JArr []))
   \<and> httpPromise_index (env_of (SocketError connection_refused)) (JObj []) JUndefined
     = ([(JObj [], None)], Inl connection_refused)
   \<and> httpPromise_code3 (env_of (SocketError connection_refused)) (JObj []) JUndefined
     = ([(JObj [], None)], Inl connection_refused)
   \<and> httpPromise_latest (env_of (SocketError connection_refused)) (JObj []) JUndefined
     = ([(JObj [], None)], Rejected connection_refused)
   \<and> httpPromise_index (env_of (Response 200 [] [''[]'']))
         (JObj [(''path'', JStr ''/endpoints?access_token=a b'')]) JUndefined
     = ([], Inl TypeError)
   \<and> httpPromise_code3 (env_of (Response 200 [] [''[]'']))
         (JObj [(''path'', JStr ''/endpoints?access_token=a b'')]) JUndefined
     = ([], Inl TypeError)
   \<and> httpPromise_latest (env_of (Response 200 [] [''[]'']))
         (JObj [(''path'', JStr ''/endpoints?access_token=a b'')]) JUndefined
     = ([], Rejected TypeError)
   \<and> httpPromise_index (env_of (Response 200 [] [''[]''])) (JObj []) (JObj [])
     = ([], Inl TypeError)"
proof -
  let ?e404 = "env_of (Response 404 [] [''Not '', ''Found''])"
  let ?e200 = "env_of (Response 200 [] [''[]''])"
  let ?eref = "env_of (SocketError connection_refused)"
  let ?bad = "JObj [(''path'', JStr ''/endpoints?access_token=a b'')]"
  have h404: "http_request ?e404 (request_made (JObj []) JUndefined)
               = Response 404 [] [''Not '', ''Found'']"
    and h200: "http_request ?e200 (request_made (JObj []) (JStr ''{}'')) = Response 200 [] [''[]'']"
    and href: "http_request ?eref (request_made (JObj []) JUndefined)
               = SocketError connection_refused"
    and hbad: "http_request ?e200 (request_made ?bad JUndefined) = Refused TypeError"
    and hobj: "\<forall>e. http_request ?e200 (request_made (JObj []) (JObj [])) \<noteq> Refused e"
    by (simp_all add: http_request_def request_made_def env_of_def invalid_path_def)
  have r: "request_made (JObj []) JUndefined = (JObj [], None)"
    "request_made (JObj []) (JStr ''{}'') = (JObj [], Some ''{}'')"
    by (simp_all add: request_made_def)
  have j: "JSON_parse ?e200 (concat [''[]'']) = Some (JArr [])"
    by (simp add: env_of_def parse_known_def)
  have k: "invalid_chunk ?e200 = TypeError"
    by (simp add: env_of_def)
  from shim_settlement[where env = ?e404 and options = "JObj []" and postData = JUndefined
      and statusCode = 404 and headers = "[]" and chunks = "[''Not '', ''Found'']"] h404 r
  have A: "httpPromise_index ?e404 (JObj []) JUndefined
       = ([(JObj [], None)],
          Inr (JObj [(''statusCode'', number 404), (''headers'', JObj []),
                     (''responseText'', JStr ''Not Found'')]))
     \<and> httpPromise_code3 ?e404 (JObj []) JUndefined
       = ([(JObj [], None)], Inl (NewError ''HTTP 404''))
     \<and> httpPromise_latest ?e404 (JObj []) JUndefined
       = ([(JObj [], None)], Rejected (NewError ''HTTP 404''))"
    by (simp add: show_404)
  from shim_settlement[where env = ?e200 and options = "JObj []" and postData = "JStr ''{}''"
      and statusCode = 200 and headers = "[]" and chunks = "[''[]'']" and v = "JArr []"]
    h200 r j
  have B: "httpPromise_code3 ?e200 (JObj []) (JStr ''{}'')
       = ([(JObj [], Some ''{}'')],
          Inr (JObj [(''statusCode'', number 200), (''headers'', JObj []),
                     (''responseText'', JStr ''[]'')]))
     \<and> httpPromise_latest ?e200 (JObj []) (JStr ''{}'')
       = ([(JObj [], Some ''{}'')], Resolved (JArr []))"
    by simp
  from shim_settlement[where env = ?eref and options = "JObj []" and postData = JUndefined
      and e = connection_refused] href r
  have C: "httpPromise_index ?eref (JObj []) JUndefined
       = ([(JObj [], None)], Inl connection_refused)
     \<and> httpPromise_code3 ?eref (JObj []) JUndefined
       = ([(JObj [], None)], Inl connection_refused)
     \<and> httpPromise_latest ?eref (JObj []) JUndefined
       = ([(JObj [], None)], Rejected connection_refused)"
    by simp
  from shim_settlement[where env = ?e200 and options = ?bad and postData = JUndefined
      and e = TypeError] hbad
  have D: "httpPromise_index ?e200 ?bad JUndefined = ([], Inl TypeError)
     \<and> httpPromise_code3 ?e200 ?bad JUndefined = ([], Inl TypeError)
     \<and> httpPromise_latest ?e200 ?bad JUndefined = ([], Rejected TypeError)"
    by simp
  from shim_settlement[where env = ?e200 and options = "JObj []" and postData = "JObj []"]
    hobj k
  have E: "httpPromise_index ?e200 (JObj []) (JObj []) = ([], Inl TypeError)"
    by simp
  from A B C D E show ?thesis by (intro conjI) simp_all
qed

subsection \<open>Endpoint ids between discovery and control\<close>

lemma replace_back: "b \<notin> set s \<Longrightarrow> replace b a (replace a b s) = s"
  by (induction s) auto

lemma js_filter_total:
  "\<forall>x\<in>set xs. \<exists>k. f x = Inr k \<Longrightarrow>
   js_filter f xs = Inr (filter (\<lambda>x. case f x of Inr k \<Rightarrow> truthy k | Inl e \<Rightarrow> False) xs)"
  by (induction xs) auto

lemma js_map_total:
  "\<forall>x\<in>set xs. \<exists>y. g x = Inr y \<Longrightarrow>
   js_map g xs = Inr (map (\<lambda>x. case g x of Inr y \<Rightarrow> y | Inl e \<Rightarrow> JUndefined) xs)"
  by (induction xs) auto

lemma readable_descriptorD:
  assumes "readable_descriptor d"
  obtains i t where "get_prop d ''id'' = Inr (JStr i)" "get_prop d ''type'' = Inr t"
    "printable t" "device_id d = i" "d \<noteq> JUndefined" "d \<noteq> JNull"
proof -
  from assms obtain i where i: "get_prop d ''id'' = Inr (JStr i)"
    by (auto simp: readable_descriptor_def split: sum.splits jsval.splits)
  from assms obtain t where t: "get_prop d ''type'' = Inr t" "printable t"
    by (auto simp: readable_descriptor_def split: sum.splits)
  from i have "device_id d = i" by (simp add: device_id_def)
  moreover from i have "d \<noteq> JUndefined" "d \<noteq> JNull"
    using get_prop_Inr_cases by blast+
  ultimately show ?thesis using that i t by blast
qed

lemma isEndpointSupported_latest_total:
  assumes "readable_descriptor d"
  shows "\<exists>k. isEndpointSupported_latest d = Inr k"
proof -
  from assms obtain i t where r: "get_prop d ''id'' = Inr (JStr i)" "get_prop d ''type'' = Inr t"
    "printable t" "d \<noteq> JUndefined" "d \<noteq> JNull"
    by (rule readable_descriptorD)
  obtain n where n: "get_prop d ''name'' = Inr n" using get_prop_defined[OF r(4,5)] by blast
  obtain ds where ds: "get_prop d ''description'' = Inr ds"
    using get_prop_defined[OF r(4,5)] by blast
  obtain m where m: "get_prop d ''manufacturer'' = Inr m"
    using get_prop_defined[OF r(4,5)] by blast
  show ?thesis
    by (simp add: isEndpointSupported_latest_def js_and_def r n ds m ToString_def)
qed

lemma mapEndpoint_latest_endpointId:
  assumes "readable_descriptor d"
  shows "\<exists>y. mapEndpoint_latest d = Inr y
           \<and> get_prop y ''endpointId'' = Inr (JStr (replace CHR ''.'' CHR ''#'' (device_id d)))"
proof -
  from assms obtain i t where r: "get_prop d ''id'' = Inr (JStr i)" "get_prop d ''type'' = Inr t"
    "printable t" "device_id d = i" "d \<noteq> JUndefined" "d \<noteq> JNull"
    by (rule readable_descriptorD)
  obtain n where n: "get_prop d ''name'' = Inr n" using get_prop_defined[OF r(5,6)] by blast
  obtain ds where ds: "get_prop d ''description'' = Inr ds"
    using get_prop_defined[OF r(5,6)] by blast
  obtain m where m: "get_prop d ''manufacturer'' = Inr m"
    using get_prop_defined[OF r(5,6)] by blast
  show ?thesis
    by (simp add: mapEndpoint_latest_def getEndpointCapabilities_latest_def r n ds m)
qed

lemma discovery_publishes:
  assumes "list_all readable_descriptor ds"
  shows "\<exists>reply. getDiscoveryReply env (JArr ds) = Inr reply
           \<and> published_ids reply
               = map (\<lambda>d. JStr (replace CHR ''.'' CHR ''#'' (device_id d))) (filter kept_latest ds)"
proof -
  from assms have all: "\<forall>d\<in>set ds. readable_descriptor d"
    by (simp add: list_all_iff)
  have f: "js_filter isEndpointSupported_latest ds = Inr (filter kept_latest ds)"
    using js_filter_total[of ds isEndpointSupported_latest] all isEndpointSupported_latest_total
    by (simp add: kept_latest_def[abs_def])
  let ?y = "\<lambda>d. case mapEndpoint_latest d of Inr y \<Rightarrow> y | Inl e \<Rightarrow> JUndefined"
  have m: "js_map mapEndpoint_latest (filter kept_latest ds) = Inr (map ?y (filter kept_latest ds))"
    using js_map_total[of "filter kept_latest ds" mapEndpoint_latest] all
      mapEndpoint_latest_endpointId
    by auto
  have e: "(case get_prop (?y d) ''endpointId'' of Inr v \<Rightarrow> v | Inl e \<Rightarrow> JUndefined)
            = JStr (replace CHR ''.'' CHR ''#'' (device_id d))"
    if "d \<in> set ds" for d
    using mapEndpoint_latest_endpointId[of d] all that by auto
  have "getDiscoveryReply env (JArr ds)
          = Inr (getReply_latest env ''Alexa.Discovery'' ''Discover.Response''
                   (JObj [(''endpoints'', JArr (map ?y (filter kept_latest ds)))]))"
    by (simp add: getDiscoveryReply_def f m)
  moreover have "published_ids (getReply_latest env ''Alexa.Discovery'' ''Discover.Response''
                   (JObj [(''endpoints'', JArr (map ?y (filter kept_latest ds)))]))
      = map (\<lambda>d. JStr (replace CHR ''.'' CHR ''#'' (device_id d))) (filter kept_latest ds)"
    using e by (simp add: published_ids_def getReply_latest_def)
  ultimately show ?thesis by simp
qed

lemma post_latest_sent:
  assumes "is_object postData" and "\<not> invalid_path path"
    and "\<forall>q e. net env q \<noteq> Refused e"
  shows "\<exists>request settled. post_latest env path postData = ([request], settled)
           \<and> get_prop (fst request) ''path'' = Inr (JStr path)"
proof -
  let ?request = "request_for env ''POST'' ''Accept'' path (Some (serialize postData))"
  have p: "get_prop (fst ?request) ''path'' = Inr (JStr path)"
    by (simp add: request_for_def)
  from assms(2) have h: "http_request env ?request = net env ?request"
    by (simp add: http_request_request_for)
  show ?thesis
  proof (cases "net env ?request")
    case (Refused e)
    with assms(3) show ?thesis by blast
  next
    case (SocketError e)
    with h p show ?thesis
      by (intro exI[of _ ?request] exI[of _ "Rejected e"])
         (simp add: post_latest_request[OF assms(1)])
  next
    case (Response statusCode headers chunks)
    with h p show ?thesis
      by (simp add: post_latest_request[OF assms(1)])
  qed
qed

lemma payload_read:
  assumes "get_path event [''directive'', ''payload''] = Inr payload"
    and "payload \<noteq> JUndefined" "payload \<noteq> JNull"
  shows "\<exists>w. get_path event [''directive'', ''payload'', k] = Inr w"
proof -
  from get_prop_defined[OF assms(2,3)] obtain w where "get_prop payload k = Inr w" by blast
  with assms(1) show ?thesis by (auto simp: andThen_Inr_iff)
qed

lemma power_latest_request:
  assumes "getDirectiveName event = Inr (JStr name)"
    and "name = ''TurnOn'' \<or> name = ''TurnOff''"
    and "getEndpointId event = Inr deviceId"
    and "getEndpointToken event = Inr token" and "printable token"
    and "\<not> invalid_path (''/endpoints/'' @ deviceId @ ''/power?access_token='' @ to_string token)"
    and "\<forall>q e. net env q \<noteq> Refused e"
  shows "\<exists>request. fst (handlePowerControlEvent_latest env event) = [request]
           \<and> get_prop (fst request) ''path''
               = Inr (JStr (''/endpoints/'' @ deviceId @ ''/power?access_token=''
                              @ to_string token))"
proof -
  let ?path = "''/endpoints/'' @ deviceId @ ''/power?access_token='' @ to_string token"
  let ?data = "JObj [(''state'', JStr (if JStr name = JStr ''TurnOn'' then ''on'' else ''off''))]"
  from post_latest_sent[of ?data ?path env] assms(6,7)
  obtain request settled where p: "post_latest env ?path ?data = ([request], settled)"
    "get_prop (fst request) ''path'' = Inr (JStr ?path)"
    by auto
  have t: "test_TurnOnOff (JStr name) = Inr True"
    using assms(2) by (auto simp: test_TurnOnOff_def)
  have s: "ToString token = Inr (to_string token)"
    using assms(5) by (simp add: ToString_def)
  have "fst (handlePowerControlEvent_latest env event) = [request]"
    using assms(1,3,4) t s p(1) by (simp add: handlePowerControlEvent_latest_def)
  with p(2) show ?thesis by blast
qed

lemma changeChannel_latest_request:
  assumes "getEndpointId event = Inr deviceId"
    and "getEndpointToken event = Inr token" and "printable token"
    and "get_path event [''directive'', ''payload'', ''channelMetadata''] = Inr channelMetadata"
    and "get_path event [''directive'', ''payload'', ''channel''] = Inr channel"
    and "\<not> invalid_path (''/endpoints/'' @ deviceId @ ''/channel?access_token='' @ to_string token)"
    and "\<forall>q e. net env q \<noteq> Refused e"
  shows "\<exists>request. fst (handleChangeChannelEvent_latest env event) = [request]
           \<and> get_prop (fst request) ''path''
               = Inr (JStr (''/endpoints/'' @ deviceId @ ''/channel?access_token=''
                              @ to_string token))"
proof -
  let ?path = "''/endpoints/'' @ deviceId @ ''/channel?access_token='' @ to_string token"
  let ?data = "JObj (Object_assign [(''metadata'', channelMetadata)] channel)"
  from post_latest_sent[of ?data ?path env] assms(6,7)
  obtain request settled where p: "post_latest env ?path ?data = ([request], settled)"
    "get_prop (fst request) ''path'' = Inr (JStr ?path)"
    by auto
  have s: "ToString token = Inr (to_string token)"
    using assms(3) by (simp add: ToString_def)
  have "fst (handleChangeChannelEvent_latest env event) = [request]"
    using assms(1,2,4,5) s p(1) by (simp add: handleChangeChannelEvent_latest_def)
  with p(2) show ?thesis by blast
qed

lemma skipChannels_latest_request:
  assumes "getEndpointId event = Inr deviceId"
    and "get_path event [''directive'', ''payload'', ''channelCount''] = Inr channelCount"
    and "\<not> invalid_path (''/endpoints/'' @ deviceId @ ''/channel'')"
    and "\<forall>q e. net env q \<noteq> Refused e"
  shows "\<exists>request. fst (handleSkipChannelsEvent_latest env event) = [request]
           \<and> get_prop (fst request) ''path''
               = Inr (JStr (''/endpoints/'' @ deviceId @ ''/channel''))"
proof -
  let ?path = "''/endpoints/'' @ deviceId @ ''/channel''"
  let ?data = "JObj [(''delta'', channelCount)]"
  from post_latest_sent[of ?data ?path env] assms(3,4)
  obtain request settled where p: "post_latest env ?path ?data = ([request], settled)"
    "get_prop (fst request) ''path'' = Inr (JStr ?path)"
    by auto
  have "fst (handleSkipChannelsEvent_latest env event) = [request]"
    using assms(1,2) p(1) by (simp add: handleSkipChannelsEvent_latest_def)
  with p(2) show ?thesis by blast
qed

lemma input_latest_request:
  assumes "getDirectiveName event = Inr (JStr ''SelectInput'')"
    and "getEndpointId event = Inr deviceId"
    and "getEndpointToken event = Inr token" and "printable token"
    and "get_path event [''directive'', ''payload'', ''input''] = Inr inp"
    and "\<not> invalid_path (''/endpoints/'' @ deviceId @ ''/input?access_token='' @ to_string token)"
    and "\<forall>q e. net env q \<noteq> Refused e"
  shows "\<exists>request. fst (handleInputControlEvent_latest env event) = [request]
           \<and> get_prop (fst request) ''path''
               = Inr (JStr (''/endpoints/'' @ deviceId @ ''/input?access_token=''
                              @ to_string token))"
proof -
  let ?path = "''/endpoints/'' @ deviceId @ ''/input?access_token='' @ to_string token"
  let ?data = "JObj [(''input'', inp)]"
  from post_latest_sent[of ?data ?path env] assms(6,7)
  obtain request settled where p: "post_latest env ?path ?data = ([request], settled)"
    "get_prop (fst request) ''path'' = Inr (JStr ?path)"
    by auto
  have s: "ToString token = Inr (to_string token)"
    using assms(4) by (simp add: ToString_def)
  have "fst (handleInputControlEvent_latest env event) = [request]"
    using assms(1,2,3,5) s p(1) by (simp add: handleInputControlEvent_latest_def)
  with p(2) show ?thesis by blast
qed

lemma stepSpeaker_latest_request:
  assumes "getDirectiveName event = Inr (JStr name)"
    and "name = ''SetMute'' \<or> name = ''AdjustVolume''"
    and "getEndpointId event = Inr deviceId"
    and "getEndpointToken event = Inr token" and "printable token"
    and "get_path event [''directive'', ''payload'', ''mute''] = Inr mute"
    and "get_path event [''directive'', ''payload'', ''volumeSteps''] = Inr volumeSteps"
    and "\<not> invalid_path (''/endpoints/'' @ deviceId @ ''/volume?accessToken='' @ to_string token)"
    and "\<forall>q e. net env q \<noteq> Refused e"
  shows "\<exists>request. fst (handleStepSpeakerEvent_latest env event) = [request]
           \<and> get_prop (fst request) ''path''
               = Inr (JStr (''/endpoints/'' @ deviceId @ ''/volume?accessToken=''
                              @ to_string token))"
proof -
  let ?path = "''/endpoints/'' @ deviceId @ ''/volume?accessToken='' @ to_string token"
  let ?data = "if name = ''SetMute'' then JObj [(''mute'', mute)]
               else JObj [(''delta'', volumeSteps)]"
  have "is_object ?data" by simp
  from post_latest_sent[OF this, of ?path env] assms(8,9)
  obtain request settled where p: "post_latest env ?path ?data = ([request], settled)"
    "get_prop (fst request) ''path'' = Inr (JStr ?path)"
    by auto
  have s: "ToString token = Inr (to_string token)"
    using assms(5) by (simp add: ToString_def)
  have "fst (handleStepSpeakerEvent_latest env event) = [request]"
    using assms(1,2,3,4,6,7) s p(1)
    by (auto simp: handleStepSpeakerEvent_latest_def)
  with p(2) show ?thesis by blast
qed

lemma playback_latest_request:
  assumes "getDirectiveName event = Inr (JStr name)"
    and "name \<in> set SUPPORTED_PLAYBACK_DIRECTIVES"
    and "getEndpointId event = Inr deviceId"
    and "getEndpointToken event = Inr token" and "printable token"
    and "\<not> invalid_path (''/endpoints/'' @ deviceId @ ''/playback?accessToken='' @ to_string token)"
    and "\<forall>q e. net env q \<noteq> Refused e"
  shows "\<exists>request. fst (handlePlaybackControlEvent_latest env event) = [request]
           \<and> get_prop (fst request) ''path''
               = Inr (JStr (''/endpoints/'' @ deviceId @ ''/playback?accessToken=''
                              @ to_string token))"
proof -
  let ?path = "''/endpoints/'' @ deviceId @ ''/playback?accessToken='' @ to_string token"
  let ?data = "JObj [(''directive'', JStr name)]"
  from post_latest_sent[of ?data ?path env] assms(6,7)
  obtain request settled where p: "post_latest env ?path ?data = ([request], settled)"
    "get_prop (fst request) ''path'' = Inr (JStr ?path)"
    by auto
  have s: "ToString token = Inr (to_string token)"
    using assms(5) by (simp add: ToString_def)
  have "fst (handlePlaybackControlEvent_latest env event) = [request]"
    using assms(1,3,4) s p(1) playback_name_props(2)[OF assms(2)]
    by (simp add: handlePlaybackControlEvent_latest_def)
  with p(2) show ?thesis by blast
qed

text \<open>
  Every control handler of the latest revision addresses the device whose id is the
  inbound endpoint id with its first \<open>#\<close> as a dot.
\<close>

lemma control_rewrites:
  assumes ns: "get_path event [''directive'', ''header'', ''namespace''] = Inr (JStr namespace)"
    and nm: "get_path event [''directive'', ''header'', ''name''] = Inr (JStr name)"
    and cn: "namespace \<in> set control_namespaces"
    and sn: "name \<in> set (supported_names namespace)"
    and eid: "get_path event [''directive'', ''endpoint'', ''endpointId''] = Inr (JStr endpointId)"
    and tok: "get_path event [''directive'', ''endpoint'', ''scope'', ''token''] = Inr token"
    and pr: "printable token"
    and pl: "get_path event [''directive'', ''payload''] = Inr payload"
      "payload \<noteq> JUndefined" "payload \<noteq> JNull"
    and vp: "\<not> invalid_path (control_path namespace name
                (replace CHR ''#'' CHR ''.'' endpointId) (to_string token))"
    and nr: "\<forall>q e. net env q \<noteq> Refused e"
  shows "\<exists>request. fst (handler_latest env event) = [request]
           \<and> get_prop (fst request) ''path''
               = Inr (JStr (control_path namespace name
                              (replace CHR ''#'' CHR ''.'' endpointId) (to_string token)))"
proof -
  let ?id = "replace CHR ''#'' CHR ''.'' endpointId"
  have valid: "\<exists>v. isEventValid event = Inr v \<and> truthy v" if "namespace \<noteq> []" "name \<noteq> []"
    using handler_dispatches[OF ns nm] that by simp
  have dn: "getDirectiveName event = Inr (JStr name)"
    using nm by (simp add: getDirectiveName_def)
  have gi: "getEndpointId event = Inr ?id"
    using eid by (simp add: getEndpointId_def)
  have gt: "getEndpointToken event = Inr token"
    using tok by (simp add: getEndpointToken_def)
  from cn have "namespace = ''Alexa.PowerController'' \<or> namespace = ''Alexa.ChannelController''
      \<or> namespace = ''Alexa.InputController'' \<or> namespace = ''Alexa.StepSpeaker''
      \<or> namespace = ''Alexa.PlaybackController''"
    by (simp add: control_namespaces_def)
  then show ?thesis
  proof (elim disjE)
    assume 1: "namespace = ''Alexa.PowerController''"
    with sn have n: "name = ''TurnOn'' \<or> name = ''TurnOff''"
      by (simp add: supported_names_simps)
    then have "name \<noteq> []" by (elim disjE) simp_all
    with valid 1 obtain v where v: "isEventValid event = Inr v" "truthy v" by auto
    from 1 vp have p: "\<not> invalid_path (''/endpoints/'' @ ?id @ ''/power?access_token=''
                                          @ to_string token)"
      by (simp add: control_path_def)
    from 1 ns v have "handler_latest env event = handlePowerControlEvent_latest env event"
      by (simp add: handler_latest_def)
    with power_latest_request[OF dn n gi gt pr p nr] 1 show ?thesis
      by (simp add: control_path_def)
  next
    assume 2: "namespace = ''Alexa.ChannelController''"
    with sn have n: "name = ''ChangeChannel'' \<or> name = ''SkipChannels''"
      by (simp add: supported_names_simps)
    then have "name \<noteq> []" by (elim disjE) simp_all
    with valid 2 obtain v where v: "isEventValid event = Inr v" "truthy v" by auto
    from 2 ns v have h: "handler_latest env event = handleChannelControlEvent_latest env event"
      by (simp add: handler_latest_def)
    from n show ?thesis
    proof
      assume c: "name = ''ChangeChannel''"
      obtain channelMetadata channel
        where r: "get_path event [''directive'', ''payload'', ''channelMetadata'']
                    = Inr channelMetadata"
          "get_path event [''directive'', ''payload'', ''channel''] = Inr channel"
        using payload_read[OF pl] by blast
      from 2 c vp have p: "\<not> invalid_path (''/endpoints/'' @ ?id @ ''/channel?access_token=''
                                              @ to_string token)"
        by (simp add: control_path_def)
      from c dn h have "handler_latest env event = handleChangeChannelEvent_latest env event"
        by (simp add: handleChannelControlEvent_latest_def)
      with changeChannel_latest_request[OF gi gt pr r p nr] 2 c show ?thesis
        by (simp add: control_path_def)
    next
      assume c: "name = ''SkipChannels''"
      obtain channelCount
        where r: "get_path event [''directive'', ''payload'', ''channelCount''] = Inr channelCount"
        using payload_read[OF pl] by blast
      from 2 c vp have p: "\<not> invalid_path (''/endpoints/'' @ ?id @ ''/channel'')"
        by (simp add: control_path_def)
      from c dn h have "handler_latest env event = handleSkipChannelsEvent_latest env event"
        by (simp add: handleChannelControlEvent_latest_def)
      with skipChannels_latest_request[OF gi r p nr] 2 c show ?thesis
        by (simp add: control_path_def)
    qed
  next
    assume 3: "namespace = ''Alexa.InputController''"
    with sn have n: "name = ''SelectInput''"
      by (simp add: supported_names_simps)
    with valid 3 obtain v where v: "isEventValid event = Inr v" "truthy v" by auto
    obtain inp where r: "get_path event [''directive'', ''payload'', ''input''] = Inr inp"
      using payload_read[OF pl] by blast
    from 3 vp have p: "\<not> invalid_path (''/endpoints/'' @ ?id @ ''/input?access_token=''
                                          @ to_string token)"
      by (simp add: control_path_def)
    from 3 ns v have "handler_latest env event = handleInputControlEvent_latest env event"
      by (simp add: handler_latest_def)
    with input_latest_request[OF dn[unfolded n] gi gt pr r p nr] 3 show ?thesis
      by (simp add: control_path_def)
  next
    assume 4: "namespace = ''Alexa.StepSpeaker''"
    with sn have n: "name = ''SetMute'' \<or> name = ''AdjustVolume''"
      by (simp add: supported_names_simps)
    then have "name \<noteq> []" by (elim disjE) simp_all
    with valid 4 obtain v where v: "isEventValid event = Inr v" "truthy v" by auto
    obtain mute volumeSteps
      where r: "get_path event [''directive'', ''payload'', ''mute''] = Inr mute"
        "get_path event [''directive'', ''payload'', ''volumeSteps''] = Inr volumeSteps"
      using payload_read[OF pl] by blast
    from 4 vp have p: "\<not> invalid_path (''/endpoints/'' @ ?id @ ''/volume?accessToken=''
                                          @ to_string token)"
      by (simp add: control_path_def)
    from 4 ns v have "handler_latest env event = handleStepSpeakerEvent_latest env event"
      by (simp add: handler_latest_def)
    with stepSpeaker_latest_request[OF dn n gi gt pr r p nr] 4 show ?thesis
      by (simp add: control_path_def)
  next
    assume 5: "namespace = ''Alexa.PlaybackController''"
    with sn have n: "name \<in> set SUPPORTED_PLAYBACK_DIRECTIVES"
      by (simp add: supported_names_simps)
    from playback_name_props(1)[OF n] valid 5
    obtain v where v: "isEventValid event = Inr v" "truthy v" by auto
    from 5 vp have p: "\<not> invalid_path (''/endpoints/'' @ ?id @ ''/playback?accessToken=''
                                          @ to_string token)"
      by (simp add: control_path_def)
    from 5 ns v have "handler_latest env event = handlePlaybackControlEvent_latest env event"
      by (simp add: handler_latest_def)
    with playback_latest_request[OF dn n gi gt pr p nr] 5 show ?thesis
      by (simp add: control_path_def)
  qed
qed

text \<open>What a discovery reply publishes, whenever there is one.\<close>

lemma js_filter_Inr:
  "js_filter f xs = Inr ys \<Longrightarrow>
   ys = filter (\<lambda>x. case f x of Inr k \<Rightarrow> truthy k | Inl e \<Rightarrow> False) xs"
  by (induction xs arbitrary: ys) (auto simp: andThen_Inr_iff)

lemma js_map_Inr:
  "js_map g xs = Inr ys \<Longrightarrow> list_all2 (\<lambda>x y. g x = Inr y) xs ys"
  by (induction xs arbitrary: ys) (auto simp: andThen_Inr_iff)

lemma call_replace_Inr:
  "call_replace v a b = Inr s \<Longrightarrow> \<exists>i. v = JStr i \<and> s = replace a b i"
  by (cases v) auto

lemma mapEndpoint_latest_Inr:
  assumes "mapEndpoint_latest d = Inr y"
  shows "get_prop y ''endpointId'' = Inr (JStr (replace CHR ''.'' CHR ''#'' (device_id d)))"
proof -
  from assms obtain idv s where i: "get_prop d ''id'' = Inr idv"
    "call_replace idv CHR ''.'' CHR ''#'' = Inr s"
    "get_prop y ''endpointId'' = Inr (JStr s)"
    by (auto simp: mapEndpoint_latest_def andThen_Inr_iff)
  from call_replace_Inr[OF i(2)] obtain t where "idv = JStr t" "s = replace CHR ''.'' CHR ''#'' t"
    by blast
  with i show ?thesis by (simp add: device_id_def)
qed

lemma mapped_endpointIds:
  "list_all2 (\<lambda>d y. mapEndpoint_latest d = Inr y) ds ys \<Longrightarrow>
   map (\<lambda>endpoint. case get_prop endpoint ''endpointId'' of Inr v \<Rightarrow> v | Inl e \<Rightarrow> JUndefined) ys
     = map (\<lambda>d. JStr (replace CHR ''.'' CHR ''#'' (device_id d))) ds"
  by (induction rule: list_all2_induct) (simp_all add: mapEndpoint_latest_Inr)

lemma discovery_published:
  assumes "getDiscoveryReply env endpoints = Inr reply"
  shows "\<exists>ds. endpoints = JArr ds
           \<and> published_ids reply
               = map (\<lambda>d. JStr (replace CHR ''.'' CHR ''#'' (device_id d))) (filter kept_latest ds)"
proof -
  from assms obtain compatible
    where c: "filter_map isEndpointSupported_latest mapEndpoint_latest endpoints = Inr compatible"
      and r: "reply = getReply_latest env ''Alexa.Discovery'' ''Discover.Response''
                        (JObj [(''endpoints'', compatible)])"
    by (auto simp: getDiscoveryReply_def andThen_Inr_iff)
  from c obtain ds where ds: "endpoints = JArr ds"
    by (cases endpoints) auto
  with c obtain kept ys where k: "js_filter isEndpointSupported_latest ds = Inr kept"
    "js_map mapEndpoint_latest kept = Inr ys" "compatible = JArr ys"
    by (auto simp: andThen_Inr_iff)
  from js_filter_Inr[OF k(1)] have "kept = filter kept_latest ds"
    by (simp add: kept_latest_def[abs_def])
  with mapped_endpointIds[OF js_map_Inr[OF k(2)]] r k(3) ds show ?thesis
    by (simp add: published_ids_def getReply_latest_def)
qed

text \<open>
  Whatever a handler of the latest revision sends for a directive outside the discovery
  namespace, it sends to the device whose id is the inbound endpoint id with its first
  \<open>#\<close> as a dot.
\<close>

lemma post_latest_path:
  "\<forall>request\<in>set (fst (post_latest env path postData)).
     get_prop (fst request) ''path'' = Inr (JStr path)"
  by (simp add: post_latest_def httpPromise_latest_def options_latest Let_def
      split: reply.splits)

lemma addresses_andThen:
  assumes "\<And>x. m = Inr x \<Longrightarrow> list_all (addresses i) (fst (sync (f x)))"
  shows "list_all (addresses i) (fst (sync (andThen m f)))"
  using assms by (cases m) simp_all

lemma addresses_if:
  assumes "c \<Longrightarrow> list_all (addresses i) (fst (sync a))"
    and "\<not> c \<Longrightarrow> list_all (addresses i) (fst (sync b))"
  shows "list_all (addresses i) (fst (sync (if c then a else b)))"
  using assms by simp

lemma addresses_Inr:
  assumes "list_all (addresses i) (fst r)"
  shows "list_all (addresses i) (fst (sync (Inr r)))"
  using assms by simp

lemma addresses_post:
  assumes "prefix (''/endpoints/'' @ i @ ''/'') path"
  shows "list_all (addresses i)
           (fst (sync (case post_latest env path postData of
                         (requests, settled) \<Rightarrow> Inr (requests, k settled))))"
  using post_latest_path[of env path postData] assms
  by (simp add: list_all_iff addresses_def split: prod.splits)

lemma power_latest_addresses:
  assumes "getEndpointId event = Inr deviceId"
  shows "list_all (addresses deviceId) (fst (handlePowerControlEvent_latest env event))"
  unfolding handlePowerControlEvent_latest_def
  using assms
  by (intro addresses_andThen addresses_if addresses_Inr addresses_post)
     (auto simp: andThen_Inr_iff)

lemma changeChannel_latest_addresses:
  assumes "getEndpointId event = Inr deviceId"
  shows "list_all (addresses deviceId) (fst (handleChangeChannelEvent_latest env event))"
  unfolding handleChangeChannelEvent_latest_def
  using assms
  by (intro addresses_andThen addresses_if addresses_Inr addresses_post)
     (auto simp: andThen_Inr_iff)

lemma skipChannels_latest_addresses:
  assumes "getEndpointId event = Inr deviceId"
  shows "list_all (addresses deviceId) (fst (handleSkipChannelsEvent_latest env event))"
  unfolding handleSkipChannelsEvent_latest_def
  using assms
  by (intro addresses_andThen addresses_if addresses_Inr addresses_post)
     (auto simp: andThen_Inr_iff)

lemma channel_latest_addresses:
  assumes "getEndpointId event = Inr deviceId"
  shows "list_all (addresses deviceId) (fst (handleChannelControlEvent_latest env event))"
  unfolding handleChannelControlEvent_latest_def
  using changeChannel_latest_addresses[OF assms] skipChannels_latest_addresses[OF assms]
  by (intro addresses_andThen addresses_if addresses_Inr) simp_all

lemma input_latest_addresses:
  assumes "getEndpointId event = Inr deviceId"
  shows "list_all (addresses deviceId) (fst (handleInputControlEvent_latest env event))"
  unfolding handleInputControlEvent_latest_def
  using assms
  by (intro addresses_andThen addresses_if addresses_Inr addresses_post)
     (auto simp: andThen_Inr_iff)

lemma stepSpeaker_latest_addresses:
  assumes "getEndpointId event = Inr deviceId"
  shows "list_all (addresses deviceId) (fst (handleStepSpeakerEvent_latest env event))"
  unfolding handleStepSpeakerEvent_latest_def
  using assms
  by (intro addresses_andThen addresses_if addresses_Inr addresses_post)
     (auto simp: andThen_Inr_iff)

lemma playback_latest_addresses:
  assumes "getEndpointId event = Inr deviceId"
  shows "list_all (addresses deviceId) (fst (handlePlaybackControlEvent_latest env event))"
  unfolding handlePlaybackControlEvent_latest_def
  using assms
  by (intro addresses_andThen addresses_if addresses_Inr addresses_post)
     (auto simp: andThen_Inr_iff)

text \<open>
  Whatever the latest revision sends for a directive outside the discovery namespace, it
  sends to the device whose id is the inbound endpoint id with its first \<open>#\<close> as a
  dot.
\<close>

lemma control_addresses:
  assumes eid: "get_path event [''directive'', ''endpoint'', ''endpointId''] = Inr (JStr endpointId)"
    and nd: "get_path event [''directive'', ''header'', ''namespace'']
             \<noteq> Inr (JStr ''Alexa.Discovery'')"
  shows "list_all (addresses (replace CHR ''#'' CHR ''.'' endpointId))
           (fst (handler_latest env event))"
proof -
  have gi: "getEndpointId event = Inr (replace CHR ''#'' CHR ''.'' endpointId)"
    using eid by (simp add: getEndpointId_def)
  show ?thesis
    unfolding handler_latest_def
    using nd power_latest_addresses[OF gi] channel_latest_addresses[OF gi]
      input_latest_addresses[OF gi] stepSpeaker_latest_addresses[OF gi]
      playback_latest_addresses[OF gi]
    by (intro addresses_andThen addresses_if addresses_Inr) simp_all
qed

text \<open>
  C10. In the latest revision a discovery reply publishes, for every descriptor that its
  filter keeps, the device id with its first dot as \<open>#\<close>, and there is a reply
  whenever the descriptors are readable. Whatever request the handler issues for a
  directive outside the discovery namespace goes to the device whose id is the inbound
  endpoint id with its first \<open>#\<close> as a dot, and a control directive does issue its
  one request, at the path of that device, whenever the path is free of spaces and
  control characters and \<open>http.request\<close> accepts the request. Hence a directive that
  names an endpoint as discovery published it reaches the device under its own id,
  whenever that id has no \<open>#\<close> in it.
\<close>

theorem endpointId_round_trip:
  "(getDiscoveryReply env endpoints = Inr reply \<longrightarrow>
      (\<exists>ds. endpoints = JArr ds
         \<and> published_ids reply
             = map (\<lambda>d. JStr (replace CHR ''.'' CHR ''#'' (device_id d)))
                 (filter kept_latest ds)))
   \<and> (list_all readable_descriptor descriptors \<longrightarrow>
        (\<exists>reply. getDiscoveryReply env (JArr descriptors) = Inr reply))
   \<and> (get_path event [''directive'', ''endpoint'', ''endpointId''] = Inr (JStr endpointId)
       \<and> get_path event [''directive'', ''header'', ''namespace'']
           \<noteq> Inr (JStr ''Alexa.Discovery'') \<longrightarrow>
        list_all (addresses (replace CHR ''#'' CHR ''.'' endpointId))
          (fst (handler_latest env event)))
   \<and> (control_directive event namespace name endpointId token
       \<and> \<not> invalid_path (control_path namespace name
              (replace CHR ''#'' CHR ''.'' endpointId) (to_string token))
       \<and> (\<forall>q e. net env q \<noteq> Refused e) \<longrightarrow>
        (\<exists>request. fst (handler_latest env event) = [request]
           \<and> get_prop (fst request) ''path''
               = Inr (JStr (control_path namespace name
                              (replace CHR ''#'' CHR ''.'' endpointId) (to_string token)))))
   \<and> (CHR ''#'' \<notin> set deviceId
       \<and> get_path event [''directive'', ''endpoint'', ''endpointId'']
           = Inr (JStr (replace CHR ''.'' CHR ''#'' deviceId))
       \<and> get_path event [''directive'', ''header'', ''namespace'']
           \<noteq> Inr (JStr ''Alexa.Discovery'') \<longrightarrow>
        list_all (addresses deviceId) (fst (handler_latest env event)))"
proof -
  have A: "getDiscoveryReply env endpoints = Inr reply \<longrightarrow>
      (\<exists>ds. endpoints = JArr ds
         \<and> published_ids reply
             = map (\<lambda>d. JStr (replace CHR ''.'' CHR ''#'' (device_id d)))
                 (filter kept_latest ds))"
    using discovery_published[of env endpoints reply] by (rule impI)
  have B: "list_all readable_descriptor descriptors \<longrightarrow>
        (\<exists>reply. getDiscoveryReply env (JArr descriptors) = Inr reply)"
    using discovery_publishes[of descriptors env] by blast
  have C: "get_path event [''directive'', ''endpoint'', ''endpointId''] = Inr (JStr endpointId)
       \<and> get_path event [''directive'', ''header'', ''namespace'']
           \<noteq> Inr (JStr ''Alexa.Discovery'') \<longrightarrow>
        list_all (addresses (replace CHR ''#'' CHR ''.'' endpointId))
          (fst (handler_latest env event))"
    using control_addresses[of event endpointId env] by (intro impI) (elim conjE)
  have D: "control_directive event namespace name endpointId token
       \<and> \<not> invalid_path (control_path namespace name
              (replace CHR ''#'' CHR ''.'' endpointId) (to_string token))
       \<and> (\<forall>q e. net env q \<noteq> Refused e) \<longrightarrow>
        (\<exists>request. fst (handler_latest env event) = [request]
           \<and> get_prop (fst request) ''path''
               = Inr (JStr (control_path namespace name
                              (replace CHR ''#'' CHR ''.'' endpointId) (to_string token))))"
  proof (intro impI, elim conjE)
    assume c: "control_directive event namespace name endpointId token"
      and vp: "\<not> invalid_path (control_path namespace name
              (replace CHR ''#'' CHR ''.'' endpointId) (to_string token))"
      and nr: "\<forall>q e. net env q \<noteq> Refused e"
    from c obtain payload
      where pl: "get_path event [''directive'', ''payload''] = Inr payload"
        "payload \<noteq> JUndefined" "payload \<noteq> JNull"
      unfolding control_directive_def
      by (cases "get_path event [''directive'', ''payload'']") simp_all
    from c have r: "get_path event [''directive'', ''header'', ''namespace''] = Inr (JStr namespace)"
      "get_path event [''directive'', ''header'', ''name''] = Inr (JStr name)"
      "namespace \<in> set control_namespaces" "name \<in> set (supported_names namespace)"
      "get_path event [''directive'', ''endpoint'', ''endpointId''] = Inr (JStr endpointId)"
      "get_path event [''directive'', ''endpoint'', ''scope'', ''token''] = Inr token"
      "printable token"
      unfolding control_directive_def by blast+
    from control_rewrites[OF r pl vp nr]
    show "\<exists>request. fst (handler_latest env event) = [request]
           \<and> get_prop (fst request) ''path''
               = Inr (JStr (control_path namespace name
                              (replace CHR ''#'' CHR ''.'' endpointId) (to_string token)))" .
  qed
  have E: "CHR ''#'' \<notin> set deviceId
       \<and> get_path event [''directive'', ''endpoint'', ''endpointId'']
           = Inr (JStr (replace CHR ''.'' CHR ''#'' deviceId))
       \<and> get_path event [''directive'', ''header'', ''namespace'']
           \<noteq> Inr (JStr ''Alexa.Discovery'') \<longrightarrow>
        list_all (addresses deviceId) (fst (handler_latest env event))"
  proof (intro impI, elim conjE)
    assume h: "CHR ''#'' \<notin> set deviceId"
      "get_path event [''directive'', ''endpoint'', ''endpointId'']
           = Inr (JStr (replace CHR ''.'' CHR ''#'' deviceId))"
      "get_path event [''directive'', ''header'', ''namespace'']
           \<noteq> Inr (JStr ''Alexa.Discovery'')"
    from control_addresses[OF h(2,3), of env] replace_back[OF h(1), of "CHR ''.''"]
    show "list_all (addresses deviceId) (fst (handler_latest env event))" by simp
  qed
  from A B C D E show ?thesis by (intro conjI)
qed

theorem endpointId_round_trip_witness:
  "(\<exists>reply. getDiscoveryReply (env_of (Response 200 [] [''{\"state\":\"on\"}'']))
              (JArr [zway_descriptor]) = Inr reply
        \<and> published_ids reply = [JStr ''ZWayVDev_zway_2#0''])
   \<and> list_all (addresses ''ZWayVDev_zway_2.0'')
        (fst (handler_latest (env_of (Response 200 [] [''{\"state\":\"on\"}''])) zway_turnOn))
   \<and> (\<exists>request. fst (handler_latest (env_of (Response 200 [] [''{\"state\":\"on\"}'']))
                        zway_turnOn) = [request]
        \<and> get_prop (fst request) ''path''
            = Inr (JStr ''/endpoints/ZWayVDev_zway_2.0/power?access_token=t0k''))"
proof -
  let ?env = "env_of (Response 200 [] [''{\"state\":\"on\"}''])"
  have c: "control_directive zway_turnOn ''Alexa.PowerController'' ''TurnOn''
             ''ZWayVDev_zway_2#0'' (JStr ''t0k'')"
    by (simp add: control_directive_def zway_turnOn_def control_namespaces_def
        supported_names_simps)
  have e: "get_path zway_turnOn [''directive'', ''endpoint'', ''endpointId'']
             = Inr (JStr ''ZWayVDev_zway_2#0'')"
    and n: "get_path zway_turnOn [''directive'', ''header'', ''namespace'']
             \<noteq> Inr (JStr ''Alexa.Discovery'')"
    and i: "\<forall>q e. net ?env q \<noteq> Refused e"
    by (simp_all add: zway_turnOn_def env_of_def)
  have k: "list_all readable_descriptor [zway_descriptor]"
    "filter kept_latest [zway_descriptor] = [zway_descriptor]"
    "device_id zway_descriptor = ''ZWayVDev_zway_2.0''"
    by (simp_all add: readable_descriptor_def kept_latest_def device_id_def zway_descriptor_def
        isEndpointSupported_latest_def js_and_def SUPPORTED_ENDPOINT_TYPES_latest_def)
  have p: "control_path ''Alexa.PowerController'' ''TurnOn''
             (replace CHR ''#'' CHR ''.'' ''ZWayVDev_zway_2#0'') (to_string (JStr ''t0k''))
           = ''/endpoints/ZWayVDev_zway_2.0/power?access_token=t0k''"
    "\<not> invalid_path ''/endpoints/ZWayVDev_zway_2.0/power?access_token=t0k''"
    "replace CHR ''.'' CHR ''#'' ''ZWayVDev_zway_2.0'' = ''ZWayVDev_zway_2#0''"
    "CHR ''#'' \<notin> set ''ZWayVDev_zway_2.0''"
    by (simp_all add: control_path_def invalid_path_def)
  from endpointId_round_trip[where env = ?env and descriptors = "[zway_descriptor]"] k(1)
  obtain reply where r: "getDiscoveryReply ?env (JArr [zway_descriptor]) = Inr reply"
    by blast
  from endpointId_round_trip[where env = ?env and endpoints = "JArr [zway_descriptor]"
      and reply = reply] r k(2,3) p(3)
  have A: "published_ids reply = [JStr ''ZWayVDev_zway_2#0'']"
    by simp
  from endpointId_round_trip[where env = ?env and event = zway_turnOn
      and namespace = "''Alexa.PowerController''" and name = "''TurnOn''"
      and endpointId = "''ZWayVDev_zway_2#0''" and token = "JStr ''t0k''"
      and deviceId = "''ZWayVDev_zway_2.0''"] c e n i p
  have B: "list_all (addresses ''ZWayVDev_zway_2.0'') (fst (handler_latest ?env zway_turnOn))
     \<and> (\<exists>request. fst (handler_latest ?env zway_turnOn) = [request]
        \<and> get_prop (fst request) ''path''
            = Inr (JStr ''/endpoints/ZWayVDev_zway_2.0/power?access_token=t0k''))"
    by simp
  from r A B show ?thesis by blast
qed

end
